theory Spec2Isabelle
  imports Main "HOL-Library.Word"
begin

unbundle bit_operations_syntax

section \<open>AXHS.h: scalar types\<close>

text \<open>
  The header fixes its scalar types itself: \<^verbatim>\<open>typedef unsigned long int DWORD\<close>,
  \<^verbatim>\<open>unsigned short int WORD\<close>, \<^verbatim>\<open>unsigned char BYTE\<close>, \<^verbatim>\<open>int BOOL\<close>. The library is a
  \<^verbatim>\<open>__stdcall\<close> Windows DLL, where \<^verbatim>\<open>long\<close> and \<^verbatim>\<open>int\<close> are 32 bits wide. The headers
  declare no arithmetic on \<^verbatim>\<open>double\<close> values, which are only stored and handed over: a
  \<^verbatim>\<open>double\<close> is kept as its 64 bits.
\<close>

type_synonym DWORD = "32 word"
type_synonym WORD = "16 word"
type_synonym BYTE = "8 word"
type_synonym BOOL = "32 word"
type_synonym long = "32 word"
type_synonym double = "64 word"

section \<open>Declarations as data\<close>

text \<open>
  Both headers consist of declarations only. A declared type is a value of \<open>ctype\<close>
  (typedef names are kept as written), a struct declaration is the list of its members in
  order, and a function prototype records its source line, return type, calling
  convention, name and parameter list.
\<close>

datatype ctype =
    C_void | C_char | C_long | C_double | C_BOOL | C_BYTE | C_WORD | C_DWORD
  | C_HANDLE | C_HWND | C_AXT_INTERRUPT_PROC | C_PMOTION_INFO
  | C_struct string
  | Ptr ctype
  | C_array ctype nat

type_synonym member = "ctype \<times> string"

datatype callconv = Stdcall | Cdecl

datatype prototype =
  Prototype (line: nat) (ret: ctype) (conv: callconv) (fname: string) (params: "member list")

text \<open>
  A parameter through which the callee can hand data back: a \<^verbatim>\<open>T *\<close> parameter, or
  \<^verbatim>\<open>PMOTION_INFO\<close>, which AXHS.h declares as \<^verbatim>\<open>*PMOTION_INFO\<close> next to \<^verbatim>\<open>MOTION_INFO\<close>.
\<close>

fun is_data_pointer :: "ctype \<Rightarrow> bool" where
  "is_data_pointer (Ptr t) = True"
| "is_data_pointer C_PMOTION_INFO = True"
| "is_data_pointer t = False"

fun starts_with :: "string \<Rightarrow> string \<Rightarrow> bool" where
  "starts_with [] s = True"
| "starts_with (c # cs) [] = False"
| "starts_with (c # cs) (d # ds) = (c = d \<and> starts_with cs ds)"

fun contains :: "string \<Rightarrow> string \<Rightarrow> bool" where
  "contains pat [] = starts_with pat []"
| "contains pat (d # ds) = (starts_with pat (d # ds) \<or> contains pat ds)"

section \<open>AXHS.h: AXT_FUNC_RESULT\<close>

text \<open>
  The enumeration \<^verbatim>\<open>AXT_FUNC_RESULT\<close> (AXHS.h, lines 291 to 801), one entry per enumerator
  in declaration order: the identifier and the value the header assigns to it. Every
  enumerator of the header has an explicit initialiser.
\<close>

definition AXT_FUNC_RESULT :: "(string \<times> int) list" where
  "AXT_FUNC_RESULT = [
    (''AXT_RT_SUCCESS'', 0),
    (''AXT_RT_OPEN_ERROR'', 1001),
    (''AXT_RT_OPEN_ALREADY'', 1002),
    (''AXT_RT_NOT_INITIAL'', 1052),
    (''AXT_RT_NOT_OPEN'', 1053),
    (''AXT_RT_NOT_SUPPORT_VERSION'', 1054),
    (''AXT_RT_LOCK_FILE_MISMATCH'', 1055),
    (''AXT_RT_MASTER_VERSION_MISMATCH'', 1056),
    (''AXT_RT_NOT_RUN_EZMANAGER'', 1057),
    (''AXT_RT_NOT_FIND_BIN_FILE'', 1058),
    (''AXT_RT_NOT_FIND_ENI_FILE'', 1059),
    (''AXT_RT_NOT_FIND_CONFIG_FILE'', 1060),
    (''AXT_RT_RTOS_OPEN_ERROR'', 1061),
    (''AXT_RT_SLAVE_CONFIG_ERROR'', 1062),
    (''AXT_RT_SLAVE_OP_TIMEOUT_WARNING'', 1063),
    (''AXT_RT_SLAVE_NOT_OP'', 1064),
    (''AXT_RT_RESCAN_NOT_EXIST_BOARD'', 1065),
    (''AXT_RT_RESCAN_TIMEOUT'', 1066),
    (''AXT_RT_BAD_PARAMETER'', 1070),
    (''AXT_RT_INVALID_HARDWARE'', 1100),
    (''AXT_RT_INVALID_BOARD_NO'', 1101),
    (''AXT_RT_INVALID_MODULE_POS'', 1102),
    (''AXT_RT_INVALID_LEVEL'', 1103),
    (''AXT_RT_INVALID_VARIABLE'', 1104),
    (''AXT_RT_INVALID_MODULE_NO'', 1105),
    (''AXT_RT_INVALID_NO'', 1106),
    (''AXT_RT_ERROR_VERSION_READ'', 1151),
    (''AXT_RT_NETWORK_ERROR'', 1152),
    (''AXT_RT_NETWORK_LOCK_MISMATCH'', 1153),
    (''AXT_RT_1ST_BELOW_MIN_VALUE'', 1160),
    (''AXT_RT_1ST_ABOVE_MAX_VALUE'', 1161),
    (''AXT_RT_2ND_BELOW_MIN_VALUE'', 1170),
    (''AXT_RT_2ND_ABOVE_MAX_VALUE'', 1171),
    (''AXT_RT_3RD_BELOW_MIN_VALUE'', 1180),
    (''AXT_RT_3RD_ABOVE_MAX_VALUE'', 1181),
    (''AXT_RT_4TH_BELOW_MIN_VALUE'', 1190),
    (''AXT_RT_4TH_ABOVE_MAX_VALUE'', 1191),
    (''AXT_RT_5TH_BELOW_MIN_VALUE'', 1200),
    (''AXT_RT_5TH_ABOVE_MAX_VALUE'', 1201),
    (''AXT_RT_6TH_BELOW_MIN_VALUE'', 1210),
    (''AXT_RT_6TH_ABOVE_MAX_VALUE'', 1211),
    (''AXT_RT_7TH_BELOW_MIN_VALUE'', 1220),
    (''AXT_RT_7TH_ABOVE_MAX_VALUE'', 1221),
    (''AXT_RT_8TH_BELOW_MIN_VALUE'', 1230),
    (''AXT_RT_8TH_ABOVE_MAX_VALUE'', 1231),
    (''AXT_RT_9TH_BELOW_MIN_VALUE'', 1240),
    (''AXT_RT_9TH_ABOVE_MAX_VALUE'', 1241),
    (''AXT_RT_10TH_BELOW_MIN_VALUE'', 1250),
    (''AXT_RT_10TH_ABOVE_MAX_VALUE'', 1251),
    (''AXT_RT_11TH_BELOW_MIN_VALUE'', 1252),
    (''AXT_RT_11TH_ABOVE_MAX_VALUE'', 1253),
    (''AXT_RT_AIO_OPEN_ERROR'', 2001),
    (''AXT_RT_AIO_NOT_MODULE'', 2051),
    (''AXT_RT_AIO_NOT_EVENT'', 2052),
    (''AXT_RT_AIO_INVALID_MODULE_NO'', 2101),
    (''AXT_RT_AIO_INVALID_CHANNEL_NO'', 2102),
    (''AXT_RT_AIO_INVALID_USE'', 2106),
    (''AXT_RT_AIO_INVALID_TRIGGER_MODE'', 2107),
    (''AXT_RT_AIO_EXTERNAL_DATA_EMPTY'', 2108),
    (''AXT_RT_AIO_INVALID_VALUE'', 2109),
    (''AXT_RT_AIO_UPG_ALEADY_ENABLED'', 2110),
    (''AXT_RT_DIO_OPEN_ERROR'', 3001),
    (''AXT_RT_DIO_NOT_MODULE'', 3051),
    (''AXT_RT_DIO_NOT_INTERRUPT'', 3052),
    (''AXT_RT_DIO_INVALID_MODULE_NO'', 3101),
    (''AXT_RT_DIO_INVALID_OFFSET_NO'', 3102),
    (''AXT_RT_DIO_INVALID_LEVEL'', 3103),
    (''AXT_RT_DIO_INVALID_MODE'', 3104),
    (''AXT_RT_DIO_INVALID_VALUE'', 3105),
    (''AXT_RT_DIO_INVALID_USE'', 3106),
    (''AXT_RT_DIO_INVALID_LINK'', 3107),
    (''AXT_RT_DIO_INTERLOCK_NOT_ENABLED'', 3108),
    (''AXT_RT_DIO_INTERLOCK_NOT_SAME_BOARD'', 3109),
    (''AXT_RT_CNT_OPEN_ERROR'', 3201),
    (''AXT_RT_CNT_NOT_MODULE'', 3251),
    (''AXT_RT_CNT_NOT_INTERRUPT'', 3252),
    (''AXT_RT_CNT_NOT_TRIGGER_ENABLE'', 3253),
    (''AXT_RT_CNT_INVALID_MODULE_NO'', 3301),
    (''AXT_RT_CNT_INVALID_CHANNEL_NO'', 3302),
    (''AXT_RT_CNT_INVALID_OFFSET_NO'', 3303),
    (''AXT_RT_CNT_INVALID_LEVEL'', 3304),
    (''AXT_RT_CNT_INVALID_MODE'', 3305),
    (''AXT_RT_CNT_INVALID_VALUE'', 3306),
    (''AXT_RT_CNT_INVALID_USE'', 3307),
    (''AXT_RT_CNT_CMD_EXE_TIMEOUT'', 3308),
    (''AXT_RT_CNT_INVALID_VELOCITY'', 3309),
    (''AXT_RT_PROTECTED_DURING_PWMENABLE'', 3310),
    (''AXT_RT_CNT_INVALID_TABLEPOS'', 3311),
    (''AXT_RT_CNT_DIMENSION_ERROR'', 3312),
    (''AXT_RT_CNT_INVALID_RANGE'', 3313),
    (''AXT_RT_COM_OPEN_ERROR'', 3401),
    (''AXT_RT_COM_NOT_OPEN'', 3402),
    (''AXT_RT_COM_ALREADY_IN_USE'', 3403),
    (''AXT_RT_COM_NOT_MODULE'', 3451),
    (''AXT_RT_COM_NOT_INTERRUPT'', 3452),
    (''AXT_RT_COM_INVALID_MODULE_NO'', 3501),
    (''AXT_RT_COM_INVALID_PORT_NO'', 3502),
    (''AXT_RT_COM_INVALID_OFFSET_NO'', 3503),
    (''AXT_RT_COM_INVALID_LEVEL'', 3504),
    (''AXT_RT_COM_INVALID_MODE'', 3505),
    (''AXT_RT_COM_INVALID_VALUE'', 3506),
    (''AXT_RT_COM_INVALID_USE'', 3507),
    (''AXT_RT_COM_INVALID_BAUDRATE'', 3508),
    (''AXT_RT_MOTION_OPEN_ERROR'', 4001),
    (''AXT_RT_MOTION_NOT_MODULE'', 4051),
    (''AXT_RT_MOTION_NOT_INTERRUPT'', 4052),
    (''AXT_RT_MOTION_NOT_INITIAL_AXIS_NO'', 4053),
    (''AXT_RT_MOTION_NOT_IN_CONT_INTERPOL'', 4054),
    (''AXT_RT_MOTION_NOT_PARA_READ'', 4055),
    (''AXT_RT_MOTION_INVALID_AXIS_NO'', 4101),
    (''AXT_RT_MOTION_INVALID_METHOD'', 4102),
    (''AXT_RT_MOTION_INVALID_USE'', 4103),
    (''AXT_RT_MOTION_INVALID_LEVEL'', 4104),
    (''AXT_RT_MOTION_INVALID_BIT_NO'', 4105),
    (''AXT_RT_MOTION_INVALID_STOP_MODE'', 4106),
    (''AXT_RT_MOTION_INVALID_TRIGGER_MODE'', 4107),
    (''AXT_RT_MOTION_INVALID_TRIGGER_LEVEL'', 4108),
    (''AXT_RT_MOTION_INVALID_SELECTION'', 4109),
    (''AXT_RT_MOTION_INVALID_TIME'', 4110),
    (''AXT_RT_MOTION_INVALID_FILE_LOAD'', 4111),
    (''AXT_RT_MOTION_INVALID_FILE_SAVE'', 4112),
    (''AXT_RT_MOTION_INVALID_VELOCITY'', 4113),
    (''AXT_RT_MOTION_INVALID_ACCELTIME'', 4114),
    (''AXT_RT_MOTION_INVALID_PULSE_VALUE'', 4115),
    (''AXT_RT_MOTION_INVALID_NODE_NUMBER'', 4116),
    (''AXT_RT_MOTION_INVALID_TARGET'', 4117),
    (''AXT_RT_MOTION_SSTOPCMD_ALREADY_IN_EXECUTION'', 4150),
    (''AXT_RT_MOTION_ERROR_IN_NONMOTION'', 4151),
    (''AXT_RT_MOTION_ERROR_IN_MOTION'', 4152),
    (''AXT_RT_MOTION_ERROR'', 4153),
    (''AXT_RT_MOTION_ERROR_GANTRY_ENABLE'', 4154),
    (''AXT_RT_MOTION_ERROR_GANTRY_AXIS'', 4155),
    (''AXT_RT_MOTION_ERROR_MASTER_SERVOON'', 4156),
    (''AXT_RT_MOTION_ERROR_SLAVE_SERVOON'', 4157),
    (''AXT_RT_MOTION_INVALID_POSITION'', 4158),
    (''AXT_RT_ERROR_NOT_SAME_MODULE'', 4159),
    (''AXT_RT_ERROR_NOT_SAME_BOARD'', 4160),
    (''AXT_RT_ERROR_NOT_SAME_PRODUCT'', 4161),
    (''AXT_RT_NOT_CAPTURED'', 4162),
    (''AXT_RT_ERROR_NOT_SAME_IC'', 4163),
    (''AXT_RT_ERROR_NOT_GEARMODE'', 4164),
    (''AXT_ERROR_CONTI_INVALID_AXIS_NO'', 4165),
    (''AXT_ERROR_CONTI_INVALID_MAP_NO'', 4166),
    (''AXT_ERROR_CONTI_EMPTY_MAP_NO'', 4167),
    (''AXT_RT_MOTION_ERROR_CACULATION'', 4168),
    (''AXT_RT_ERROR_MOVE_SENSOR_CHECK'', 4169),
    (''AXT_ERROR_HELICAL_INVALID_AXIS_NO'', 4170),
    (''AXT_ERROR_HELICAL_INVALID_MAP_NO'', 4171),
    (''AXT_ERROR_HELICAL_EMPTY_MAP_NO'', 4172),
    (''AXT_ERROR_HELICAL_ZPOS_DISTANCE_ZERO'', 4173),
    (''AXT_ERROR_SPLINE_INVALID_AXIS_NO'', 4180),
    (''AXT_ERROR_SPLINE_INVALID_MAP_NO'', 4181),
    (''AXT_ERROR_SPLINE_EMPTY_MAP_NO'', 4182),
    (''AXT_ERROR_SPLINE_NUM_ERROR'', 4183),
    (''AXT_RT_MOTION_INTERPOL_VALUE'', 4184),
    (''AXT_RT_ERROR_NOT_CONTIBEGIN'', 4185),
    (''AXT_RT_ERROR_NOT_CONTIEND'', 4186),
    (''AXT_RT_MOTION_HOME_SEARCHING'', 4201),
    (''AXT_RT_MOTION_HOME_ERROR_SEARCHING'', 4202),
    (''AXT_RT_MOTION_HOME_ERROR_START'', 4203),
    (''AXT_RT_MOTION_HOME_ERROR_GANTRY'', 4204),
    (''AXT_RT_MOTION_READ_ALARM_WAITING'', 4210),
    (''AXT_RT_MOTION_READ_ALARM_NO_REQUEST'', 4211),
    (''AXT_RT_MOTION_READ_ALARM_TIMEOUT'', 4212),
    (''AXT_RT_MOTION_READ_ALARM_FAILED'', 4213),
    (''AXT_RT_MOTION_READ_ALARM_UNKNOWN'', 4220),
    (''AXT_RT_MOTION_READ_ALARM_FILES'', 4221),
    (''AXT_RT_MOTION_READ_ALARM_NOT_DETECTED'', 4222),
    (''AXT_RT_MOTION_POSITION_OUTOFBOUND'', 4251),
    (''AXT_RT_MOTION_PROFILE_INVALID'', 4252),
    (''AXT_RT_MOTION_VELOCITY_OUTOFBOUND'', 4253),
    (''AXT_RT_MOTION_MOVE_UNIT_IS_ZERO'', 4254),
    (''AXT_RT_MOTION_SETTING_ERROR'', 4255),
    (''AXT_RT_MOTION_IN_CONT_INTERPOL'', 4256),
    (''AXT_RT_MOTION_DISABLE_TRIGGER'', 4257),
    (''AXT_RT_MOTION_INVALID_CONT_INDEX'', 4258),
    (''AXT_RT_MOTION_CONT_QUEUE_FULL'', 4259),
    (''AXT_RT_PROTECTED_DURING_SERVOON'', 4260),
    (''AXT_RT_HW_ACCESS_ERROR'', 4261),
    (''AXT_RT_HW_DPRAM_CMD_WRITE_ERROR_LV1'', 4262),
    (''AXT_RT_HW_DPRAM_CMD_WRITE_ERROR_LV2'', 4263),
    (''AXT_RT_HW_DPRAM_CMD_WRITE_ERROR_LV3'', 4264),
    (''AXT_RT_HW_DPRAM_CMD_READ_ERROR_LV1'', 4265),
    (''AXT_RT_HW_DPRAM_CMD_READ_ERROR_LV2'', 4266),
    (''AXT_RT_HW_DPRAM_CMD_READ_ERROR_LV3'', 4267),
    (''AXT_RT_COMPENSATION_SET_PARAM_FIRST'', 4300),
    (''AXT_RT_COMPENSATION_NOT_INIT'', 4301),
    (''AXT_RT_COMPENSATION_POS_OUTOFBOUND'', 4302),
    (''AXT_RT_COMPENSATION_BACKLASH_NOT_INIT'', 4303),
    (''AXT_RT_COMPENSATION_INVALID_ENTRY'', 4304),
    (''AXT_RT_SEQ_NOT_IN_SERVICE'', 4400),
    (''AXT_ERROR_SEQ_INVALID_MAP_NO'', 4401),
    (''AXT_ERROR_INVALID_AXIS_NO'', 4402),
    (''AXT_RT_ERROR_NOT_SEQ_NODE_BEGIN'', 4403),
    (''AXT_RT_ERROR_NOT_SEQ_NODE_END'', 4404),
    (''AXT_RT_ERROR_NO_NODE'', 4405),
    (''AXT_RT_ERROR_SEQ_STOP_TIMEOUT'', 4406),
    (''AXT_RT_ERROR_INVALID_SEQ_MASTER_AXIS_NO'', 4407),
    (''AXT_RT_ERROR_RING_COUNTER_ENABLE'', 4420),
    (''AXT_RT_ERROR_RING_COUNTER_OUT_OF_RANGE'', 4421),
    (''AXT_RT_ERROR_SOFT_LIMIT_ENABLE'', 4430),
    (''AXT_RT_ERROR_SOFT_LIMIT_NEGATIVE'', 4431),
    (''AXT_RT_ERROR_SOFT_LIMIT_POSITIVE'', 4432),
    (''AXT_RT_M3_COMMUNICATION_FAILED'', 4500),
    (''AXT_RT_MOTION_ONE_OF_AXES_IS_NOT_M3'', 4501),
    (''AXT_RT_MOTION_BIGGER_VEL_THEN_MAX_VEL'', 4502),
    (''AXT_RT_MOTION_SMALLER_VEL_THEN_MAX_VEL'', 4503),
    (''AXT_RT_MOTION_ACCEL_MUST_BIGGER_THEN_ZERO'', 4504),
    (''AXT_RT_MOTION_SMALL_ACCEL_WITH_UNIT_PULSE'', 4505),
    (''AXT_RT_MOTION_INVALID_INPUT_ACCEL'', 4506),
    (''AXT_RT_MOTION_SMALL_DECEL_WITH_UNIT_PULSE'', 4507),
    (''AXT_RT_MOTION_INVALID_INPUT_DECEL'', 4508),
    (''AXT_RT_MOTION_SAME_START_AND_CENTER_POS'', 4509),
    (''AXT_RT_MOTION_INVALID_JERK'', 4510),
    (''AXT_RT_MOTION_INVALID_INPUT_VALUE'', 4511),
    (''AXT_RT_MOTION_NOT_SUPPORT_PROFILE'', 4512),
    (''AXT_RT_MOTION_INPOS_UNUSED'', 4513),
    (''AXT_RT_MOTION_AXIS_IN_SLAVE_STATE'', 4514),
    (''AXT_RT_MOTION_AXES_ARE_NOT_SAME_BOARD'', 4515),
    (''AXT_RT_MOTION_ERROR_IN_ALARM'', 4516),
    (''AXT_RT_MOTION_ERROR_IN_EMGN'', 4517),
    (''AXT_RT_MOTION_CAN_NOT_CHANGE_COORD_NO'', 4518),
    (''AXT_RT_MOTION_INVALID_INTERNAL_RADIOUS'', 4519),
    (''AXT_RT_MOTION_CONTI_QUEUE_FULL'', 4521),
    (''AXT_RT_MOTION_SAME_START_AND_END_POSITION'', 4522),
    (''AXT_RT_MOTION_INVALID_ANGLE'', 4523),
    (''AXT_RT_MOTION_CONTI_QUEUE_EMPTY'', 4524),
    (''AXT_RT_MOTION_ERROR_GEAR_ENABLE'', 4525),
    (''AXT_RT_MOTION_ERROR_GEAR_AXIS'', 4526),
    (''AXT_RT_MOTION_ERROR_NO_GANTRY_ENABLE'', 4527),
    (''AXT_RT_MOTION_ERROR_NO_GEAR_ENABLE'', 4528),
    (''AXT_RT_MOTION_ERROR_GANTRY_ENABLE_FULL'', 4529),
    (''AXT_RT_MOTION_ERROR_GEAR_ENABLE_FULL'', 4530),
    (''AXT_RT_MOTION_ERROR_NO_GANTRY_SLAVE'', 4531),
    (''AXT_RT_MOTION_ERROR_NO_GEAR_SLAVE'', 4532),
    (''AXT_RT_MOTION_ERROR_MASTER_SLAVE_SAME'', 4533),
    (''AXT_RT_MOTION_NOT_SUPPORT_HOMESIGNAL'', 4534),
    (''AXT_RT_MOTION_ERROR_NOT_SYNC_CONNECT'', 4535),
    (''AXT_RT_MOTION_OVERFLOW_POSITION'', 4536),
    (''AXT_RT_MOTION_ERROR_INVALID_CONTIMAPAXIS'', 4537),
    (''AXT_RT_MOTION_ERROR_INVALID_CONTIMAPSIZE'', 4538),
    (''AXT_RT_MOTION_ERROR_IN_SERVO_OFF'', 4539),
    (''AXT_RT_MOTION_ERROR_POSITIVE_LIMIT'', 4540),
    (''AXT_RT_MOTION_ERROR_NEGATIVE_LIMIT'', 4541),
    (''AXT_RT_MOTION_ERROR_OVERFLOW_SWPROFILE_NUM'', 4542),
    (''AXT_RT_PROTECTED_DURING_INMOTION'', 4543),
    (''AXT_ERROR_SYNC_INVALID_AXIS_NO'', 4600),
    (''AXT_ERROR_SYNC_INVALID_MAP_NO'', 4601),
    (''AXT_ERROR_SYNC_DUPLICATED_TIME'', 4602),
    (''AXT_RT_DATA_FLASH_NOT_EXIST'', 5000),
    (''AXT_RT_DATA_FLASH_BUSY'', 5001),
    (''AXT_RT_QUEUE_CMD_ERROR'', 5010),
    (''AXT_RT_QUEUE_CMD_WAIT_ERROR'', 5011),
    (''AXT_RT_QUEUE_CMD_WAIT_TIMEOUT'', 5012),
    (''AXT_RT_QUEUE_RSP_ERROR'', 5015),
    (''AXT_RT_QUEUE_RSP_WAIT_ERROR'', 5016),
    (''AXT_RT_QUEUE_RSP_WAIT_TIMEOUT'', 5017),
    (''AXT_RT_MOTION_STILL_CONTI_MOTION'', 5018),
    (''AXT_RT_MOTION_INVALD_SET'', 6000),
    (''AXT_RT_MOTION_INVALD_RESET'', 6001),
    (''AXT_RT_MOTION_INVALD_ENABLE'', 6002),
    (''AXT_RT_LICENSE_INVALID'', 6500),
    (''AXT_RT_MONITOR_IN_OPERATION'', 6600),
    (''AXT_RT_MONITOR_NOT_OPERATION'', 6601),
    (''AXT_RT_MONITOR_EMPTY_QUEUE'', 6602),
    (''AXT_RT_MONITOR_INVALID_TRIGGER_OPTION'', 6603),
    (''AXT_RT_MONITOR_EMPTY_ITEM'', 6604),
    (''AXT_RT_MACRO_INVALID_MACRO_NO'', 6700),
    (''AXT_RT_MACRO_INVALID_NODE_NO'', 6701),
    (''AXT_RT_MACRO_INVALID_STOP_MODE'', 6702),
    (''AXT_RT_MACRO_MEMORY_MISMATCH'', 6703),
    (''AXT_RT_MACRO_CONTROL_LOCKED'', 6704),
    (''AXT_RT_MACRO_INVALID_STATUS'', 6705),
    (''AXT_RT_MACRO_INVALID_ARGUMENT'', 6706),
    (''AXT_RT_MACRO_NOT_NODE_BEGIN'', 6710),
    (''AXT_RT_MACRO_NOT_NODE_END'', 6711),
    (''AXT_RT_MACRO_ALREADY_BEGIN'', 6712),
    (''AXT_RT_MACRO_NODE_EMPTY'', 6713),
    (''AXT_RT_MACRO_IN_OPERATION'', 6714),
    (''AXT_RT_MACRO_NOT_OPERATION'', 6715),
    (''AXT_RT_MACRO_NOT_SUPPORT_FUNCTION'', 6716),
    (''AXT_RT_MACRO_NODE_FULL'', 6717),
    (''AXT_RT_MACRO_NODE_CHECK_ERROR'', 6720),
    (''AXT_RT_MACRO_NOT_CHECKED'', 6721),
    (''AXT_RT_MACRO_NOT_PAUSED'', 6722),
    (''AXT_MK_RT_INVALID_AXIS'', 7100),
    (''AXT_MK_RT_INVALID_AXIS_SIZE'', 7101),
    (''AXT_MK_RT_INVALID_COORD'', 7102),
    (''AXT_MK_RT_INVALID_COORD_SIZE'', 7103),
    (''AXT_MK_RT_INVALID_AXIS_MAP'', 7104),
    (''AXT_MK_RT_INVALID_AXIS_MAP_SIZE'', 7105),
    (''AXT_MK_RT_INVALID_VEL'', 7106),
    (''AXT_MK_RT_INVALID_END_VEL'', 7107),
    (''AXT_MK_RT_INVALID_ACCEL'', 7108),
    (''AXT_MK_RT_INVALID_DECEL'', 7109),
    (''AXT_MK_RT_INVALID_ABS_REL'', 7110),
    (''AXT_MK_RT_INVALID_PROFILE'', 7111),
    (''AXT_MK_RT_INVALID_STOP_DECEL'', 7112),
    (''AXT_MK_RT_INVALID_STOP_TIME'', 7113),
    (''AXT_MK_RT_INVALID_ACCEL_JERK_RATE'', 7114),
    (''AXT_MK_RT_INVALID_DECEL_JERK_RATE'', 7115),
    (''AXT_MK_RT_INVALID_ACCEL_UNIT'', 7116),
    (''AXT_MK_RT_INVALID_DISTANCE'', 7117),
    (''AXT_MK_RT_INVALID_ANGLE'', 7118),
    (''AXT_MK_RT_INVALID_BIT'', 7119),
    (''AXT_MK_RT_INVALID_PORT'', 7120),
    (''AXT_MK_RT_INVALID_SPLINE_INDEX'', 7121),
    (''AXT_MK_RT_INVALID_THREAD'', 7122),
    (''AXT_MK_RT_INVALID_TIMER'', 7123),
    (''AXT_MK_RT_INVALID_SEGMENT_COUNT'', 7124),
    (''AXT_MK_RT_INVALID_SEGMENT_NO'', 7125),
    (''AXT_MK_RT_INVALID_NODE_NO'', 7126),
    (''AXT_MK_RT_INVALID_HWQ_COUNT'', 7127),
    (''AXT_MK_RT_INVALID_NODE_SIZE'', 7128),
    (''AXT_MK_RT_INVALID_STOP_NODE_SIZE'', 7129),
    (''AXT_MK_RT_INVALID_SPLINE_SIZE'', 7130),
    (''AXT_MK_RT_INVALID_LINE_LINE_FILLET'', 7131),
    (''AXT_MK_RT_INVALID_LINE_ARC_FILLET'', 7132),
    (''AXT_MK_RT_INVALID_ARC_LINE_FILLET'', 7133),
    (''AXT_MK_RT_INVALID_ARC_ARC_FILLET'', 7134),
    (''AXT_MK_RT_INVALID_RESET_FILLET'', 7135),
    (''AXT_MK_RT_INVALID_TASK'', 7136),
    (''AXT_MK_RT_INVALID_ROUND_INDEX'', 7137),
    (''AXT_MK_RT_INVALID_LOG_DATA'', 7138),
    (''AXT_MK_RT_INVALID_LOG10_DATA'', 7139),
    (''AXT_MK_RT_INVALID_PORT_NO'', 7140),
    (''AXT_MK_RT_INVALID_BAUD_RATE'', 7141),
    (''AXT_MK_RT_INVALID_STOP_BIT'', 7142),
    (''AXT_MK_RT_INVALID_PARITY'', 7143),
    (''AXT_MK_RT_INVALID_EDGE'', 7144),
    (''AXT_MK_RT_INVALID_STOP_MODE'', 7145),
    (''AXT_MK_RT_INVALID_TRIGGER_TIME'', 7146),
    (''AXT_MK_RT_INVALID_TRIGGER_LEVEL'', 7147),
    (''AXT_MK_RT_INVALID_TRIGGER_SELECT'', 7148),
    (''AXT_MK_RT_INVALID_TRIGGER_INTERRUPT'', 7149),
    (''AXT_MK_RT_INVALID_TRIGGER_METHOD'', 7150),
    (''AXT_MK_RT_INVALID_TRIGGER_POSITION'', 7151),
    (''AXT_MK_RT_INVALID_TRIGGER_INDEX'', 7152),
    (''AXT_MK_RT_INVALID_ECAM_DATA'', 7153),
    (''AXT_MK_RT_INVALID_ECAM_POSITION'', 7154),
    (''AXT_MK_RT_INVALID_EGEAR_SIZE'', 7155),
    (''AXT_MK_RT_INVALID_INDEX'', 7156),
    (''AXT_MK_RT_INVALID_MOTION_MODE'', 7157),
    (''AXT_MK_RT_INVALID_SIGNAL'', 7158),
    (''AXT_MK_RT_INVALID_STOP_DISTANCE'', 7159),
    (''AXT_MK_RT_INVALID_DIRECTION'', 7160),
    (''AXT_MK_RT_INVALID_ZERO_VELOCITY'', 7161),
    (''AXT_MK_RT_INVALID_COORDINATE_INMOTION'', 7162),
    (''AXT_MK_RT_INVALID_COORDINATE_MOTIONDONE'', 7163),
    (''AXT_MK_RT_INVALID_BLENDING_MODE'', 7164),
    (''AXT_MK_RT_INVALID_BLENDING_VALUE'', 7165),
    (''AXT_MK_RT_INVALID_BLENDING_RATIO'', 7166),
    (''AXT_MK_RT_INVALID_EGEAR_RATIO'', 7167),
    (''AXT_MK_RT_INVALID_SLAVE_AXIS'', 7168),
    (''AXT_MK_RT_INVALID_OPERATION_MODE'', 7169),
    (''AXT_MK_RT_INVALID_CONTIQ_DISABLE'', 7170),
    (''AXT_MK_RT_INVALID_CONTIQ_MODE'', 7171),
    (''AXT_MK_RT_INVALID_CONTIQ_ANGLE'', 7172),
    (''AXT_MK_RT_INVALID_CONTIQ_VELRATE'', 7173),
    (''AXT_MK_RT_INVALID_CONTIQ_FILLET'', 7174),
    (''AXT_MK_RT_CONTIQ_AUTO_VEL'', 7175),
    (''AXT_MK_RT_CONTIQ_AUTO_ARC'', 7176),
    (''AXT_MK_RT_CONTIQ_LINE'', 7177),
    (''AXT_MK_RT_CONTIQ_CIRCLE'', 7178),
    (''AXT_MK_RT_CONTIQ_ARC'', 7179),
    (''AXT_MK_RT_CONTIQ_SYNC_SLAVE'', 7180),
    (''AXT_MK_RT_INVALID_SEGMENT_OUTPUT_SIZE'', 7181),
    (''AXT_MK_RT_INVALID_SEGMENT_NUMBER'', 7182),
    (''AXT_MK_RT_INVALID_TRIG_COUNT'', 7183),
    (''AXT_MK_RT_INVALID_TRIG_TIME'', 7184),
    (''AXT_MK_RT_NOT_CAPTURED'', 7185),
    (''AXT_MK_RT_INVALID_CAPTURE_INDEX'', 7186),
    (''AXT_MK_RT_INVALID_LEVEL'', 7187),
    (''AXT_MK_RT_INVALID_SEGMENT_OUTPUT_MODE'', 7188),
    (''AXT_MK_RT_INVALID_SEGMENT_OUTPUT_VALUE'', 7189),
    (''AXT_MK_RT_INVALID_SEGMENT_OUTPUT_RATIO'', 7190),
    (''AXT_MK_RT_INVALID_SPLINE_POINT_SIZE'', 7191),
    (''AXT_MK_RT_INVALID_INMOTION'', 7192),
    (''AXT_MK_RT_ENABLE_CONTIQ'', 7200),
    (''AXT_MK_RT_DISABLE_CONTIQ'', 7201),
    (''AXT_MK_RT_ENABLE_CONTIQ_SYNC'', 7202),
    (''AXT_MK_RT_DISABLE_CONTIQ_SYNC'', 7203),
    (''AXT_MK_RT_ENABLE_CONTI'', 7204),
    (''AXT_MK_RT_DISABLE_CONTI'', 7205),
    (''AXT_MK_RT_ENABLE_EGEAR'', 7206),
    (''AXT_MK_RT_DISABLE_EGEAR'', 7207),
    (''AXT_MK_RT_ENABLE_TASK'', 7208),
    (''AXT_MK_RT_DISABLE_TASK'', 7209),
    (''AXT_MK_RT_DISABLE_PORT_NO'', 7210),
    (''AXT_MK_RT_ALREADY_OPEN'', 7300),
    (''AXT_MK_RT_ALREADY_CLOSE'', 7301),
    (''AXT_MK_RT_ERROR_HOME'', 7400),
    (''AXT_MK_RT_ERROR_MOTION'', 7401),
    (''AXT_MK_RT_ERROR_INSTOPPING'', 7402),
    (''AXT_MK_RT_ERROR_TIME_OUT'', 7403),
    (''AXT_MK_RT_ERROR_BUFFER_FULL'', 7404),
    (''AXT_MK_RT_ERROR_DATA_CREATE'', 7405),
    (''AXT_MK_RT_ERROR_CALCULATION'', 7406),
    (''AXT_MK_RT_ERROR_QUEUE_FULL'', 7500),
    (''AXT_MK_RT_ERROR_QUEUE_NULL'', 7501),
    (''AXT_MK_RT_ERROR_ECAM_TABLE'', 7502),
    (''AXT_MK_RT_ERROR_SPLINE_POSITION'', 7503),
    (''AXT_MK_RT_INVALID_CIRCULAR_POINT'', 7510),
    (''AXT_MK_RT_INVALID_POINT'', 7511),
    (''AXT_MK_RT_INVALID_QUEUE_SIZE'', 7512),
    (''AXT_MK_RT_INVALID_POSITION'', 7513),
    (''AXT_MK_RT_INVALID_ROTATION'', 7514),
    (''AXT_MK_RT_INVALID_TABLE'', 7600),
    (''AXT_MK_RT_INVALID_TABLE_NO'', 7601),
    (''AXT_MK_RT_INVALID_TABLE_DATA'', 7602),
    (''AXT_MK_RT_INVALID_POSITION_SIZE'', 7603),
    (''AXT_MK_RT_INVALID_TABLE_ENABLED'', 7604),
    (''AXT_MK_RT_INVALID_TABLE_NOT_ENABLED'', 7605),
    (''AXT_MK_RT_INVALID_TABLE_NONE'', 7606),
    (''AXT_MK_RT_INVALID_GET_TABLE'', 7607),
    (''AXT_MK_RT_INVALID_ENABLE_TABLE'', 7608),
    (''AXT_MK_RT_INVALID_DISABLE_TABLE'', 7609),
    (''AXT_MK_RT_INVALID_SET'', 7610),
    (''AXT_MK_RT_INVALID_RESET'', 7611),
    (''AXT_MK_RT_INVALID_ENABLE'', 7612),
    (''AXT_MK_RT_INVALID_ROBOT_SIZE'', 7700),
    (''AXT_MK_RT_INVALID_ROBOT_AXIS_SIZE'', 7701),
    (''AXT_MK_RT_INVALID_ROBOT_COORD_SIZE'', 7702),
    (''AXT_MK_RT_INVALID_ROBOT_NO'', 7703),
    (''AXT_MK_RT_INVALID_ROBOT_COORD'', 7704),
    (''AXT_MK_RT_INVALID_ROBOT_LIMIT'', 7705),
    (''AXT_MK_RT_INVALID_ROBOT_POS_LIMIT'', 7706),
    (''AXT_MK_RT_INVALID_ROBOT_NEG_LIMIT'', 7707),
    (''AXT_MK_RT_INVALID_ROBOT_VEL_LIMIT'', 7708),
    (''AXT_MK_RT_INVALID_ROBOT_ACCEL_LIMIT'', 7709),
    (''AXT_MK_RT_INVALID_ROBOT_DECEL_LIMIT'', 7710),
    (''AXT_MK_RT_ERROR_ROBOT_CALCULATION'', 7711),
    (''AXT_MK_RT_INVALID_FRAME'', 7712),
    (''AXT_MK_RT_INVALID_FRAME_NO'', 7713),
    (''AXT_MK_RT_INVALID_FRAME_TYPE'', 7714),
    (''AXT_MK_RT_INVALID_OBJECT_NO'', 7715),
    (''AXT_MK_RT_INVALID_ROBOT_SYNC'', 7716),
    (''AXT_MK_RT_INVALID_ROBOT_SYNC_MOTION'', 7717),
    (''AXT_MK_RT_INVALID_ROBOT_SYNC_ENABLE'', 7718),
    (''AXT_MK_RT_INVALID_ROBOT_SYNC_DISABLE'', 7719),
    (''AXT_MK_RT_INVALID_ROBOT_SYNC_MOTION_MODE'', 7720),
    (''AXT_MK_RT_INVALID_ROBOT_SYNC_WORK_COORD'', 7721),
    (''AXT_MK_RT_INVALID_CAPTURE_POS_NO'', 7722),
    (''AXT_MK_RT_INVALID_ROBOT_CAPTURE_POS'', 7730),
    (''AXT_MK_RT_INVALID_ROBOT_AXIS'', 7731),
    (''AXT_MK_RT_INVALID_WORK_NEGATIVE_LIMIT'', 7732),
    (''AXT_MK_RT_INVALID_WORK_POSITIVE_LIMIT'', 7733),
    (''AXT_MK_RT_INVALID_TOOL_NO'', 7740),
    (''AXT_MK_RT_INVALID_FREQUENCY_SIZE'', 7800),
    (''AXT_MK_RT_INVALID_IMPULSE_COUNT'', 7801),
    (''AXT_MK_RT_INVALID_AMPLITUDE'', 7802),
    (''AXT_MK_RT_INVALID_INPUT_SHAPER__NONE'', 7803),
    (''AXT_MK_RT_INVALID_INPUT_SHAPER_ENABLED'', 7804),
    (''AXT_MK_RT_INVALID_ARRAY_SIZE'', 7805),
    (''AXT_MK_RT_NOT_SUPPORT'', 7900),
    (''AXT_MK_RT_ERROR'', 7901),
    (''AXT_MK_RT_INVLID_FUNCTION_TYPE'', 7902)
  ]"

fun enum_value :: "(string \<times> int) list \<Rightarrow> string \<Rightarrow> int option" where
  "enum_value [] k = None"
| "enum_value (e # es) k = (if fst e = k then Some (snd e) else enum_value es k)"

fun strictly_increasing :: "int list \<Rightarrow> bool" where
  "strictly_increasing [] = True"
| "strictly_increasing [x] = True"
| "strictly_increasing (x # y # zs) = (x < y \<and> strictly_increasing (y # zs))"

text \<open>A status code as the caller receives it: the functions return \<^verbatim>\<open>DWORD\<close>.\<close>

definition DWORD_of_code :: "int \<Rightarrow> DWORD" where
  "DWORD_of_code v = word_of_int v"

text \<open>
  Modelled from the spec: the bodies of the \<^verbatim>\<open>Axm\<close> functions are in the vendor's library, of
  which the headers hold only the prototypes. The spec says: "Every function returns a
  \<^verbatim>\<open>DWORD\<close> result code drawn from \<^verbatim>\<open>AXT_FUNC_RESULT\<close>". A status code is therefore the value of
  an enumerator of \<^verbatim>\<open>AXT_FUNC_RESULT\<close>, as a \<^verbatim>\<open>DWORD\<close>; success is the code 0.
\<close>

definition is_status_code :: "DWORD \<Rightarrow> bool" where
  "is_status_code r = (r \<in> set (map (\<lambda>e. DWORD_of_code (snd e)) AXT_FUNC_RESULT))"

text \<open>
  The enumerators of one subsystem are those whose identifier starts with the subsystem's
  prefix; the band of a subsystem is the interval from its smallest to its largest code.
\<close>

definition codes_with_prefix :: "string \<Rightarrow> int list" where
  "codes_with_prefix pfx = map snd (filter (\<lambda>e. starts_with pfx (fst e)) AXT_FUNC_RESULT)"

fun band :: "int list \<Rightarrow> (int \<times> int) option" where
  "band [] = None"
| "band (x # xs) = Some (fold min xs x, fold max xs x)"

definition subsystem_band :: "string \<Rightarrow> (int \<times> int) option" where
  "subsystem_band pfx = band (codes_with_prefix pfx)"

fun bands_disjoint :: "int \<times> int \<Rightarrow> int \<times> int \<Rightarrow> bool" where
  "bands_disjoint (lo1, hi1) (lo2, hi2) = (hi1 < lo2 \<or> hi2 < lo1)"

fun pairwise_disjoint :: "(int \<times> int) list \<Rightarrow> bool" where
  "pairwise_disjoint [] = True"
| "pairwise_disjoint (b # bs) = (list_all (bands_disjoint b) bs \<and> pairwise_disjoint bs)"

text \<open>
  The argument-range codes are named by the ordinal of the argument:
  \<^verbatim>\<open>AXT_RT_1ST_BELOW_MIN_VALUE\<close>, \<^verbatim>\<open>AXT_RT_1ST_ABOVE_MAX_VALUE\<close>, up to \<^verbatim>\<open>11TH\<close>.
\<close>

definition ordinals :: "string list" where
  "ordinals = [''1ST'', ''2ND'', ''3RD'', ''4TH'', ''5TH'', ''6TH'', ''7TH'', ''8TH'', ''9TH'',
     ''10TH'', ''11TH'']"

definition below_min_name :: "string \<Rightarrow> string" where
  "below_min_name ord = ''AXT_RT_'' @ ord @ ''_BELOW_MIN_VALUE''"

definition above_max_name :: "string \<Rightarrow> string" where
  "above_max_name ord = ''AXT_RT_'' @ ord @ ''_ABOVE_MAX_VALUE''"

section \<open>AXHS.h: AXT_MOTION_FUNC_RETURN_MODE\<close>

datatype AXT_MOTION_FUNC_RETURN_MODE =
  FUNC_RETURN_IMMEDIATE | FUNC_RETURN_BLOCKING | FUNC_RETURN_NON_BLOCKING

fun return_mode_value :: "AXT_MOTION_FUNC_RETURN_MODE \<Rightarrow> int" where
  "return_mode_value FUNC_RETURN_IMMEDIATE = 0"
| "return_mode_value FUNC_RETURN_BLOCKING = 1"
| "return_mode_value FUNC_RETURN_NON_BLOCKING = 2"

section \<open>AXHS.h: MOTION_INFO\<close>

record MOTION_INFO =
  dCmdPos :: double
  dActPos :: double
  dwMechSig :: DWORD
  dwDrvStat :: DWORD
  dwInput :: DWORD
  dwOutput :: DWORD
  dwMask :: DWORD

definition MOTION_INFO_decl :: "member list" where
  "MOTION_INFO_decl = [
    (C_double, ''dCmdPos''),
    (C_double, ''dActPos''),
    (C_DWORD, ''dwMechSig''),
    (C_DWORD, ''dwDrvStat''),
    (C_DWORD, ''dwInput''),
    (C_DWORD, ''dwOutput''),
    (C_DWORD, ''dwMask'')
  ]"

text \<open>
  The header annotates each data member with the mask bit that requests it
  (\<^verbatim>\<open>[0x01]\<close>, \<^verbatim>\<open>[0x02]\<close>, \<^verbatim>\<open>[0x04]\<close>, \<^verbatim>\<open>[0x08]\<close>, \<^verbatim>\<open>[0x10]\<close>, \<^verbatim>\<open>[0x10]\<close>), and AXM.h repeats the table
  above \<^verbatim>\<open>AxmStatusReadMotionInfo\<close>: bit 4 stands for both universal signal members.
\<close>

datatype MOTION_INFO_field =
  F_dCmdPos | F_dActPos | F_dwMechSig | F_dwDrvStat | F_dwInput | F_dwOutput

definition MOTION_INFO_data_fields :: "MOTION_INFO_field list" where
  "MOTION_INFO_data_fields = [F_dCmdPos, F_dActPos, F_dwMechSig, F_dwDrvStat, F_dwInput, F_dwOutput]"

fun mask_bit :: "MOTION_INFO_field \<Rightarrow> DWORD" where
  "mask_bit F_dCmdPos = 0x01"
| "mask_bit F_dActPos = 0x02"
| "mask_bit F_dwMechSig = 0x04"
| "mask_bit F_dwDrvStat = 0x08"
| "mask_bit F_dwInput = 0x10"
| "mask_bit F_dwOutput = 0x10"

definition requested :: "DWORD \<Rightarrow> MOTION_INFO_field \<Rightarrow> bool" where
  "requested m f = (m AND mask_bit f \<noteq> 0)"

definition full_read_mask :: DWORD where
  "full_read_mask = fold (OR) (map mask_bit MOTION_INFO_data_fields) 0"

fun field_agrees :: "MOTION_INFO_field \<Rightarrow> MOTION_INFO \<Rightarrow> MOTION_INFO \<Rightarrow> bool" where
  "field_agrees F_dCmdPos a b = (dCmdPos a = dCmdPos b)"
| "field_agrees F_dActPos a b = (dActPos a = dActPos b)"
| "field_agrees F_dwMechSig a b = (dwMechSig a = dwMechSig b)"
| "field_agrees F_dwDrvStat a b = (dwDrvStat a = dwDrvStat b)"
| "field_agrees F_dwInput a b = (dwInput a = dwInput b)"
| "field_agrees F_dwOutput a b = (dwOutput a = dwOutput b)"

text \<open>
  Modelled from the spec: the body of \<^verbatim>\<open>AxmStatusReadMotionInfo\<close> is in the vendor's library;
  the headers hold its prototype, with the parameters \<^verbatim>\<open>long lAxisNo\<close> and
  \<^verbatim>\<open>PMOTION_INFO pMI\<close> and the result \<^verbatim>\<open>DWORD\<close>. The spec calls \<^verbatim>\<open>MOTION_INFO\<close> a snapshot
  of one axis "tagged with a read-mask (\<^verbatim>\<open>dwMask\<close>) indicating which fields the caller wants
  populated", "filled by the driver on request", and has every function return a status
  code. The model relates the driver's values for the axes, the axis number and the
  caller's record to a possible outcome, the status and the record as written back: the
  status is a status code, and when it is 0 every requested member holds the driver's
  value for that axis. Nothing is said about the members that were not requested, about
  \<^verbatim>\<open>dwMask\<close> afterwards, or about the record after a failure.
\<close>

definition AxmStatusReadMotionInfo ::
  "(long \<Rightarrow> MOTION_INFO) \<Rightarrow> long \<Rightarrow> MOTION_INFO \<Rightarrow> DWORD \<times> MOTION_INFO \<Rightarrow> bool" where
  "AxmStatusReadMotionInfo axes lAxisNo mi res =
     (is_status_code (fst res)
      \<and> (fst res \<noteq> 0
         \<or> list_all (\<lambda>f. \<not> requested (dwMask mi) f \<or> field_agrees f (axes lAxisNo) (snd res))
              MOTION_INFO_data_fields))"

section \<open>AXHS.h: SCAN_RESULT\<close>

definition MAX_BOARD_COUNT :: nat where
  "MAX_BOARD_COUNT = 20"

record SIIIHBoardInfo =
  bIsSIIIHBoard :: BOOL
  lNodeCount :: long

definition SIIIHBoardInfo_decl :: "member list" where
  "SIIIHBoardInfo_decl = [
    (C_BOOL, ''bIsSIIIHBoard''),
    (C_long, ''lNodeCount'')
  ]"

text \<open>\<^verbatim>\<open>SIIIHBoardInfo BoardInfo[MAX_BOARD_COUNT]\<close>: an array type of fixed length.\<close>

typedef BoardInfo_array = "{xs :: SIIIHBoardInfo list. length xs = MAX_BOARD_COUNT}"
  morphisms entries BoardInfo_array
proof
  show "replicate MAX_BOARD_COUNT \<lparr>bIsSIIIHBoard = 0, lNodeCount = 0\<rparr>
    \<in> {xs :: SIIIHBoardInfo list. length xs = MAX_BOARD_COUNT}"
    by simp
qed

record SCAN_RESULT =
  lTotalBoardCount :: long
  BoardInfo :: BoardInfo_array

definition SCAN_RESULT_decl :: "member list" where
  "SCAN_RESULT_decl = [
    (C_long, ''lTotalBoardCount''),
    (C_array (C_struct ''SIIIHBoardInfo'') MAX_BOARD_COUNT, ''BoardInfo'')
  ]"

section \<open>AXHS.h: the move parameter structs\<close>

definition AXT_MOVE_START_POS_PARAM :: "member list" where
  "AXT_MOVE_START_POS_PARAM = [
    (C_long, ''lAxisNo''),
    (C_double, ''dPos''),
    (C_double, ''dVel''),
    (C_double, ''dAccel''),
    (C_double, ''dDecel'')
  ]"

definition AXT_MOVE_POS_PARAM :: "member list" where
  "AXT_MOVE_POS_PARAM = [
    (C_long, ''lAxisNo''),
    (C_double, ''dPos''),
    (C_double, ''dVel''),
    (C_double, ''dAccel''),
    (C_double, ''dDecel'')
  ]"

definition AXT_MOVE_VEL_PARAM :: "member list" where
  "AXT_MOVE_VEL_PARAM = [
    (C_long, ''lAxisNo''),
    (C_double, ''dVel''),
    (C_double, ''dAccel''),
    (C_double, ''dDecel'')
  ]"

definition AXT_MOVE_START_MULTI_POS_PARAM :: "member list" where
  "AXT_MOVE_START_MULTI_POS_PARAM = [
    (C_long, ''lArraySize''),
    (Ptr C_long, ''lMultiAxesNo''),
    (Ptr C_double, ''dMultiPos''),
    (Ptr C_double, ''dMultiVel''),
    (Ptr C_double, ''dMultiAccel''),
    (Ptr C_double, ''dMultiDecel'')
  ]"

definition AXT_MOVE_TO_ABS_POS_PARAM :: "member list" where
  "AXT_MOVE_TO_ABS_POS_PARAM = [
    (C_long, ''lAxisNo''),
    (C_double, ''dPos''),
    (C_double, ''dVel''),
    (C_double, ''dAccel''),
    (C_double, ''dDecel'')
  ]"

section \<open>AXM.h: the prototypes\<close>

text \<open>
  AXM.h opens \<^verbatim>\<open>extern "C" {\<close> on line 46 and closes it on line 2005, both under
  \<^verbatim>\<open>#ifdef __cplusplus\<close>. Every declaration of the header is a one-line prototype; they
  are listed in source order.
\<close>

definition extern_C_open :: nat where
  "extern_C_open = 46"

definition extern_C_close :: nat where
  "extern_C_close = 2005"

definition AXM_prototypes :: "prototype list" where
  "AXM_prototypes = [
    Prototype 51 C_DWORD Stdcall ''AxmInfoGetAxis'' [(C_long, ''lAxisNo''), (Ptr C_long, ''lpBoardNo''), (Ptr C_long, ''lpModulePos''), (Ptr C_DWORD, ''upModuleID'')],
    Prototype 53 C_DWORD Stdcall ''AxmInfoIsMotionModule'' [(Ptr C_DWORD, ''upStatus'')],
    Prototype 55 C_DWORD Stdcall ''AxmInfoIsInvalidAxisNo'' [(C_long, ''lAxisNo'')],
    Prototype 57 C_DWORD Stdcall ''AxmInfoGetAxisStatus'' [(C_long, ''lAxisNo'')],
    Prototype 59 C_DWORD Stdcall ''AxmInfoGetAxisCount'' [(Ptr C_long, ''lpAxisCount'')],
    Prototype 61 C_DWORD Stdcall ''AxmInfoGetFirstAxisNo'' [(C_long, ''lBoardNo''), (C_long, ''lModulePos''), (Ptr C_long, ''lpAxisNo'')],
    Prototype 63 C_DWORD Stdcall ''AxmInfoGetBoardFirstAxisNo'' [(C_long, ''lBoardNo''), (C_long, ''lModulePos''), (Ptr C_long, ''lpAxisNo'')],
    Prototype 75 C_DWORD Stdcall ''AxmVirtualSetAxisNoMap'' [(C_long, ''lRealAxisNo''), (C_long, ''lVirtualAxisNo'')],
    Prototype 77 C_DWORD Stdcall ''AxmVirtualGetAxisNoMap'' [(C_long, ''lRealAxisNo''), (Ptr C_long, ''lpVirtualAxisNo'')],
    Prototype 79 C_DWORD Stdcall ''AxmVirtualSetMultiAxisNoMap'' [(C_long, ''lSize''), (Ptr C_long, ''lpRealAxesNo''), (Ptr C_long, ''lpVirtualAxesNo'')],
    Prototype 81 C_DWORD Stdcall ''AxmVirtualGetMultiAxisNoMap'' [(C_long, ''lSize''), (Ptr C_long, ''lpRealAxesNo''), (Ptr C_long, ''lpVirtualAxesNo'')],
    Prototype 83 C_DWORD Stdcall ''AxmVirtualResetAxisMap'' [],
    Prototype 106 C_DWORD Stdcall ''AxmInterruptSetAxis'' [(C_long, ''lAxisNo''), (C_HWND, ''hWnd''), (C_DWORD, ''uMessage''), (C_AXT_INTERRUPT_PROC, ''pProc''), (Ptr C_HANDLE, ''pEvent'')],
    Prototype 111 C_DWORD Stdcall ''AxmInterruptSetAxisEnable'' [(C_long, ''lAxisNo''), (C_DWORD, ''uUse'')],
    Prototype 113 C_DWORD Stdcall ''AxmInterruptGetAxisEnable'' [(C_long, ''lAxisNo''), (Ptr C_DWORD, ''upUse'')],
    Prototype 116 C_DWORD Stdcall ''AxmInterruptRead'' [(Ptr C_long, ''lpAxisNo''), (Ptr C_DWORD, ''upFlag'')],
    Prototype 118 C_DWORD Stdcall ''AxmInterruptReadAxisFlag'' [(C_long, ''lAxisNo''), (C_long, ''lBank''), (Ptr C_DWORD, ''upFlag'')],
    Prototype 124 C_DWORD Stdcall ''AxmInterruptSetUserEnable'' [(C_long, ''lAxisNo''), (C_long, ''lBank''), (C_DWORD, ''uInterruptNum'')],
    Prototype 126 C_DWORD Stdcall ''AxmInterruptGetUserEnable'' [(C_long, ''lAxisNo''), (C_long, ''lBank''), (Ptr C_DWORD, ''upInterruptNum'')],
    Prototype 132 C_DWORD Stdcall ''AxmInterruptSetCNTComparator'' [(C_long, ''lAxisNo''), (C_long, ''lComparatorNo''), (C_double, ''dPosition'')],
    Prototype 138 C_DWORD Stdcall ''AxmInterruptGetCNTComparator'' [(C_long, ''lAxisNo''), (C_long, ''lComparatorNo''), (Ptr C_double, ''dpPosition'')],
    Prototype 191 C_DWORD Stdcall ''AxmMotGetFileName'' [(Ptr C_char, ''szFileName'')],
    Prototype 194 C_DWORD Stdcall ''AxmMotLoadParaAll'' [(Ptr C_char, ''szFilePath'')],
    Prototype 196 C_DWORD Stdcall ''AxmMotSaveParaAll'' [(Ptr C_char, ''szFilePath'')],
    Prototype 199 C_DWORD Stdcall ''AxmMotSetParaLoad'' [(C_long, ''lAxisNo''), (C_double, ''dInitPos''), (C_double, ''dInitVel''), (C_double, ''dInitAccel''), (C_double, ''dInitDecel'')],
    Prototype 201 C_DWORD Stdcall ''AxmMotGetParaLoad'' [(C_long, ''lAxisNo''), (Ptr C_double, ''dpInitPos''), (Ptr C_double, ''dpInitVel''), (Ptr C_double, ''dpInitAccel''), (Ptr C_double, ''dpInitDecel'')],
    Prototype 216 C_DWORD Stdcall ''AxmMotSetPulseOutMethod'' [(C_long, ''lAxisNo''), (C_DWORD, ''uMethod'')],
    Prototype 218 C_DWORD Stdcall ''AxmMotGetPulseOutMethod'' [(C_long, ''lAxisNo''), (Ptr C_DWORD, ''upMethod'')],
    Prototype 230 C_DWORD Stdcall ''AxmMotSetEncInputMethod'' [(C_long, ''lAxisNo''), (C_DWORD, ''uMethod'')],
    Prototype 232 C_DWORD Stdcall ''AxmMotGetEncInputMethod'' [(C_long, ''lAxisNo''), (Ptr C_DWORD, ''upMethod'')],
    Prototype 245 C_DWORD Stdcall ''AxmMotSetMoveUnitPerPulse'' [(C_long, ''lAxisNo''), (C_double, ''dUnit''), (C_long, ''lPulse'')],
    Prototype 247 C_DWORD Stdcall ''AxmMotGetMoveUnitPerPulse'' [(C_long, ''lAxisNo''), (Ptr C_double, ''dpUnit''), (Ptr C_long, ''lpPulse'')],
    Prototype 253 C_DWORD Stdcall ''AxmMotSetDecelMode'' [(C_long, ''lAxisNo''), (C_DWORD, ''uMethod'')],
    Prototype 255 C_DWORD Stdcall ''AxmMotGetDecelMode'' [(C_long, ''lAxisNo''), (Ptr C_DWORD, ''upMethod'')],
    Prototype 261 C_DWORD Stdcall ''AxmMotSetRemainPulse'' [(C_long, ''lAxisNo''), (C_DWORD, ''uData'')],
    Prototype 263 C_DWORD Stdcall ''AxmMotGetRemainPulse'' [(C_long, ''lAxisNo''), (Ptr C_DWORD, ''upData'')],
    Prototype 272 C_DWORD Stdcall ''AxmMotSetMaxVel'' [(C_long, ''lAxisNo''), (C_double, ''dVel'')],
    Prototype 274 C_DWORD Stdcall ''AxmMotGetMaxVel'' [(C_long, ''lAxisNo''), (Ptr C_double, ''dpVel'')],
    Prototype 279 C_DWORD Stdcall ''AxmMotSetAbsRelMode'' [(C_long, ''lAxisNo''), (C_DWORD, ''uAbsRelMode'')],
    Prototype 281 C_DWORD Stdcall ''AxmMotGetAbsRelMode'' [(C_long, ''lAxisNo''), (Ptr C_DWORD, ''upAbsRelMode'')],
    Prototype 293 C_DWORD Stdcall ''AxmMotSetProfileMode'' [(C_long, ''lAxisNo''), (C_DWORD, ''uProfileMode'')],
    Prototype 295 C_DWORD Stdcall ''AxmMotGetProfileMode'' [(C_long, ''lAxisNo''), (Ptr C_DWORD, ''upProfileMode'')],
    Prototype 300 C_DWORD Stdcall ''AxmMotSetAccelUnit'' [(C_long, ''lAxisNo''), (C_DWORD, ''uAccelUnit'')],
    Prototype 302 C_DWORD Stdcall ''AxmMotGetAccelUnit'' [(C_long, ''lAxisNo''), (Ptr C_DWORD, ''upAccelUnit'')],
    Prototype 306 C_DWORD Stdcall ''AxmMotSetMinVel'' [(C_long, ''lAxisNo''), (C_double, ''dMinVel'')],
    Prototype 308 C_DWORD Stdcall ''AxmMotGetMinVel'' [(C_long, ''lAxisNo''), (Ptr C_double, ''dpMinVel'')],
    Prototype 311 C_DWORD Stdcall ''AxmMotSetAccelJerk'' [(C_long, ''lAxisNo''), (C_double, ''dAccelJerk'')],
    Prototype 313 C_DWORD Stdcall ''AxmMotGetAccelJerk'' [(C_long, ''lAxisNo''), (Ptr C_double, ''dpAccelJerk'')],
    Prototype 316 C_DWORD Stdcall ''AxmMotSetDecelJerk'' [(C_long, ''lAxisNo''), (C_double, ''dDecelJerk'')],
    Prototype 318 C_DWORD Stdcall ''AxmMotGetDecelJerk'' [(C_long, ''lAxisNo''), (Ptr C_double, ''dpDecelJerk'')],
    Prototype 326 C_DWORD Stdcall ''AxmMotSetProfilePriority'' [(C_long, ''lAxisNo''), (C_DWORD, ''uPriority'')],
    Prototype 328 C_DWORD Stdcall ''AxmMotGetProfilePriority'' [(C_long, ''lAxisNo''), (Ptr C_DWORD, ''upPriority'')],
    Prototype 333 C_DWORD Stdcall ''AxmSignalSetZphaseLevel'' [(C_long, ''lAxisNo''), (C_DWORD, ''uLevel'')],
    Prototype 335 C_DWORD Stdcall ''AxmSignalGetZphaseLevel'' [(C_long, ''lAxisNo''), (Ptr C_DWORD, ''upLevel'')],
    Prototype 339 C_DWORD Stdcall ''AxmSignalSetServoOnLevel'' [(C_long, ''lAxisNo''), (C_DWORD, ''uLevel'')],
    Prototype 341 C_DWORD Stdcall ''AxmSignalGetServoOnLevel'' [(C_long, ''lAxisNo''), (Ptr C_DWORD, ''upLevel'')],
    Prototype 345 C_DWORD Stdcall ''AxmSignalSetServoAlarmResetLevel'' [(C_long, ''lAxisNo''), (C_DWORD, ''uLevel'')],
    Prototype 347 C_DWORD Stdcall ''AxmSignalGetServoAlarmResetLevel'' [(C_long, ''lAxisNo''), (Ptr C_DWORD, ''upLevel'')],
    Prototype 351 C_DWORD Stdcall ''AxmSignalSetInpos'' [(C_long, ''lAxisNo''), (C_DWORD, ''uUse'')],
    Prototype 353 C_DWORD Stdcall ''AxmSignalGetInpos'' [(C_long, ''lAxisNo''), (Ptr C_DWORD, ''upUse'')],
    Prototype 355 C_DWORD Stdcall ''AxmSignalReadInpos'' [(C_long, ''lAxisNo''), (Ptr C_DWORD, ''upStatus'')],
    Prototype 359 C_DWORD Stdcall ''AxmSignalSetServoAlarm'' [(C_long, ''lAxisNo''), (C_DWORD, ''uUse'')],
    Prototype 361 C_DWORD Stdcall ''AxmSignalGetServoAlarm'' [(C_long, ''lAxisNo''), (Ptr C_DWORD, ''upUse'')],
    Prototype 363 C_DWORD Stdcall ''AxmSignalReadServoAlarm'' [(C_long, ''lAxisNo''), (Ptr C_DWORD, ''upStatus'')],
    Prototype 369 C_DWORD Stdcall ''AxmSignalSetLimit'' [(C_long, ''lAxisNo''), (C_DWORD, ''uStopMode''), (C_DWORD, ''uPositiveLevel''), (C_DWORD, ''uNegativeLevel'')],
    Prototype 371 C_DWORD Stdcall ''AxmSignalGetLimit'' [(C_long, ''lAxisNo''), (Ptr C_DWORD, ''upStopMode''), (Ptr C_DWORD, ''upPositiveLevel''), (Ptr C_DWORD, ''upNegativeLevel'')],
    Prototype 373 C_DWORD Stdcall ''AxmSignalReadLimit'' [(C_long, ''lAxisNo''), (Ptr C_DWORD, ''upPositiveStatus''), (Ptr C_DWORD, ''upNegativeStatus'')],
    Prototype 380 C_DWORD Stdcall ''AxmSignalSetSoftLimit'' [(C_long, ''lAxisNo''), (C_DWORD, ''uUse''), (C_DWORD, ''uStopMode''), (C_DWORD, ''uSelection''), (C_double, ''dPositivePos''), (C_double, ''dNegativePos'')],
    Prototype 382 C_DWORD Stdcall ''AxmSignalGetSoftLimit'' [(C_long, ''lAxisNo''), (Ptr C_DWORD, ''upUse''), (Ptr C_DWORD, ''upStopMode''), (Ptr C_DWORD, ''upSelection''), (Ptr C_double, ''dpPositivePos''), (Ptr C_double, ''dpNegativePos'')],
    Prototype 384 C_DWORD Stdcall ''AxmSignalReadSoftLimit'' [(C_long, ''lAxisNo''), (Ptr C_DWORD, ''upPositiveStatus''), (Ptr C_DWORD, ''upNegativeStatus'')],
    Prototype 389 C_DWORD Stdcall ''AxmSignalSetStop'' [(C_long, ''lAxisNo''), (C_DWORD, ''uStopMode''), (C_DWORD, ''uLevel'')],
    Prototype 391 C_DWORD Stdcall ''AxmSignalGetStop'' [(C_long, ''lAxisNo''), (Ptr C_DWORD, ''upStopMode''), (Ptr C_DWORD, ''upLevel'')],
    Prototype 393 C_DWORD Stdcall ''AxmSignalReadStop'' [(C_long, ''lAxisNo''), (Ptr C_DWORD, ''upStatus'')],
    Prototype 397 C_DWORD Stdcall ''AxmSignalServoOn'' [(C_long, ''lAxisNo''), (C_DWORD, ''uOnOff'')],
    Prototype 399 C_DWORD Stdcall ''AxmSignalIsServoOn'' [(C_long, ''lAxisNo''), (Ptr C_DWORD, ''upOnOff'')],
    Prototype 403 C_DWORD Stdcall ''AxmSignalServoAlarmReset'' [(C_long, ''lAxisNo''), (C_DWORD, ''uOnOff'')],
    Prototype 407 C_DWORD Stdcall ''AxmSignalWriteOutput'' [(C_long, ''lAxisNo''), (C_DWORD, ''uValue'')],
    Prototype 409 C_DWORD Stdcall ''AxmSignalReadOutput'' [(C_long, ''lAxisNo''), (Ptr C_DWORD, ''upValue'')],
    Prototype 416 C_DWORD Stdcall ''AxmSignalWriteBrakeOn'' [(C_long, ''lAxisNo''), (C_DWORD, ''uOnOff'')],
    Prototype 419 C_DWORD Stdcall ''AxmSignalReadBrakeOn'' [(C_long, ''lAxisNo''), (Ptr C_DWORD, ''upOnOff'')],
    Prototype 424 C_DWORD Stdcall ''AxmSignalWriteOutputBit'' [(C_long, ''lAxisNo''), (C_long, ''lBitNo''), (C_DWORD, ''uOnOff'')],
    Prototype 426 C_DWORD Stdcall ''AxmSignalReadOutputBit'' [(C_long, ''lAxisNo''), (C_long, ''lBitNo''), (Ptr C_DWORD, ''upOnOff'')],
    Prototype 429 C_DWORD Stdcall ''AxmSignalReadInput'' [(C_long, ''lAxisNo''), (Ptr C_DWORD, ''upValue'')],
    Prototype 432 C_DWORD Stdcall ''AxmSignalReadInputBit'' [(C_long, ''lAxisNo''), (C_long, ''lBitNo''), (Ptr C_DWORD, ''upOn'')],
    Prototype 437 C_DWORD Stdcall ''AxmSignalSetFilterBandwidth'' [(C_long, ''lAxisNo''), (C_DWORD, ''uSignal''), (C_double, ''dBandwidthUsec'')],
    Prototype 442 C_DWORD Stdcall ''AxmSignalOutputOn'' [(C_long, ''lAxisNo''), (C_long, ''lArraySize''), (Ptr C_long, ''lpBitNo''), (C_long, ''lmSec'')],
    Prototype 447 C_DWORD Stdcall ''AxmSignalOutputOff'' [(C_long, ''lAxisNo''), (C_long, ''lArraySize''), (Ptr C_long, ''lpBitNo''), (C_long, ''lmSec'')],
    Prototype 451 C_DWORD Stdcall ''AxmStatusReadInMotion'' [(C_long, ''lAxisNo''), (Ptr C_DWORD, ''upStatus'')],
    Prototype 454 C_DWORD Stdcall ''AxmStatusReadDrivePulseCount'' [(C_long, ''lAxisNo''), (Ptr C_long, ''lpPulse'')],
    Prototype 458 C_DWORD Stdcall ''AxmStatusReadMotion'' [(C_long, ''lAxisNo''), (Ptr C_DWORD, ''upStatus'')],
    Prototype 462 C_DWORD Stdcall ''AxmStatusReadStop'' [(C_long, ''lAxisNo''), (Ptr C_DWORD, ''upStatus'')],
    Prototype 466 C_DWORD Stdcall ''AxmStatusReadMechanical'' [(C_long, ''lAxisNo''), (Ptr C_DWORD, ''upStatus'')],
    Prototype 469 C_DWORD Stdcall ''AxmStatusReadVel'' [(C_long, ''lAxisNo''), (Ptr C_double, ''dpVel'')],
    Prototype 472 C_DWORD Stdcall ''AxmStatusReadPosError'' [(C_long, ''lAxisNo''), (Ptr C_double, ''dpError'')],
    Prototype 475 C_DWORD Stdcall ''AxmStatusReadDriveDistance'' [(C_long, ''lAxisNo''), (Ptr C_double, ''dpUnit'')],
    Prototype 486 C_DWORD Stdcall ''AxmStatusSetPosType'' [(C_long, ''lAxisNo''), (C_DWORD, ''uPosType''), (C_double, ''dPositivePos''), (C_double, ''dNegativePos'')],
    Prototype 488 C_DWORD Stdcall ''AxmStatusGetPosType'' [(C_long, ''lAxisNo''), (Ptr C_DWORD, ''upPosType''), (Ptr C_double, ''dpPositivePos''), (Ptr C_double, ''dpNegativePos'')],
    Prototype 490 C_DWORD Stdcall ''AxmStatusSetAbsOrgOffset'' [(C_long, ''lAxisNo''), (C_double, ''dOrgOffsetPos'')],
    Prototype 493 C_DWORD Stdcall ''AxmStatusSetActPos'' [(C_long, ''lAxisNo''), (C_double, ''dPos'')],
    Prototype 495 C_DWORD Stdcall ''AxmStatusGetActPos'' [(C_long, ''lAxisNo''), (Ptr C_double, ''dpPos'')],
    Prototype 497 C_DWORD Stdcall ''AxmStatusGetAmpActPos'' [(C_long, ''lAxisNo''), (Ptr C_double, ''dpPos'')],
    Prototype 500 C_DWORD Stdcall ''AxmStatusSetCmdPos'' [(C_long, ''lAxisNo''), (C_double, ''dPos'')],
    Prototype 502 C_DWORD Stdcall ''AxmStatusGetCmdPos'' [(C_long, ''lAxisNo''), (Ptr C_double, ''dpPos'')],
    Prototype 504 C_DWORD Stdcall ''AxmStatusSetPosMatch'' [(C_long, ''lAxisNo''), (C_double, ''dPos'')],
    Prototype 516 C_DWORD Stdcall ''AxmStatusReadMotionInfo'' [(C_long, ''lAxisNo''), (C_PMOTION_INFO, ''pMI'')],
    Prototype 520 C_DWORD Stdcall ''AxmStatusRequestServoAlarm'' [(C_long, ''lAxisNo'')],
    Prototype 528 C_DWORD Stdcall ''AxmStatusReadServoAlarm'' [(C_long, ''lAxisNo''), (C_DWORD, ''uReturnMode''), (Ptr C_DWORD, ''upAlarmCode'')],
    Prototype 530 C_DWORD Stdcall ''AxmStatusGetServoAlarmString'' [(C_long, ''lAxisNo''), (C_DWORD, ''uAlarmCode''), (C_long, ''lAlarmStringSize''), (Ptr C_char, ''szAlarmString'')],
    Prototype 533 C_DWORD Stdcall ''AxmStatusRequestServoAlarmHistory'' [(C_long, ''lAxisNo'')],
    Prototype 541 C_DWORD Stdcall ''AxmStatusReadServoAlarmHistory'' [(C_long, ''lAxisNo''), (C_DWORD, ''uReturnMode''), (Ptr C_long, ''lpCount''), (Ptr C_DWORD, ''upAlarmCode'')],
    Prototype 543 C_DWORD Stdcall ''AxmStatusClearServoAlarmHistory'' [(C_long, ''lAxisNo'')],
    Prototype 548 C_DWORD Stdcall ''AxmHomeSetSignalLevel'' [(C_long, ''lAxisNo''), (C_DWORD, ''uLevel'')],
    Prototype 550 C_DWORD Stdcall ''AxmHomeGetSignalLevel'' [(C_long, ''lAxisNo''), (Ptr C_DWORD, ''upLevel'')],
    Prototype 554 C_DWORD Stdcall ''AxmHomeReadSignal'' [(C_long, ''lAxisNo''), (Ptr C_DWORD, ''upStatus'')],
    Prototype 569 C_DWORD Stdcall ''AxmHomeSetMethod'' [(C_long, ''lAxisNo''), (C_long, ''lHmDir''), (C_DWORD, ''uHomeSignal''), (C_DWORD, ''uZphas''), (C_double, ''dHomeClrTime''), (C_double, ''dHomeOffset'')],
    Prototype 571 C_DWORD Stdcall ''AxmHomeGetMethod'' [(C_long, ''lAxisNo''), (Ptr C_long, ''lpHmDir''), (Ptr C_DWORD, ''upHomeSignal''), (Ptr C_DWORD, ''upZphas''), (Ptr C_double, ''dpHomeClrTime''), (Ptr C_double, ''dpHomeOffset'')],
    Prototype 578 C_DWORD Stdcall ''AxmHomeSetFineAdjust'' [(C_long, ''lAxisNo''), (C_double, ''dHomeDogLength''), (C_long, ''lLevelScanTime''), (C_DWORD, ''uFineSearchUse''), (C_DWORD, ''uHomeClrUse'')],
    Prototype 580 C_DWORD Stdcall ''AxmHomeGetFineAdjust'' [(C_long, ''lAxisNo''), (Ptr C_double, ''dpHomeDogLength''), (Ptr C_long, ''lpLevelScanTime''), (Ptr C_DWORD, ''upFineSearchUse''), (Ptr C_DWORD, ''upHomeClrUse'')],
    Prototype 591 C_DWORD Stdcall ''AxmHomeSetInterlock'' [(C_long, ''lAxisNo''), (C_DWORD, ''uInterlockMode''), (C_double, ''dInterlockData'')],
    Prototype 593 C_DWORD Stdcall ''AxmHomeGetInterlock'' [(C_long, ''lAxisNo''), (Ptr C_DWORD, ''upInterlockMode''), (Ptr C_double, ''dpInterlockData'')],
    Prototype 602 C_DWORD Stdcall ''AxmHomeSetVel'' [(C_long, ''lAxisNo''), (C_double, ''dVelFirst''), (C_double, ''dVelSecond''), (C_double, ''dVelThird''), (C_double, ''dVelLast''), (C_double, ''dAccFirst''), (C_double, ''dAccSecond'')],
    Prototype 604 C_DWORD Stdcall ''AxmHomeGetVel'' [(C_long, ''lAxisNo''), (Ptr C_double, ''dpVelFirst''), (Ptr C_double, ''dpVelSecond''), (Ptr C_double, ''dpVelThird''), (Ptr C_double, ''dpVelLast''), (Ptr C_double, ''dpAccFirst''), (Ptr C_double, ''dpAccSecond'')],
    Prototype 610 C_DWORD Stdcall ''AxmHomeSetStart'' [(C_long, ''lAxisNo'')],
    Prototype 625 C_DWORD Stdcall ''AxmHomeSetResult'' [(C_long, ''lAxisNo''), (C_DWORD, ''uHomeResult'')],
    Prototype 628 C_DWORD Stdcall ''AxmHomeGetResult'' [(C_long, ''lAxisNo''), (Ptr C_DWORD, ''upHomeResult'')],
    Prototype 639 C_DWORD Stdcall ''AxmHomeGetRate'' [(C_long, ''lAxisNo''), (Ptr C_DWORD, ''upHomeMainStepNumber''), (Ptr C_DWORD, ''upHomeStepNumber'')],
    Prototype 659 C_DWORD Stdcall ''AxmMoveStartPos'' [(C_long, ''lAxisNo''), (C_double, ''dPos''), (C_double, ''dVel''), (C_double, ''dAccel''), (C_double, ''dDecel'')],
    Prototype 665 C_DWORD Stdcall ''AxmMovePos'' [(C_long, ''lAxisNo''), (C_double, ''dPos''), (C_double, ''dVel''), (C_double, ''dAccel''), (C_double, ''dDecel'')],
    Prototype 671 C_DWORD Stdcall ''AxmMoveVel'' [(C_long, ''lAxisNo''), (C_double, ''dVel''), (C_double, ''dAccel''), (C_double, ''dDecel'')],
    Prototype 676 C_DWORD Stdcall ''AxmMoveStartMultiVel'' [(C_long, ''lArraySize''), (Ptr C_long, ''lpAxesNo''), (Ptr C_double, ''dpVel''), (Ptr C_double, ''dpAccel''), (Ptr C_double, ''dpDecel'')],
    Prototype 682 C_DWORD Stdcall ''AxmMoveStartMultiVelEx'' [(C_long, ''lArraySize''), (Ptr C_long, ''lpAxesNo''), (Ptr C_double, ''dpVel''), (Ptr C_double, ''dpAccel''), (Ptr C_double, ''dpDecel''), (C_DWORD, ''dwSyncMode'')],
    Prototype 687 C_DWORD Stdcall ''AxmMoveStartLineVel'' [(C_long, ''lArraySize''), (Ptr C_long, ''lpAxesNo''), (Ptr C_double, ''dpDis''), (C_double, ''dVel''), (C_double, ''dAccel''), (C_double, ''dDecel'')],
    Prototype 698 C_DWORD Stdcall ''AxmMoveSignalSearch'' [(C_long, ''lAxisNo''), (C_double, ''dVel''), (C_double, ''dAccel''), (C_long, ''lDetectSignal''), (C_long, ''lSignalEdge''), (C_long, ''lSignalMethod'')],
    Prototype 710 C_DWORD Stdcall ''AxmMoveSignalSearchAtDis'' [(C_long, ''lAxisNo''), (C_double, ''dVel''), (C_double, ''dAccel''), (C_double, ''dDecel''), (C_long, ''lDetectSignal''), (C_double, ''dDis'')],
    Prototype 724 C_DWORD Stdcall ''AxmMoveSignalCapture'' [(C_long, ''lAxisNo''), (C_double, ''dVel''), (C_double, ''dAccel''), (C_long, ''lDetectSignal''), (C_long, ''lSignalEdge''), (C_long, ''lTarget''), (C_long, ''lSignalMethod'')],
    Prototype 727 C_DWORD Stdcall ''AxmMoveGetCapturePos'' [(C_long, ''lAxisNo''), (Ptr C_double, ''dpCapPotition'')],
    Prototype 731 C_DWORD Stdcall ''AxmMoveStartMultiPos'' [(C_long, ''lArraySize''), (Ptr C_long, ''lpAxisNo''), (Ptr C_double, ''dpPos''), (Ptr C_double, ''dpVel''), (Ptr C_double, ''dpAccel''), (Ptr C_double, ''dpDecel'')],
    Prototype 735 C_DWORD Stdcall ''AxmMoveMultiPos'' [(C_long, ''lArraySize''), (Ptr C_long, ''lpAxisNo''), (Ptr C_double, ''dpPos''), (Ptr C_double, ''dpVel''), (Ptr C_double, ''dpAccel''), (Ptr C_double, ''dpDecel'')],
    Prototype 752 C_DWORD Stdcall ''AxmMoveStartTorque'' [(C_long, ''lAxisNo''), (C_double, ''dTorque''), (C_double, ''dVel''), (C_DWORD, ''dwAccFilterSel''), (C_DWORD, ''dwGainSel''), (C_DWORD, ''dwSpdLoopSel'')],
    Prototype 756 C_DWORD Stdcall ''AxmMoveTorqueStop'' [(C_long, ''lAxisNo''), (C_DWORD, ''dwMethod'')],
    Prototype 776 C_DWORD Stdcall ''AxmMoveStartPosWithList'' [(C_long, ''lAxisNo''), (C_double, ''dPosition''), (Ptr C_double, ''dpVel''), (Ptr C_double, ''dpAccel''), (Ptr C_double, ''dpDecel''), (C_long, ''lListNum'')],
    Prototype 785 C_DWORD Stdcall ''AxmMoveStartPosWithPosEvent'' [(C_long, ''lAxisNo''), (C_double, ''dPos''), (C_double, ''dVel''), (C_double, ''dAccel''), (C_double, ''dDecel''), (C_long, ''lEventAxisNo''), (C_double, ''dComparePosition''), (C_DWORD, ''uPositionSource'')],
    Prototype 789 C_DWORD Stdcall ''AxmMoveStop'' [(C_long, ''lAxisNo''), (C_double, ''dDecel'')],
    Prototype 796 C_DWORD Stdcall ''AxmMoveStopEx'' [(C_long, ''lAxisNo''), (C_double, ''dDecel'')],
    Prototype 798 C_DWORD Stdcall ''AxmMoveEStop'' [(C_long, ''lAxisNo'')],
    Prototype 800 C_DWORD Stdcall ''AxmMoveSStop'' [(C_long, ''lAxisNo'')],
    Prototype 808 C_DWORD Stdcall ''AxmOverridePos'' [(C_long, ''lAxisNo''), (C_double, ''dOverridePos'')],
    Prototype 815 C_DWORD Stdcall ''AxmOverridePosAbs'' [(C_long, ''lAxisNo''), (C_double, ''dOverridePos'')],
    Prototype 819 C_DWORD Stdcall ''AxmOverrideSetMaxVel'' [(C_long, ''lAxisNo''), (C_double, ''dOverrideMaxVel'')],
    Prototype 827 C_DWORD Stdcall ''AxmOverrideVel'' [(C_long, ''lAxisNo''), (C_double, ''dOverrideVel'')],
    Prototype 835 C_DWORD Stdcall ''AxmOverrideAccelVelDecel'' [(C_long, ''lAxisNo''), (C_double, ''dOverrideVelocity''), (C_double, ''dMaxAccel''), (C_double, ''dMaxDecel'')],
    Prototype 840 C_DWORD Stdcall ''AxmOverrideVelAtPos'' [(C_long, ''lAxisNo''), (C_double, ''dPos''), (C_double, ''dVel''), (C_double, ''dAccel''), (C_double, ''dDecel''), (C_double, ''dOverridePos''), (C_double, ''dOverrideVel''), (C_long, ''lTarget'')],
    Prototype 849 C_DWORD Stdcall ''AxmOverrideVelAtMultiPos'' [(C_long, ''lAxisNo''), (C_double, ''dPos''), (C_double, ''dVel''), (C_double, ''dAccel''), (C_double, ''dDecel''), (C_long, ''lArraySize''), (Ptr C_double, ''dpOverridePos''), (Ptr C_double, ''dpOverrideVel''), (C_long, ''lTarget''), (C_DWORD, ''dwOverrideMode'')],
    Prototype 860 C_DWORD Stdcall ''AxmOverrideVelAtMultiPos2'' [(C_long, ''lAxisNo''), (C_double, ''dPos''), (C_double, ''dVel''), (C_double, ''dAccel''), (C_double, ''dDecel''), (C_long, ''lArraySize''), (Ptr C_double, ''dpOverridePos''), (Ptr C_double, ''dpOverrideVel''), (Ptr C_double, ''dpOverrideAccelDecel''), (C_long, ''lTarget''), (C_DWORD, ''dwOverrideMode'')],
    Prototype 872 C_DWORD Stdcall ''AxmOverrideAccelVelDecelAtMultiPos'' [(C_long, ''lAxisNo''), (C_double, ''dPosition''), (C_double, ''dVelocity''), (C_double, ''dAcceleration''), (C_double, ''dDeceleration''), (C_long, ''lArraySize''), (Ptr C_double, ''dpOverridePosition''), (Ptr C_double, ''dpOverrideVelocity''), (Ptr C_double, ''dpOverrideAccel''), (Ptr C_double, ''dpOverrideDecel''), (C_long, ''lTarget''), (C_DWORD, ''dwOverrideMode'')],
    Prototype 879 C_DWORD Stdcall ''AxmOverrideMultiVel'' [(C_long, ''lArraySize''), (Ptr C_long, ''lpAxisNo''), (Ptr C_double, ''dpOverrideVel'')],
    Prototype 884 C_DWORD Stdcall ''AxmLinkSetMode'' [(C_long, ''lMasterAxisNo''), (C_long, ''lSlaveAxisNo''), (C_double, ''dSlaveRatio'')],
    Prototype 886 C_DWORD Stdcall ''AxmLinkGetMode'' [(C_long, ''lMasterAxisNo''), (Ptr C_long, ''lpSlaveAxisNo''), (Ptr C_double, ''dpGearRatio'')],
    Prototype 888 C_DWORD Stdcall ''AxmLinkResetMode'' [(C_long, ''lMasterAxisNo'')],
    Prototype 907 C_DWORD Stdcall ''AxmGantrySetEnable'' [(C_long, ''lMasterAxisNo''), (C_long, ''lSlaveAxisNo''), (C_DWORD, ''uSlHomeUse''), (C_double, ''dSlOffset''), (C_double, ''dSlOffsetRange'')],
    Prototype 919 C_DWORD Stdcall ''AxmGantryGetEnable'' [(C_long, ''lMasterAxisNo''), (Ptr C_DWORD, ''upSlHomeUse''), (Ptr C_double, ''dpSlOffset''), (Ptr C_double, ''dpSlORange''), (Ptr C_DWORD, ''upGatryOn'')],
    Prototype 921 C_DWORD Stdcall ''AxmGantrySetDisable'' [(C_long, ''lMasterAxisNo''), (C_long, ''lSlaveAxisNo'')],
    Prototype 927 C_DWORD Stdcall ''AxmGantrySetCompensationGain'' [(C_long, ''lMasterAxisNo''), (C_long, ''lMasterGain''), (C_long, ''lSlaveGain'')],
    Prototype 929 C_DWORD Stdcall ''AxmGantryGetCompensationGain'' [(C_long, ''lMasterAxisNo''), (Ptr C_long, ''lpMasterGain''), (Ptr C_long, ''lpSlaveGain'')],
    Prototype 941 C_DWORD Stdcall ''AxmGantrySetErrorRange'' [(C_long, ''lMasterAxisNo''), (C_double, ''dErrorRange''), (C_DWORD, ''uUse'')],
    Prototype 943 C_DWORD Stdcall ''AxmGantryGetErrorRange'' [(C_long, ''lMasterAxisNo''), (Ptr C_double, ''dpErrorRange''), (Ptr C_DWORD, ''upUse'')],
    Prototype 949 C_DWORD Stdcall ''AxmGantryReadErrorRangeStatus'' [(C_long, ''lMasterAxisNo''), (Ptr C_DWORD, ''dwpStatus'')],
    Prototype 953 C_DWORD Stdcall ''AxmGantryReadErrorRangeComparePos'' [(C_long, ''lMasterAxisNo''), (Ptr C_double, ''dpComparePos'')],
    Prototype 972 C_DWORD Stdcall ''AxmLineMove'' [(C_long, ''lCoord''), (Ptr C_double, ''dpEndPos''), (C_double, ''dVel''), (C_double, ''dAccel''), (C_double, ''dDecel'')],
    Prototype 976 C_DWORD Stdcall ''AxmLineMoveEx2'' [(C_long, ''lCoord''), (Ptr C_double, ''dpEndPos''), (C_double, ''dVel''), (C_double, ''dAccel''), (C_double, ''dDecel'')],
    Prototype 984 C_DWORD Stdcall ''AxmCircleCenterMove'' [(C_long, ''lCoord''), (Ptr C_long, ''lAxisNo''), (Ptr C_double, ''dCenterPos''), (Ptr C_double, ''dEndPos''), (C_double, ''dVel''), (C_double, ''dAccel''), (C_double, ''dDecel''), (C_DWORD, ''uCWDir'')],
    Prototype 990 C_DWORD Stdcall ''AxmCirclePointMove'' [(C_long, ''lCoord''), (Ptr C_long, ''lAxisNo''), (Ptr C_double, ''dMidPos''), (Ptr C_double, ''dEndPos''), (C_double, ''dVel''), (C_double, ''dAccel''), (C_double, ''dDecel''), (C_long, ''lArcCircle'')],
    Prototype 997 C_DWORD Stdcall ''AxmCircleRadiusMove'' [(C_long, ''lCoord''), (Ptr C_long, ''lAxisNo''), (C_double, ''dRadius''), (Ptr C_double, ''dEndPos''), (C_double, ''dVel''), (C_double, ''dAccel''), (C_double, ''dDecel''), (C_DWORD, ''uCWDir''), (C_DWORD, ''uShortDistance'')],
    Prototype 1004 C_DWORD Stdcall ''AxmCircleAngleMove'' [(C_long, ''lCoord''), (Ptr C_long, ''lAxisNo''), (Ptr C_double, ''dCenterPos''), (C_double, ''dAngle''), (C_double, ''dVel''), (C_double, ''dAccel''), (C_double, ''dDecel''), (C_DWORD, ''uCWDir'')],
    Prototype 1013 C_DWORD Stdcall ''AxmContiSetAxisMap'' [(C_long, ''lCoord''), (C_long, ''lSize''), (Ptr C_long, ''lpAxesNo'')],
    Prototype 1015 C_DWORD Stdcall ''AxmContiGetAxisMap'' [(C_long, ''lCoord''), (Ptr C_long, ''lpSize''), (Ptr C_long, ''lpAxesNo'')],
    Prototype 1017 C_DWORD Stdcall ''AxmContiResetAxisMap'' [(C_long, ''lCoordinate'')],
    Prototype 1024 C_DWORD Stdcall ''AxmContiSetAbsRelMode'' [(C_long, ''lCoord''), (C_DWORD, ''uAbsRelMode'')],
    Prototype 1026 C_DWORD Stdcall ''AxmContiGetAbsRelMode'' [(C_long, ''lCoord''), (Ptr C_DWORD, ''upAbsRelMode'')],
    Prototype 1029 C_DWORD Stdcall ''AxmContiReadFree'' [(C_long, ''lCoord''), (Ptr C_DWORD, ''upQueueFree'')],
    Prototype 1031 C_DWORD Stdcall ''AxmContiReadIndex'' [(C_long, ''lCoord''), (Ptr C_long, ''lpQueueIndex'')],
    Prototype 1034 C_DWORD Stdcall ''AxmContiWriteClear'' [(C_long, ''lCoord'')],
    Prototype 1039 C_DWORD Stdcall ''AxmContiBeginNode'' [(C_long, ''lCoord'')],
    Prototype 1041 C_DWORD Stdcall ''AxmContiEndNode'' [(C_long, ''lCoord'')],
    Prototype 1045 C_DWORD Stdcall ''AxmContiStart'' [(C_long, ''lCoord''), (C_DWORD, ''dwProfileset''), (C_long, ''lAngle'')],
    Prototype 1047 C_DWORD Stdcall ''AxmContiIsMotion'' [(C_long, ''lCoord''), (Ptr C_DWORD, ''upInMotion'')],
    Prototype 1050 C_DWORD Stdcall ''AxmContiGetNodeNum'' [(C_long, ''lCoord''), (Ptr C_long, ''lpNodeNum'')],
    Prototype 1052 C_DWORD Stdcall ''AxmContiGetTotalNodeNum'' [(C_long, ''lCoord''), (Ptr C_long, ''lpNodeNum'')],
    Prototype 1068 C_DWORD Stdcall ''AxmContiDigitalOutputBit'' [(C_long, ''lCoord''), (C_long, ''lSize''), (C_long, ''lModuleType''), (Ptr C_long, ''lpModuleNo''), (Ptr C_long, ''lpBit''), (Ptr C_long, ''lpOffOn''), (Ptr C_double, ''dpDistTime''), (Ptr C_long, ''lpDistTimeMode'')],
    Prototype 1070 C_DWORD Stdcall ''AxmContiSetConnectionRadius'' [(C_long, ''lCoord''), (C_double, ''dRadius'')],
    Prototype 1084 C_DWORD Stdcall ''AxmTriggerSetTimeLevel'' [(C_long, ''lAxisNo''), (C_double, ''dTrigTime''), (C_DWORD, ''uTriggerLevel''), (C_DWORD, ''uSelect''), (C_DWORD, ''uInterrupt'')],
    Prototype 1086 C_DWORD Stdcall ''AxmTriggerGetTimeLevel'' [(C_long, ''lAxisNo''), (Ptr C_double, ''dpTrigTime''), (Ptr C_DWORD, ''upTriggerLevel''), (Ptr C_DWORD, ''upSelect''), (Ptr C_DWORD, ''upInterrupt'')],
    Prototype 1094 C_DWORD Stdcall ''AxmTriggerSetAbsPeriod'' [(C_long, ''lAxisNo''), (C_DWORD, ''uMethod''), (C_double, ''dPos'')],
    Prototype 1096 C_DWORD Stdcall ''AxmTriggerGetAbsPeriod'' [(C_long, ''lAxisNo''), (Ptr C_DWORD, ''upMethod''), (Ptr C_double, ''dpPos'')],
    Prototype 1099 C_DWORD Stdcall ''AxmTriggerSetBlock'' [(C_long, ''lAxisNo''), (C_double, ''dStartPos''), (C_double, ''dEndPos''), (C_double, ''dPeriodPos'')],
    Prototype 1101 C_DWORD Stdcall ''AxmTriggerGetBlock'' [(C_long, ''lAxisNo''), (Ptr C_double, ''dpStartPos''), (Ptr C_double, ''dpEndPos''), (Ptr C_double, ''dpPeriodPos'')],
    Prototype 1104 C_DWORD Stdcall ''AxmTriggerOneShot'' [(C_long, ''lAxisNo'')],
    Prototype 1106 C_DWORD Stdcall ''AxmTriggerSetTimerOneshot'' [(C_long, ''lAxisNo''), (C_long, ''lmSec'')],
    Prototype 1108 C_DWORD Stdcall ''AxmTriggerOnlyAbs'' [(C_long, ''lAxisNo''), (C_long, ''lTrigNum''), (Ptr C_double, ''dpTrigPos'')],
    Prototype 1110 C_DWORD Stdcall ''AxmTriggerSetReset'' [(C_long, ''lAxisNo'')],
    Prototype 1116 C_DWORD Stdcall ''AxmTriggerSetPoint'' [(C_long, ''lAxisNo''), (C_double, ''dStartPos''), (C_double, ''dEndPos'')],
    Prototype 1121 C_DWORD Stdcall ''AxmTriggerGetPoint'' [(C_long, ''lAxisNo''), (Ptr C_double, ''dpStrPosition''), (Ptr C_double, ''dpEndPos'')],
    Prototype 1125 C_DWORD Stdcall ''AxmTriggerSetPointClear'' [(C_long, ''lAxisNo'')],
    Prototype 1132 C_DWORD Stdcall ''AxmCrcSetMaskLevel'' [(C_long, ''lAxisNo''), (C_DWORD, ''uLevel''), (C_DWORD, ''uMethod'')],
    Prototype 1134 C_DWORD Stdcall ''AxmCrcGetMaskLevel'' [(C_long, ''lAxisNo''), (Ptr C_DWORD, ''upLevel''), (Ptr C_DWORD, ''upMethod'')],
    Prototype 1138 C_DWORD Stdcall ''AxmCrcSetOutput'' [(C_long, ''lAxisNo''), (C_DWORD, ''uOnOff'')],
    Prototype 1140 C_DWORD Stdcall ''AxmCrcGetOutput'' [(C_long, ''lAxisNo''), (Ptr C_DWORD, ''upOnOff'')],
    Prototype 1157 C_DWORD Stdcall ''AxmMPGSetEnable'' [(C_long, ''lAxisNo''), (C_long, ''lInputMethod''), (C_long, ''lDriveMode''), (C_double, ''dMPGPos''), (C_double, ''dVel''), (C_double, ''dAccel'')],
    Prototype 1159 C_DWORD Stdcall ''AxmMPGGetEnable'' [(C_long, ''lAxisNo''), (Ptr C_long, ''lpInputMethod''), (Ptr C_long, ''lpDriveMode''), (Ptr C_double, ''dpMPGPos''), (Ptr C_double, ''dpVel''), (Ptr C_double, ''dAccel'')],
    Prototype 1163 C_DWORD Stdcall ''AxmMPGSetRatio'' [(C_long, ''lAxisNo''), (C_DWORD, ''uMPGnumerator''), (C_DWORD, ''uMPGdenominator'')],
    Prototype 1165 C_DWORD Stdcall ''AxmMPGGetRatio'' [(C_long, ''lAxisNo''), (Ptr C_DWORD, ''upMPGnumerator''), (Ptr C_DWORD, ''upMPGdenominator'')],
    Prototype 1167 C_DWORD Stdcall ''AxmMPGReset'' [(C_long, ''lAxisNo'')],
    Prototype 1177 C_DWORD Stdcall ''AxmHelixCenterMove'' [(C_long, ''lCoord''), (C_double, ''dCenterXPos''), (C_double, ''dCenterYPos''), (C_double, ''dEndXPos''), (C_double, ''dEndYPos''), (C_double, ''dZPos''), (C_double, ''dVel''), (C_double, ''dAccel''), (C_double, ''dDecel''), (C_DWORD, ''uCWDir'')],
    Prototype 1183 C_DWORD Stdcall ''AxmHelixPointMove'' [(C_long, ''lCoord''), (C_double, ''dMidXPos''), (C_double, ''dMidYPos''), (C_double, ''dEndXPos''), (C_double, ''dEndYPos''), (C_double, ''dZPos''), (C_double, ''dVel''), (C_double, ''dAccel''), (C_double, ''dDecel'')],
    Prototype 1190 C_DWORD Stdcall ''AxmHelixRadiusMove'' [(C_long, ''lCoord''), (C_double, ''dRadius''), (C_double, ''dEndXPos''), (C_double, ''dEndYPos''), (C_double, ''dZPos''), (C_double, ''dVel''), (C_double, ''dAccel''), (C_double, ''dDecel''), (C_DWORD, ''uCWDir''), (C_DWORD, ''uShortDistance'')],
    Prototype 1197 C_DWORD Stdcall ''AxmHelixAngleMove'' [(C_long, ''lCoord''), (C_double, ''dCenterXPos''), (C_double, ''dCenterYPos''), (C_double, ''dAngle''), (C_double, ''dZPos''), (C_double, ''dVel''), (C_double, ''dAccel''), (C_double, ''dDecel''), (C_DWORD, ''uCWDir'')],
    Prototype 1204 C_DWORD Stdcall ''AxmHelixPitchMove'' [(C_long, ''lCoordNo''), (Ptr C_double, ''dpFirstCenterPos''), (Ptr C_double, ''dpSecondCenterPos''), (C_double, ''dPitch''), (C_double, ''dTraverseDistance''), (C_double, ''dVel''), (C_double, ''dAccel''), (C_double, ''dDecel''), (C_DWORD, ''uCWDir'')],
    Prototype 1215 C_DWORD Stdcall ''AxmSplineWrite'' [(C_long, ''lCoord''), (C_long, ''lPosSize''), (Ptr C_double, ''dpPosX''), (Ptr C_double, ''dpPosY''), (C_double, ''dVel''), (C_double, ''dAccel''), (C_double, ''dDecel''), (C_double, ''dPosZ''), (C_long, ''lPointFactor'')],
    Prototype 1219 C_DWORD Stdcall ''AxmCompensationSet'' [(C_long, ''lAxisNo''), (C_long, ''lNumEntry''), (C_double, ''dStartPos''), (Ptr C_double, ''dpPosition''), (Ptr C_double, ''dpCorrection''), (C_DWORD, ''dwRollOver'')],
    Prototype 1221 C_DWORD Stdcall ''AxmCompensationGet'' [(C_long, ''lAxisNo''), (Ptr C_long, ''lpNumEntry''), (Ptr C_double, ''dpStartPos''), (Ptr C_double, ''dpPosition''), (Ptr C_double, ''dpCorrection''), (Ptr C_DWORD, ''dwpRollOver'')],
    Prototype 1224 C_DWORD Stdcall ''AxmCompensationEnable'' [(C_long, ''lAxisNo''), (C_DWORD, ''dwEnable'')],
    Prototype 1226 C_DWORD Stdcall ''AxmCompensationIsEnable'' [(C_long, ''lAxisNo''), (Ptr C_DWORD, ''dwpEnable'')],
    Prototype 1228 C_DWORD Stdcall ''AxmCompensationGetCorrection'' [(C_long, ''lAxisNo''), (Ptr C_double, ''dpCorrection'')],
    Prototype 1243 C_DWORD Stdcall ''AxmCompensationSetBacklash'' [(C_long, ''lAxisNo''), (C_long, ''lBacklashDir''), (C_double, ''dBacklash'')],
    Prototype 1245 C_DWORD Stdcall ''AxmCompensationGetBacklash'' [(C_long, ''lAxisNo''), (Ptr C_long, ''lpBacklashDir''), (Ptr C_double, ''dpBacklash'')],
    Prototype 1253 C_DWORD Stdcall ''AxmCompensationEnableBacklash'' [(C_long, ''lAxisNo''), (C_DWORD, ''dwEnable'')],
    Prototype 1254 C_DWORD Stdcall ''AxmCompensationIsEnableBacklash'' [(C_long, ''lAxisNo''), (Ptr C_DWORD, ''dwpEnable'')],
    Prototype 1263 C_DWORD Stdcall ''AxmCompensationSetLocating'' [(C_long, ''lAxisNo''), (C_double, ''dVel''), (C_double, ''dAccel''), (C_double, ''dDecel''), (C_double, ''dWaitTime'')],
    Prototype 1266 C_DWORD Stdcall ''AxmEcamSet'' [(C_long, ''lAxisNo''), (C_long, ''lMasterAxis''), (C_long, ''lNumEntry''), (C_double, ''dMasterStartPos''), (Ptr C_double, ''dpMasterPos''), (Ptr C_double, ''dpSlavePos'')],
    Prototype 1268 C_DWORD Stdcall ''AxmEcamSetWithSource'' [(C_long, ''lAxisNo''), (C_long, ''lMasterAxis''), (C_long, ''lNumEntry''), (C_double, ''dMasterStartPos''), (Ptr C_double, ''dpMasterPos''), (Ptr C_double, ''dpSlavePos''), (C_DWORD, ''dwSource'')],
    Prototype 1270 C_DWORD Stdcall ''AxmEcamGet'' [(C_long, ''lAxisNo''), (Ptr C_long, ''lpMasterAxis''), (Ptr C_long, ''lpNumEntry''), (Ptr C_double, ''dpMasterStartPos''), (Ptr C_double, ''dpMasterPos''), (Ptr C_double, ''dpSlavePos'')],
    Prototype 1272 C_DWORD Stdcall ''AxmEcamGetWithSource'' [(C_long, ''lAxisNo''), (Ptr C_long, ''lpMasterAxis''), (Ptr C_long, ''lpNumEntry''), (Ptr C_double, ''dpMasterStartPos''), (Ptr C_double, ''dpMasterPos''), (Ptr C_double, ''dpSlavePos''), (Ptr C_DWORD, ''dwpSource'')],
    Prototype 1275 C_DWORD Stdcall ''AxmEcamEnableBySlave'' [(C_long, ''lAxisNo''), (C_DWORD, ''dwEnable'')],
    Prototype 1277 C_DWORD Stdcall ''AxmEcamEnableByMaster'' [(C_long, ''lAxisNo''), (C_DWORD, ''dwEnable'')],
    Prototype 1279 C_DWORD Stdcall ''AxmEcamIsSlaveEnable'' [(C_long, ''lAxisNo''), (Ptr C_DWORD, ''dwpEnable'')],
    Prototype 1300 C_DWORD Stdcall ''AxmStatusSetServoMonitor'' [(C_long, ''lAxisNo''), (C_DWORD, ''dwSelMon''), (C_double, ''dActionValue''), (C_DWORD, ''dwAction'')],
    Prototype 1302 C_DWORD Stdcall ''AxmStatusGetServoMonitor'' [(C_long, ''lAxisNo''), (C_DWORD, ''dwSelMon''), (Ptr C_double, ''dpActionValue''), (Ptr C_DWORD, ''dwpAction'')],
    Prototype 1304 C_DWORD Stdcall ''AxmStatusSetServoMonitorEnable'' [(C_long, ''lAxisNo''), (C_DWORD, ''dwEnable'')],
    Prototype 1306 C_DWORD Stdcall ''AxmStatusGetServoMonitorEnable'' [(C_long, ''lAxisNo''), (Ptr C_DWORD, ''dwpEnable'')],
    Prototype 1309 C_DWORD Stdcall ''AxmStatusReadServoMonitorFlag'' [(C_long, ''lAxisNo''), (C_DWORD, ''dwSelMon''), (Ptr C_DWORD, ''dwpMonitorFlag''), (Ptr C_double, ''dpMonitorValue'')],
    Prototype 1311 C_DWORD Stdcall ''AxmStatusReadServoMonitorValue'' [(C_long, ''lAxisNo''), (C_DWORD, ''dwSelMon''), (Ptr C_double, ''dpMonitorValue'')],
    Prototype 1337 C_DWORD Stdcall ''AxmStatusSetReadServoLoadRatio'' [(C_long, ''lAxisNo''), (C_DWORD, ''dwSelMon'')],
    Prototype 1339 C_DWORD Stdcall ''AxmStatusReadServoLoadRatio'' [(C_long, ''lAxisNo''), (Ptr C_double, ''dpMonitorValue'')],
    Prototype 1343 C_DWORD Stdcall ''AxmMotSetScaleCoeff'' [(C_long, ''lAxisNo''), (C_long, ''lScaleCoeff'')],
    Prototype 1345 C_DWORD Stdcall ''AxmMotGetScaleCoeff'' [(C_long, ''lAxisNo''), (Ptr C_long, ''lpScaleCoeff'')],
    Prototype 1356 C_DWORD Stdcall ''AxmMoveSignalSearchEx'' [(C_long, ''lAxisNo''), (C_double, ''dVel''), (C_double, ''dAccel''), (C_long, ''lDetectSignal''), (C_long, ''lSignalEdge''), (C_long, ''lSignalMethod'')],
    Prototype 1364 C_DWORD Stdcall ''AxmMoveToAbsPos'' [(C_long, ''lAxisNo''), (C_double, ''dPos''), (C_double, ''dVel''), (C_double, ''dAccel''), (C_double, ''dDecel'')],
    Prototype 1366 C_DWORD Stdcall ''AxmStatusReadVelEx'' [(C_long, ''lAxisNo''), (Ptr C_double, ''dpVel'')],
    Prototype 1386 C_DWORD Stdcall ''AxmMotSetElectricGearRatio'' [(C_long, ''lAxisNo''), (C_long, ''lNumerator''), (C_long, ''lDenominator'')],
    Prototype 1388 C_DWORD Stdcall ''AxmMotGetElectricGearRatio'' [(C_long, ''lAxisNo''), (Ptr C_long, ''lpNumerator''), (Ptr C_long, ''lpDenominator'')],
    Prototype 1404 C_DWORD Stdcall ''AxmMotSetTorqueLimit'' [(C_long, ''lAxisNo''), (C_double, ''dbPlusDirTorqueLimit''), (C_double, ''dbMinusDirTorqueLimit'')],
    Prototype 1413 C_DWORD Stdcall ''AxmMotGetTorqueLimit'' [(C_long, ''lAxisNo''), (Ptr C_double, ''dbpPlusDirTorqueLimit''), (Ptr C_double, ''dbpMinusDirTorqueLimit'')],
    Prototype 1422 C_DWORD Stdcall ''AxmMotSetTorqueLimitEx'' [(C_long, ''lAxisNo''), (C_double, ''dbPlusDirTorqueLimit''), (C_double, ''dbMinusDirTorqueLimit'')],
    Prototype 1429 C_DWORD Stdcall ''AxmMotGetTorqueLimitEx'' [(C_long, ''lAxisNo''), (Ptr C_double, ''dbpPlusDirTorqueLimit''), (Ptr C_double, ''dbpMinusDirTorqueLimit'')],
    Prototype 1437 C_DWORD Stdcall ''AxmMotSetTorqueLimitAtPos'' [(C_long, ''lAxisNo''), (C_double, ''dbPlusDirTorqueLimit''), (C_double, ''dbMinusDirTorqueLimit''), (C_double, ''dPosition''), (C_long, ''lTarget'')],
    Prototype 1440 C_DWORD Stdcall ''AxmMotGetTorqueLimitAtPos'' [(C_long, ''lAxisNo''), (Ptr C_double, ''dbpPlusDirTorqueLimit''), (Ptr C_double, ''dbpMinusDirTorqueLimit''), (Ptr C_double, ''dpPosition''), (Ptr C_long, ''lpTarget'')],
    Prototype 1444 C_DWORD Stdcall ''AxmMotSetTorqueLimitEnable'' [(C_long, ''lAxisNo''), (C_DWORD, ''uUse'')],
    Prototype 1447 C_DWORD Stdcall ''AxmMotGetTorqueLimitEnable'' [(C_long, ''lAxisNo''), (Ptr C_DWORD, ''upUse'')],
    Prototype 1455 C_DWORD Stdcall ''AxmOverridePosSetFunction'' [(C_long, ''lAxisNo''), (C_DWORD, ''dwUsage''), (C_long, ''lDecelPosRatio''), (C_double, ''dReserved'')],
    Prototype 1457 C_DWORD Stdcall ''AxmOverridePosGetFunction'' [(C_long, ''lAxisNo''), (Ptr C_DWORD, ''dwpUsage''), (Ptr C_long, ''lpDecelPosRatio''), (Ptr C_double, ''dpReserved'')],
    Prototype 1467 C_DWORD Stdcall ''AxmSignalSetWriteOutputBitAtPos'' [(C_long, ''lAxisNo''), (C_long, ''lModuleNo''), (C_long, ''lOffset''), (C_DWORD, ''uValue''), (C_double, ''dPosition''), (C_long, ''lTarget'')],
    Prototype 1469 C_DWORD Stdcall ''AxmSignalGetWriteOutputBitAtPos'' [(C_long, ''lAxisNo''), (Ptr C_long, ''lpModuleNo''), (Ptr C_long, ''lOffset''), (Ptr C_DWORD, ''upValue''), (Ptr C_double, ''dpPosition''), (Ptr C_long, ''lpTarget'')],
    Prototype 1486 C_DWORD Stdcall ''AxmAdvVSTSetParameter'' [(C_long, ''lCoord''), (C_DWORD, ''dwISTSize''), (Ptr C_double, ''dbpFrequency''), (Ptr C_double, ''dbpDampingRatio''), (Ptr C_DWORD, ''dwpImpulseCount'')],
    Prototype 1487 C_DWORD Stdcall ''AxmAdvVSTGetParameter'' [(C_long, ''lCoord''), (Ptr C_DWORD, ''dwpISTSize''), (Ptr C_double, ''dbpFrequency''), (Ptr C_double, ''dbpDampingRatio''), (Ptr C_DWORD, ''dwpImpulseCount'')],
    Prototype 1490 C_DWORD Stdcall ''AxmAdvVSTSetEnabele'' [(C_long, ''lCoord''), (C_DWORD, ''dwISTEnable'')],
    Prototype 1491 C_DWORD Stdcall ''AxmAdvVSTGetEnabele'' [(C_long, ''lCoord''), (Ptr C_DWORD, ''dwpISTEnable'')],
    Prototype 1498 C_DWORD Stdcall ''AxmAdvLineMove'' [(C_long, ''lCoordinate''), (Ptr C_double, ''dPosition''), (C_double, ''dMaxVelocity''), (C_double, ''dStartVel''), (C_double, ''dStopVel''), (C_double, ''dMaxAccel''), (C_double, ''dMaxDecel'')],
    Prototype 1505 C_DWORD Stdcall ''AxmAdvOvrLineMove'' [(C_long, ''lCoordinate''), (Ptr C_double, ''dPosition''), (C_double, ''dMaxVelocity''), (C_double, ''dStartVel''), (C_double, ''dStopVel''), (C_double, ''dMaxAccel''), (C_double, ''dMaxDecel''), (C_long, ''lOverrideMode'')],
    Prototype 1512 C_DWORD Stdcall ''AxmAdvCircleCenterMove'' [(C_long, ''lCoord''), (Ptr C_long, ''lAxisNo''), (Ptr C_double, ''dCenterPos''), (Ptr C_double, ''dEndPos''), (C_double, ''dVel''), (C_double, ''dStartVel''), (C_double, ''dStopVel''), (C_double, ''dAccel''), (C_double, ''dDecel''), (C_DWORD, ''uCWDir'')],
    Prototype 1517 C_DWORD Stdcall ''AxmAdvCirclePointMove'' [(C_long, ''lCoord''), (Ptr C_long, ''lAxisNo''), (Ptr C_double, ''dMidPos''), (Ptr C_double, ''dEndPos''), (C_double, ''dVel''), (C_double, ''dStartVel''), (C_double, ''dStopVel''), (C_double, ''dAccel''), (C_double, ''dDecel''), (C_long, ''lArcCircle'')],
    Prototype 1523 C_DWORD Stdcall ''AxmAdvCircleAngleMove'' [(C_long, ''lCoord''), (Ptr C_long, ''lAxisNo''), (Ptr C_double, ''dCenterPos''), (C_double, ''dAngle''), (C_double, ''dVel''), (C_double, ''dStartVel''), (C_double, ''dStopVel''), (C_double, ''dAccel''), (C_double, ''dDecel''), (C_DWORD, ''uCWDir'')],
    Prototype 1529 C_DWORD Stdcall ''AxmAdvCircleRadiusMove'' [(C_long, ''lCoord''), (Ptr C_long, ''lAxisNo''), (C_double, ''dRadius''), (Ptr C_double, ''dEndPos''), (C_double, ''dVel''), (C_double, ''dStartVel''), (C_double, ''dStopVel''), (C_double, ''dAccel''), (C_double, ''dDecel''), (C_DWORD, ''uCWDir''), (C_DWORD, ''uShortDistance'')],
    Prototype 1536 C_DWORD Stdcall ''AxmAdvOvrCircleRadiusMove'' [(C_long, ''lCoord''), (Ptr C_long, ''lAxisNo''), (C_double, ''dRadius''), (Ptr C_double, ''dEndPos''), (C_double, ''dVel''), (C_double, ''dStartVel''), (C_double, ''dStopVel''), (C_double, ''dAccel''), (C_double, ''dDecel''), (C_DWORD, ''uCWDir''), (C_DWORD, ''uShortDistance''), (C_long, ''lOverrideMode'')],
    Prototype 1546 C_DWORD Stdcall ''AxmAdvHelixCenterMove'' [(C_long, ''lCoord''), (C_double, ''dCenterXPos''), (C_double, ''dCenterYPos''), (C_double, ''dEndXPos''), (C_double, ''dEndYPos''), (C_double, ''dZPos''), (C_double, ''dVel''), (C_double, ''dStartVel''), (C_double, ''dStopVel''), (C_double, ''dAccel''), (C_double, ''dDecel''), (C_DWORD, ''uCWDir'')],
    Prototype 1551 C_DWORD Stdcall ''AxmAdvHelixPointMove'' [(C_long, ''lCoord''), (C_double, ''dMidXPos''), (C_double, ''dMidYPos''), (C_double, ''dEndXPos''), (C_double, ''dEndYPos''), (C_double, ''dZPos''), (C_double, ''dVel''), (C_double, ''dStartVel''), (C_double, ''dStopVel''), (C_double, ''dAccel''), (C_double, ''dDecel'')],
    Prototype 1557 C_DWORD Stdcall ''AxmAdvHelixAngleMove'' [(C_long, ''lCoord''), (C_double, ''dCenterXPos''), (C_double, ''dCenterYPos''), (C_double, ''dAngle''), (C_double, ''dZPos''), (C_double, ''dVel''), (C_double, ''dStartVel''), (C_double, ''dStopVel''), (C_double, ''dAccel''), (C_double, ''dDecel''), (C_DWORD, ''uCWDir'')],
    Prototype 1563 C_DWORD Stdcall ''AxmAdvHelixRadiusMove'' [(C_long, ''lCoord''), (C_double, ''dRadius''), (C_double, ''dEndXPos''), (C_double, ''dEndYPos''), (C_double, ''dZPos''), (C_double, ''dVel''), (C_double, ''dStartVel''), (C_double, ''dStopVel''), (C_double, ''dAccel''), (C_double, ''dDecel''), (C_DWORD, ''uCWDir''), (C_DWORD, ''uShortDistance'')],
    Prototype 1570 C_DWORD Stdcall ''AxmAdvOvrHelixRadiusMove'' [(C_long, ''lCoord''), (C_double, ''dRadius''), (C_double, ''dEndXPos''), (C_double, ''dEndYPos''), (C_double, ''dZPos''), (C_double, ''dVel''), (C_double, ''dStartVel''), (C_double, ''dStopVel''), (C_double, ''dAccel''), (C_double, ''dDecel''), (C_DWORD, ''uCWDir''), (C_DWORD, ''uShortDistance''), (C_long, ''lOverrideMode'')],
    Prototype 1577 C_DWORD Stdcall ''AxmAdvScriptLineMove'' [(C_long, ''lCoordinate''), (Ptr C_double, ''dPosition''), (C_double, ''dMaxVelocity''), (C_double, ''dStartVel''), (C_double, ''dStopVel''), (C_double, ''dMaxAccel''), (C_double, ''dMaxDecel''), (C_DWORD, ''dwScript''), (C_long, ''lScirptAxisNo''), (C_double, ''dScriptPos'')],
    Prototype 1584 C_DWORD Stdcall ''AxmAdvScriptOvrLineMove'' [(C_long, ''lCoordinate''), (Ptr C_double, ''dPosition''), (C_double, ''dMaxVelocity''), (C_double, ''dStartVel''), (C_double, ''dStopVel''), (C_double, ''dMaxAccel''), (C_double, ''dMaxDecel''), (C_long, ''lOverrideMode''), (C_DWORD, ''dwScript''), (C_long, ''lScirptAxisNo''), (C_double, ''dScriptPos'')],
    Prototype 1591 C_DWORD Stdcall ''AxmAdvScriptCircleCenterMove'' [(C_long, ''lCoord''), (Ptr C_long, ''lAxisNo''), (Ptr C_double, ''dCenterPos''), (Ptr C_double, ''dEndPos''), (C_double, ''dVel''), (C_double, ''dStartVel''), (C_double, ''dStopVel''), (C_double, ''dAccel''), (C_double, ''dDecel''), (C_DWORD, ''uCWDir''), (C_DWORD, ''dwScript''), (C_long, ''lScirptAxisNo''), (C_double, ''dScriptPos'')],
    Prototype 1596 C_DWORD Stdcall ''AxmAdvScriptCirclePointMove'' [(C_long, ''lCoord''), (Ptr C_long, ''lAxisNo''), (Ptr C_double, ''dMidPos''), (Ptr C_double, ''dEndPos''), (C_double, ''dVel''), (C_double, ''dStartVel''), (C_double, ''dStopVel''), (C_double, ''dAccel''), (C_double, ''dDecel''), (C_long, ''lArcCircle''), (C_DWORD, ''dwScript''), (C_long, ''lScirptAxisNo''), (C_double, ''dScriptPos'')],
    Prototype 1602 C_DWORD Stdcall ''AxmAdvScriptCircleAngleMove'' [(C_long, ''lCoord''), (Ptr C_long, ''lAxisNo''), (Ptr C_double, ''dCenterPos''), (C_double, ''dAngle''), (C_double, ''dVel''), (C_double, ''dStartVel''), (C_double, ''dStopVel''), (C_double, ''dAccel''), (C_double, ''dDecel''), (C_DWORD, ''uCWDir''), (C_DWORD, ''dwScript''), (C_long, ''lScirptAxisNo''), (C_double, ''dScriptPos'')],
    Prototype 1608 C_DWORD Stdcall ''AxmAdvScriptCircleRadiusMove'' [(C_long, ''lCoord''), (Ptr C_long, ''lAxisNo''), (C_double, ''dRadius''), (Ptr C_double, ''dEndPos''), (C_double, ''dVel''), (C_double, ''dStartVel''), (C_double, ''dStopVel''), (C_double, ''dAccel''), (C_double, ''dDecel''), (C_DWORD, ''uCWDir''), (C_DWORD, ''uShortDistance''), (C_DWORD, ''dwScript''), (C_long, ''lScirptAxisNo''), (C_double, ''dScriptPos'')],
    Prototype 1615 C_DWORD Stdcall ''AxmAdvScriptOvrCircleRadiusMove'' [(C_long, ''lCoord''), (Ptr C_long, ''lAxisNo''), (C_double, ''dRadius''), (Ptr C_double, ''dEndPos''), (C_double, ''dVel''), (C_double, ''dStartVel''), (C_double, ''dStopVel''), (C_double, ''dAccel''), (C_double, ''dDecel''), (C_DWORD, ''uCWDir''), (C_DWORD, ''uShortDistance''), (C_long, ''lOverrideMode''), (C_DWORD, ''dwScript''), (C_long, ''lScirptAxisNo''), (C_double, ''dScriptPos'')],
    Prototype 1625 C_DWORD Stdcall ''AxmAdvScriptHelixCenterMove'' [(C_long, ''lCoord''), (C_double, ''dCenterXPos''), (C_double, ''dCenterYPos''), (C_double, ''dEndXPos''), (C_double, ''dEndYPos''), (C_double, ''dZPos''), (C_double, ''dVel''), (C_double, ''dStartVel''), (C_double, ''dStopVel''), (C_double, ''dAccel''), (C_double, ''dDecel''), (C_DWORD, ''uCWDir''), (C_DWORD, ''dwScript''), (C_long, ''lScirptAxisNo''), (C_double, ''dScriptPos'')],
    Prototype 1630 C_DWORD Stdcall ''AxmAdvScriptHelixPointMove'' [(C_long, ''lCoord''), (C_double, ''dMidXPos''), (C_double, ''dMidYPos''), (C_double, ''dEndXPos''), (C_double, ''dEndYPos''), (C_double, ''dZPos''), (C_double, ''dVel''), (C_double, ''dStartVel''), (C_double, ''dStopVel''), (C_double, ''dAccel''), (C_double, ''dDecel''), (C_DWORD, ''dwScript''), (C_long, ''lScirptAxisNo''), (C_double, ''dScriptPos'')],
    Prototype 1636 C_DWORD Stdcall ''AxmAdvScriptHelixAngleMove'' [(C_long, ''lCoord''), (C_double, ''dCenterXPos''), (C_double, ''dCenterYPos''), (C_double, ''dAngle''), (C_double, ''dZPos''), (C_double, ''dVel''), (C_double, ''dStartVel''), (C_double, ''dStopVel''), (C_double, ''dAccel''), (C_double, ''dDecel''), (C_DWORD, ''uCWDir''), (C_DWORD, ''dwScript''), (C_long, ''lScirptAxisNo''), (C_double, ''dScriptPos'')],
    Prototype 1642 C_DWORD Stdcall ''AxmAdvScriptHelixRadiusMove'' [(C_long, ''lCoord''), (C_double, ''dRadius''), (C_double, ''dEndXPos''), (C_double, ''dEndYPos''), (C_double, ''dZPos''), (C_double, ''dVel''), (C_double, ''dStartVel''), (C_double, ''dStopVel''), (C_double, ''dAccel''), (C_double, ''dDecel''), (C_DWORD, ''uCWDir''), (C_DWORD, ''uShortDistance''), (C_DWORD, ''dwScript''), (C_long, ''lScirptAxisNo''), (C_double, ''dScriptPos'')],
    Prototype 1649 C_DWORD Stdcall ''AxmAdvScriptOvrHelixRadiusMove'' [(C_long, ''lCoord''), (C_double, ''dRadius''), (C_double, ''dEndXPos''), (C_double, ''dEndYPos''), (C_double, ''dZPos''), (C_double, ''dVel''), (C_double, ''dStartVel''), (C_double, ''dStopVel''), (C_double, ''dAccel''), (C_double, ''dDecel''), (C_DWORD, ''uCWDir''), (C_DWORD, ''uShortDistance''), (C_long, ''lOverrideMode''), (C_DWORD, ''dwScript''), (C_long, ''lScirptAxisNo''), (C_double, ''dScriptPos'')],
    Prototype 1653 C_DWORD Stdcall ''AxmAdvContiGetNodeNum'' [(C_long, ''lCoordinate''), (Ptr C_long, ''lpNodeNum'')],
    Prototype 1655 C_DWORD Stdcall ''AxmAdvContiGetTotalNodeNum'' [(C_long, ''lCoordinate''), (Ptr C_long, ''lpNodeNum'')],
    Prototype 1657 C_DWORD Stdcall ''AxmAdvContiReadIndex'' [(C_long, ''lCoordinate''), (Ptr C_long, ''lpQueueIndex'')],
    Prototype 1659 C_DWORD Stdcall ''AxmAdvContiReadFree'' [(C_long, ''lCoordinate''), (Ptr C_DWORD, ''upQueueFree'')],
    Prototype 1661 C_DWORD Stdcall ''AxmAdvContiWriteClear'' [(C_long, ''lCoordinate'')],
    Prototype 1663 C_DWORD Stdcall ''AxmAdvOvrContiWriteClear'' [(C_long, ''lCoordinate'')],
    Prototype 1665 C_DWORD Stdcall ''AxmAdvContiStart'' [(C_long, ''lCoord''), (C_DWORD, ''dwProfileset''), (C_long, ''lAngle'')],
    Prototype 1667 C_DWORD Stdcall ''AxmAdvContiStop'' [(C_long, ''lCoordinate''), (C_double, ''dDecel'')],
    Prototype 1674 C_DWORD Stdcall ''AxmAdvContiSetAxisMap'' [(C_long, ''lCoord''), (C_long, ''lSize''), (Ptr C_long, ''lpAxesNo'')],
    Prototype 1676 C_DWORD Stdcall ''AxmAdvContiGetAxisMap'' [(C_long, ''lCoord''), (Ptr C_long, ''lpSize''), (Ptr C_long, ''lpAxesNo'')],
    Prototype 1682 C_DWORD Stdcall ''AxmAdvContiSetAbsRelMode'' [(C_long, ''lCoord''), (C_DWORD, ''uAbsRelMode'')],
    Prototype 1684 C_DWORD Stdcall ''AxmAdvContiGetAbsRelMode'' [(C_long, ''lCoord''), (Ptr C_DWORD, ''uAbsRelMode'')],
    Prototype 1686 C_DWORD Stdcall ''AxmAdvContiIsMotion'' [(C_long, ''lCoordinate''), (Ptr C_DWORD, ''upInMotion'')],
    Prototype 1690 C_DWORD Stdcall ''AxmAdvContiBeginNode'' [(C_long, ''lCoord'')],
    Prototype 1692 C_DWORD Stdcall ''AxmAdvContiEndNode'' [(C_long, ''lCoord'')],
    Prototype 1695 C_DWORD Stdcall ''AxmMoveMultiStop'' [(C_long, ''lArraySize''), (Ptr C_long, ''lpAxesNo''), (Ptr C_double, ''dMaxDecel'')],
    Prototype 1697 C_DWORD Stdcall ''AxmMoveMultiEStop'' [(C_long, ''lArraySize''), (Ptr C_long, ''lpAxesNo'')],
    Prototype 1699 C_DWORD Stdcall ''AxmMoveMultiSStop'' [(C_long, ''lArraySize''), (Ptr C_long, ''lpAxesNo'')],
    Prototype 1702 C_DWORD Stdcall ''AxmStatusReadActVel'' [(C_long, ''lAxisNo''), (Ptr C_double, ''dpVel'')],
    Prototype 1704 C_DWORD Stdcall ''AxmStatusReadServoCmdStat'' [(C_long, ''lAxisNo''), (Ptr C_DWORD, ''upStatus'')],
    Prototype 1706 C_DWORD Stdcall ''AxmStatusReadServoCmdCtrl'' [(C_long, ''lAxisNo''), (Ptr C_DWORD, ''upStatus'')],
    Prototype 1709 C_DWORD Stdcall ''AxmGantryGetMstToSlvOverDist'' [(C_long, ''lAxisNo''), (Ptr C_double, ''dpPosition'')],
    Prototype 1711 C_DWORD Stdcall ''AxmGantrySetMstToSlvOverDist'' [(C_long, ''lAxisNo''), (C_double, ''dPosition'')],
    Prototype 1714 C_DWORD Stdcall ''AxmSignalReadServoAlarmCode'' [(C_long, ''lAxisNo''), (Ptr C_WORD, ''upCodeStatus'')],
    Prototype 1717 C_DWORD Stdcall ''AxmM3ServoCoordinatesSet'' [(C_long, ''lAxisNo''), (C_DWORD, ''dwPosData''), (C_DWORD, ''dwPos_sel''), (C_DWORD, ''dwRefe'')],
    Prototype 1719 C_DWORD Stdcall ''AxmM3ServoBreakOn'' [(C_long, ''lAxisNo'')],
    Prototype 1721 C_DWORD Stdcall ''AxmM3ServoBreakOff'' [(C_long, ''lAxisNo'')],
    Prototype 1723 C_DWORD Stdcall ''AxmM3ServoConfig'' [(C_long, ''lAxisNo''), (C_DWORD, ''dwCfMode'')],
    Prototype 1725 C_DWORD Stdcall ''AxmM3ServoSensOn'' [(C_long, ''lAxisNo'')],
    Prototype 1727 C_DWORD Stdcall ''AxmM3ServoSensOff'' [(C_long, ''lAxisNo'')],
    Prototype 1729 C_DWORD Stdcall ''AxmM3ServoSmon'' [(C_long, ''lAxisNo'')],
    Prototype 1731 C_DWORD Stdcall ''AxmM3ServoGetSmon'' [(C_long, ''lAxisNo''), (Ptr C_BYTE, ''pbParam'')],
    Prototype 1733 C_DWORD Stdcall ''AxmM3ServoSvOn'' [(C_long, ''lAxisNo'')],
    Prototype 1735 C_DWORD Stdcall ''AxmM3ServoSvOff'' [(C_long, ''lAxisNo'')],
    Prototype 1737 C_DWORD Stdcall ''AxmM3ServoInterpolate'' [(C_long, ''lAxisNo''), (C_DWORD, ''dwTPOS''), (C_DWORD, ''dwVFF''), (C_DWORD, ''dwTFF''), (C_DWORD, ''dwTLIM'')],
    Prototype 1739 C_DWORD Stdcall ''AxmM3ServoPosing'' [(C_long, ''lAxisNo''), (C_DWORD, ''dwTPOS''), (C_DWORD, ''dwSPD''), (C_DWORD, ''dwACCR''), (C_DWORD, ''dwDECR''), (C_DWORD, ''dwTLIM'')],
    Prototype 1741 C_DWORD Stdcall ''AxmM3ServoFeed'' [(C_long, ''lAxisNo''), (C_long, ''lSPD''), (C_DWORD, ''dwACCR''), (C_DWORD, ''dwDECR''), (C_DWORD, ''dwTLIM'')],
    Prototype 1743 C_DWORD Stdcall ''AxmM3ServoExFeed'' [(C_long, ''lAxisNo''), (C_long, ''lSPD''), (C_DWORD, ''dwACCR''), (C_DWORD, ''dwDECR''), (C_DWORD, ''dwTLIM''), (C_DWORD, ''dwExSig1''), (C_DWORD, ''dwExSig2'')],
    Prototype 1745 C_DWORD Stdcall ''AxmM3ServoExPosing'' [(C_long, ''lAxisNo''), (C_DWORD, ''dwTPOS''), (C_DWORD, ''dwSPD''), (C_DWORD, ''dwACCR''), (C_DWORD, ''dwDECR''), (C_DWORD, ''dwTLIM''), (C_DWORD, ''dwExSig1''), (C_DWORD, ''dwExSig2'')],
    Prototype 1747 C_DWORD Stdcall ''AxmM3ServoZret'' [(C_long, ''lAxisNo''), (C_DWORD, ''dwSPD''), (C_DWORD, ''dwACCR''), (C_DWORD, ''dwDECR''), (C_DWORD, ''dwTLIM''), (C_DWORD, ''dwExSig1''), (C_DWORD, ''dwExSig2''), (C_BYTE, ''bHomeDir''), (C_BYTE, ''bHomeType'')],
    Prototype 1749 C_DWORD Stdcall ''AxmM3ServoVelctrl'' [(C_long, ''lAxisNo''), (C_DWORD, ''dwTFF''), (C_DWORD, ''dwVREF''), (C_DWORD, ''dwACCR''), (C_DWORD, ''dwDECR''), (C_DWORD, ''dwTLIM'')],
    Prototype 1751 C_DWORD Stdcall ''AxmM3ServoTrqctrl'' [(C_long, ''lAxisNo''), (C_DWORD, ''dwVLIM''), (C_long, ''lTQREF'')],
    Prototype 1757 C_DWORD Stdcall ''AxmM3ServoGetParameter'' [(C_long, ''lAxisNo''), (C_WORD, ''wNo''), (C_BYTE, ''bSize''), (C_BYTE, ''bMode''), (Ptr C_BYTE, ''pbParam'')],
    Prototype 1759 C_DWORD Stdcall ''AxmM3ServoSetParameter'' [(C_long, ''lAxisNo''), (C_WORD, ''wNo''), (C_BYTE, ''bSize''), (C_BYTE, ''bMode''), (Ptr C_BYTE, ''pbParam'')],
    Prototype 1780 C_DWORD Stdcall ''AxmServoCmdExecution'' [(C_long, ''lAxisNo''), (C_DWORD, ''dwCommand''), (C_DWORD, ''dwSize''), (Ptr C_DWORD, ''pdwExcData'')],
    Prototype 1782 C_DWORD Stdcall ''AxmM3ServoGetTorqLimit'' [(C_long, ''lAxisNo''), (Ptr C_DWORD, ''dwpTorqLimit'')],
    Prototype 1784 C_DWORD Stdcall ''AxmM3ServoSetTorqLimit'' [(C_long, ''lAxisNo''), (C_DWORD, ''dwTorqLimit'')],
    Prototype 1787 C_DWORD Stdcall ''AxmM3ServoGetSendSvCmdIOOutput'' [(C_long, ''lAxisNo''), (Ptr C_DWORD, ''dwData'')],
    Prototype 1789 C_DWORD Stdcall ''AxmM3ServoSetSendSvCmdIOOutput'' [(C_long, ''lAxisNo''), (C_DWORD, ''dwData'')],
    Prototype 1792 C_DWORD Stdcall ''AxmM3ServoGetSvCmdCtrl'' [(C_long, ''lAxisNo''), (Ptr C_DWORD, ''dwData'')],
    Prototype 1794 C_DWORD Stdcall ''AxmM3ServoSetSvCmdCtrl'' [(C_long, ''lAxisNo''), (C_DWORD, ''dwData'')],
    Prototype 1801 C_DWORD Stdcall ''AxmM3AdjustmentOperation'' [(C_long, ''lAxisNo''), (C_DWORD, ''dwReqCode'')],
    Prototype 1803 C_DWORD Stdcall ''AxmM3ServoSetMonSel'' [(C_long, ''lAxisNo''), (C_DWORD, ''dwMon0''), (C_DWORD, ''dwMon1''), (C_DWORD, ''dwMon2'')],
    Prototype 1805 C_DWORD Stdcall ''AxmM3ServoGetMonSel'' [(C_long, ''lAxisNo''), (Ptr C_DWORD, ''upMon0''), (Ptr C_DWORD, ''upMon1''), (Ptr C_DWORD, ''upMon2'')],
    Prototype 1807 C_DWORD Stdcall ''AxmM3ServoReadMonData'' [(C_long, ''lAxisNo''), (C_DWORD, ''dwMonSel''), (Ptr C_DWORD, ''dwpMonData'')],
    Prototype 1809 C_DWORD Stdcall ''AxmAdvTorqueContiSetAxisMap'' [(C_long, ''lCoord''), (C_long, ''lSize''), (Ptr C_long, ''lpAxesNo''), (C_DWORD, ''dwTLIM''), (C_DWORD, ''dwConMode'')],
    Prototype 1812 C_DWORD Stdcall ''AxmM3ServoSetTorqProfile'' [(C_long, ''lCoord''), (C_long, ''lAxisNo''), (C_long, ''TorqueSign''), (C_DWORD, ''dwVLIM''), (C_DWORD, ''dwProfileMode''), (C_DWORD, ''dwStdTorq''), (C_DWORD, ''dwStopTorq'')],
    Prototype 1814 C_DWORD Stdcall ''AxmM3ServoGetTorqProfile'' [(C_long, ''lCoord''), (C_long, ''lAxisNo''), (Ptr C_long, ''lpTorqueSign''), (Ptr C_DWORD, ''updwVLIM''), (Ptr C_DWORD, ''upProfileMode''), (Ptr C_DWORD, ''upStdTorq''), (Ptr C_DWORD, ''upStopTorq'')],
    Prototype 1819 C_DWORD Stdcall ''AxmSignalSetInposRange'' [(C_long, ''lAxisNo''), (C_double, ''dInposRange'')],
    Prototype 1821 C_DWORD Stdcall ''AxmSignalGetInposRange'' [(C_long, ''lAxisNo''), (Ptr C_double, ''dpInposRange'')],
    Prototype 1824 C_DWORD Stdcall ''AxmMotSetOverridePosMode'' [(C_long, ''lAxisNo''), (C_DWORD, ''dwAbsRelMode'')],
    Prototype 1826 C_DWORD Stdcall ''AxmMotGetOverridePosMode'' [(C_long, ''lAxisNo''), (Ptr C_DWORD, ''dwpAbsRelMode'')],
    Prototype 1828 C_DWORD Stdcall ''AxmMotSetOverrideLinePosMode'' [(C_long, ''lCoordNo''), (C_DWORD, ''dwAbsRelMode'')],
    Prototype 1830 C_DWORD Stdcall ''AxmMotGetOverrideLinePosMode'' [(C_long, ''lCoordNo''), (Ptr C_DWORD, ''dwpAbsRelMode'')],
    Prototype 1833 C_DWORD Stdcall ''AxmMoveStartPosEx'' [(C_long, ''lAxisNo''), (C_double, ''dPos''), (C_double, ''dVel''), (C_double, ''dAccel''), (C_double, ''dDecel''), (C_double, ''dEndVel'')],
    Prototype 1835 C_DWORD Stdcall ''AxmMovePosEx'' [(C_long, ''lAxisNo''), (C_double, ''dPos''), (C_double, ''dVel''), (C_double, ''dAccel''), (C_double, ''dDecel''), (C_double, ''dEndVel'')],
    Prototype 1838 C_DWORD Stdcall ''AxmMoveCoordStop'' [(C_long, ''lCoordNo''), (C_double, ''dDecel'')],
    Prototype 1840 C_DWORD Stdcall ''AxmMoveCoordEStop'' [(C_long, ''lCoordNo'')],
    Prototype 1842 C_DWORD Stdcall ''AxmMoveCoordSStop'' [(C_long, ''lCoordNo'')],
    Prototype 1845 C_DWORD Stdcall ''AxmOverrideLinePos'' [(C_long, ''lCoordNo''), (Ptr C_double, ''dpOverridePos'')],
    Prototype 1847 C_DWORD Stdcall ''AxmOverrideLineVel'' [(C_long, ''lCoordNo''), (C_double, ''dOverrideVel''), (Ptr C_double, ''dpDistance'')],
    Prototype 1853 C_DWORD Stdcall ''AxmOverrideLineAccelVelDecel'' [(C_long, ''lCoordNo''), (C_double, ''dOverrideVelocity''), (C_double, ''dMaxAccel''), (C_double, ''dMaxDecel''), (Ptr C_double, ''dpDistance'')],
    Prototype 1855 C_DWORD Stdcall ''AxmOverrideAccelVelDecelAtPos'' [(C_long, ''lAxisNo''), (C_double, ''dPos''), (C_double, ''dVel''), (C_double, ''dAccel''), (C_double, ''dDecel''), (C_double, ''dOverridePos''), (C_double, ''dOverrideVel''), (C_double, ''dOverrideAccel''), (C_double, ''dOverrideDecel''), (C_long, ''lTarget'')],
    Prototype 1862 C_DWORD Stdcall ''AxmEGearSet'' [(C_long, ''lMasterAxisNo''), (C_long, ''lSize''), (Ptr C_long, ''lpSlaveAxisNo''), (Ptr C_double, ''dpGearRatio'')],
    Prototype 1864 C_DWORD Stdcall ''AxmEGearGet'' [(C_long, ''lMasterAxisNo''), (Ptr C_long, ''lpSize''), (Ptr C_long, ''lpSlaveAxisNo''), (Ptr C_double, ''dpGearRatio'')],
    Prototype 1866 C_DWORD Stdcall ''AxmEGearReset'' [(C_long, ''lMasterAxisNo'')],
    Prototype 1868 C_DWORD Stdcall ''AxmEGearEnable'' [(C_long, ''lMasterAxisNo''), (C_DWORD, ''dwEnable'')],
    Prototype 1870 C_DWORD Stdcall ''AxmEGearIsEnable'' [(C_long, ''lMasterAxisNo''), (Ptr C_DWORD, ''dwpEnable'')],
    Prototype 1874 C_DWORD Stdcall ''AxmMotSetEndVel'' [(C_long, ''lAxisNo''), (C_double, ''dEndVelocity'')],
    Prototype 1876 C_DWORD Stdcall ''AxmMotGetEndVel'' [(C_long, ''lAxisNo''), (Ptr C_double, ''dpEndVelocity'')],
    Prototype 1882 C_DWORD Stdcall ''AxmLineMoveWithAxes'' [(C_long, ''lCoord''), (C_long, ''lArraySize''), (Ptr C_long, ''lpAxisNo''), (Ptr C_double, ''dpEndPos''), (C_double, ''dVel''), (C_double, ''dAccel''), (C_double, ''dDecel'')],
    Prototype 1892 C_DWORD Stdcall ''AxmCircleCenterMoveWithAxes'' [(C_long, ''lCoord''), (C_long, ''lArraySize''), (Ptr C_long, ''lpAxisNo''), (Ptr C_double, ''dCenterPosition''), (Ptr C_double, ''dEndPosition''), (C_double, ''dMaxVelocity''), (C_double, ''dMaxAccel''), (C_double, ''dMaxDecel''), (C_DWORD, ''uCWDir''), (C_DWORD, ''dw3DCircle'')],
    Prototype 1903 C_DWORD Stdcall ''AxmCircleRadiusMoveWithAxes'' [(C_long, ''lCoord''), (C_long, ''lArraySize''), (Ptr C_long, ''lpAxisNo''), (C_double, ''dRadius''), (Ptr C_double, ''dEndPos''), (C_double, ''dVel''), (C_double, ''dAccel''), (C_double, ''dDecel''), (C_DWORD, ''uCWDir''), (C_DWORD, ''uShortDistance'')],
    Prototype 1914 C_DWORD Stdcall ''AxmCircleAngleMoveWithAxes'' [(C_long, ''lCoord''), (C_long, ''lArraySize''), (Ptr C_long, ''lpAxisNo''), (Ptr C_double, ''dCenterPos''), (C_double, ''dAngle''), (C_double, ''dVel''), (C_double, ''dAccel''), (C_double, ''dDecel''), (C_DWORD, ''uCWDir'')],
    Prototype 1928 C_DWORD Stdcall ''AxmCirclePointMoveWithAxes'' [(C_long, ''lCoordNo''), (C_long, ''lArraySize''), (Ptr C_long, ''lpAxisNo''), (Ptr C_double, ''dpMidPos''), (Ptr C_double, ''dpEndPos''), (C_double, ''dVel''), (C_double, ''dAccel''), (C_double, ''dDecel''), (C_long, ''lArcCircle'')],
    Prototype 1935 C_DWORD Stdcall ''AxmLineMoveWithAxesWithEvent'' [(C_long, ''lCoord''), (C_long, ''lArraySize''), (Ptr C_long, ''lpAxisNo''), (Ptr C_double, ''dpEndPos''), (C_double, ''dVel''), (C_double, ''dAccel''), (C_double, ''dDecel''), (C_DWORD, ''dwEventFlag'')],
    Prototype 1946 C_DWORD Stdcall ''AxmCircleCenterMoveWithAxesWithEvent'' [(C_long, ''lCoord''), (C_long, ''lArraySize''), (Ptr C_long, ''lpAxisNo''), (Ptr C_double, ''dCenterPosition''), (Ptr C_double, ''dEndPosition''), (C_double, ''dMaxVelocity''), (C_double, ''dMaxAccel''), (C_double, ''dMaxDecel''), (C_DWORD, ''uCWDir''), (C_DWORD, ''dw3DCircle''), (C_DWORD, ''dwEventFlag'')],
    Prototype 1948 C_DWORD Stdcall ''AxmFilletMove'' [(C_long, ''lCoordinate''), (Ptr C_double, ''dPosition''), (Ptr C_double, ''dFirstVector''), (Ptr C_double, ''dSecondVector''), (C_double, ''dMaxVelocity''), (C_double, ''dMaxAccel''), (C_double, ''dMaxDecel''), (C_double, ''dRadius'')],
    Prototype 1959 C_DWORD Stdcall ''AxmMovePVT'' [(C_long, ''lAxisNo''), (C_DWORD, ''dwArraySize''), (Ptr C_double, ''pdPos''), (Ptr C_double, ''pdVel''), (Ptr C_DWORD, ''pdwUsec'')],
    Prototype 1973 C_DWORD Stdcall ''AxmSyncSetAxisMap'' [(C_long, ''lSyncNo''), (C_long, ''lSize''), (Ptr C_long, ''lpAxesNo'')],
    Prototype 1976 C_DWORD Stdcall ''AxmSyncClear'' [(C_long, ''lSyncNo'')],
    Prototype 1982 C_DWORD Stdcall ''AxmSyncBegin'' [(C_long, ''lSyncNo'')],
    Prototype 1985 C_DWORD Stdcall ''AxmSyncEnd'' [(C_long, ''lSyncNo'')],
    Prototype 1988 C_DWORD Stdcall ''AxmSyncStart'' [(C_long, ''lSyncNo'')],
    Prototype 1991 C_DWORD Stdcall ''AxmStatusReadRemainQueueCount'' [(C_long, ''lAxisNo''), (Ptr C_DWORD, ''pdwRemainQueueCount'')],
    Prototype 1997 C_DWORD Stdcall ''AxmMoveGetStartPosParam'' [(Ptr C_long, ''lpAxisNo''), (Ptr C_double, ''dpPos''), (Ptr C_double, ''dpVel''), (Ptr C_double, ''dpAccel''), (Ptr C_double, ''dpDecel'')],
    Prototype 1998 C_DWORD Stdcall ''AxmMoveGetPosParam'' [(Ptr C_long, ''lpAxisNo''), (Ptr C_double, ''dpPos''), (Ptr C_double, ''dpVel''), (Ptr C_double, ''dpAccel''), (Ptr C_double, ''dpDecel'')],
    Prototype 1999 C_DWORD Stdcall ''AxmMoveGetVelParam'' [(Ptr C_long, ''lpAxisNo''), (Ptr C_double, ''dpVel''), (Ptr C_double, ''dpAccel''), (Ptr C_double, ''dpDecel'')],
    Prototype 2000 C_DWORD Stdcall ''AxmMoveGetStartMultiPosParam'' [(Ptr C_long, ''lpArraySize''), (Ptr C_long, ''lpAxesNoArrGet''), (Ptr C_double, ''dpPosArrGet''), (Ptr C_double, ''dpVelArrGet''), (Ptr C_double, ''dpAccelArrGet''), (Ptr C_double, ''dpDecelArrGet'')],
    Prototype 2002 C_DWORD Stdcall ''AxmMoveGetToAbsPosParam'' [(Ptr C_long, ''lpAxisNo''), (Ptr C_double, ''dpPos''), (Ptr C_double, ''dpVel''), (Ptr C_double, ''dpAccel''), (Ptr C_double, ''dpDecel'')],
    Prototype 2003 C_DWORD Stdcall ''AxmMoveGetLastParam'' [(C_long, ''lAxisNo''), (Ptr C_double, ''dpPos''), (Ptr C_double, ''dpVel''), (Ptr C_double, ''dpAccel''), (Ptr C_double, ''dpDecel'')]
  ]"

fun find_prototype :: "prototype list \<Rightarrow> string \<Rightarrow> prototype option" where
  "find_prototype [] n = None"
| "find_prototype (p # ps) n = (if fname p = n then Some p else find_prototype ps n)"

definition signature :: "string \<Rightarrow> member list option" where
  "signature n = map_option params (find_prototype AXM_prototypes n)"

text \<open>
  The query families by name: \<^verbatim>\<open>AxmInfo*\<close>, \<^verbatim>\<open>Axm*Get*\<close> and \<^verbatim>\<open>AxmStatusRead*\<close>.
\<close>

definition is_query :: "prototype \<Rightarrow> bool" where
  "is_query p = (starts_with ''AxmInfo'' (fname p) \<or> contains ''Get'' (fname p)
     \<or> starts_with ''AxmStatusRead'' (fname p))"

definition has_pointer_param :: "prototype \<Rightarrow> bool" where
  "has_pointer_param p = list_ex (\<lambda>m. is_data_pointer (fst m)) (params p)"

text \<open>
  The header documents a return mode (\<^verbatim>\<open>[0-Immediate]\<close>, \<^verbatim>\<open>[1-Blocking]\<close>,
  \<^verbatim>\<open>[2-Non Blocking]\<close>) for the parameter it names \<^verbatim>\<open>uReturnMode\<close>.
\<close>

definition has_return_mode_param :: "prototype \<Rightarrow> bool" where
  "has_return_mode_param p = list_ex (\<lambda>m. snd m = ''uReturnMode'') (params p)"

definition is_move :: "prototype \<Rightarrow> bool" where
  "is_move p = starts_with ''AxmMove'' (fname p)"

text \<open>
  An accessor hands a value of type \<open>t\<close> back through a \<^verbatim>\<open>t *\<close> parameter, and an array
  through the caller's array.
\<close>

fun out_type :: "ctype \<Rightarrow> ctype" where
  "out_type (Ptr t) = Ptr t"
| "out_type t = Ptr t"

text \<open>
  Modelled from the spec: what a call of an \<^verbatim>\<open>Axm\<close> function returns is decided in the
  vendor's library. By the spec every function returns a result code drawn from
  \<^verbatim>\<open>AXT_FUNC_RESULT\<close>: a call of a declared function can return \<open>r\<close> only if \<open>r\<close> is a status
  code. Which code a call returns is left open.
\<close>

definition call_returns :: "prototype \<Rightarrow> DWORD \<Rightarrow> bool" where
  "call_returns p r = (p \<in> set AXM_prototypes \<and> is_status_code r)"

section \<open>AXM.h: the accessors of the move parameters\<close>

text \<open>
  Each accessor with the move function whose arguments it hands back and the struct that
  bundles them.
\<close>

definition move_param_accessors :: "(string \<times> string \<times> member list) list" where
  "move_param_accessors = [
    (''AxmMoveGetStartPosParam'', ''AxmMoveStartPos'', AXT_MOVE_START_POS_PARAM),
    (''AxmMoveGetPosParam'', ''AxmMovePos'', AXT_MOVE_POS_PARAM),
    (''AxmMoveGetVelParam'', ''AxmMoveVel'', AXT_MOVE_VEL_PARAM),
    (''AxmMoveGetStartMultiPosParam'', ''AxmMoveStartMultiPos'', AXT_MOVE_START_MULTI_POS_PARAM),
    (''AxmMoveGetToAbsPosParam'', ''AxmMoveToAbsPos'', AXT_MOVE_TO_ABS_POS_PARAM)
  ]"

definition move_function_of :: "string \<Rightarrow> string option" where
  "move_function_of accessor = map_option fst (map_of move_param_accessors accessor)"

text \<open>
  Modelled from the spec: the move functions and their accessors are implemented in the
  vendor's library. The spec says the parameter structs "exist purely to let a caller
  retrieve the arguments most recently passed to a corresponding move-start function".
  AXM.h (lines 1995 and 1996) says of the accessors that they return the parameter values
  that were given to each move function, that the values are stored only when the move
  succeeded, and that the parameters of a failed move are not stored. A call is the name
  of the move function, its arguments in order and the status it returned; the store
  holds, per move function, the arguments that were stored last.
\<close>

type_synonym 'v move_call = "string \<times> 'v list \<times> DWORD"

type_synonym 'v param_store = "string \<Rightarrow> 'v list"

fun store_call :: "'v param_store \<Rightarrow> 'v move_call \<Rightarrow> 'v param_store" where
  "store_call st (f, args, status) = (if status = 0 then st(f := args) else st)"

definition after_calls :: "'v param_store \<Rightarrow> 'v move_call list \<Rightarrow> 'v param_store" where
  "after_calls st h = foldl store_call st h"

text \<open>
  Modelled from the spec: an accessor returns a status code as every function does, and
  when that is 0 the values it hands back are the stored arguments of its move function.
\<close>

definition AxmMoveGetParam :: "string \<Rightarrow> 'v param_store \<Rightarrow> DWORD \<times> 'v list \<Rightarrow> bool" where
  "AxmMoveGetParam accessor st res =
     (is_status_code (fst res)
      \<and> (fst res \<noteq> 0 \<or> map_option st (move_function_of accessor) = Some (snd res)))"

text \<open>
  The arguments of the last call in a list of calls; the arguments most recently passed to
  a move function, and those of its most recent call that returned success.
\<close>

fun last_args :: "'v move_call list \<Rightarrow> 'v list option" where
  "last_args [] = None"
| "last_args (c # cs) = (case last_args cs of None \<Rightarrow> Some (fst (snd c)) | Some a \<Rightarrow> Some a)"

definition most_recently_passed :: "string \<Rightarrow> 'v move_call list \<Rightarrow> 'v list option" where
  "most_recently_passed f h = last_args (filter (\<lambda>c. fst c = f) h)"

definition last_successful :: "string \<Rightarrow> 'v move_call list \<Rightarrow> 'v list option" where
  "last_successful f h = last_args (filter (\<lambda>c. fst c = f \<and> snd (snd c) = 0) h)"

section \<open>Evaluation lemmas\<close>

text \<open>
  The tables are long. These congruence rules make the simplifier evaluate a table
  function entry by entry instead of normalising the rest of the table at every step, and
  the rule collections below are what the evaluation of a table needs.
\<close>

lemma enum_value_weak_cong: "k = k' \<Longrightarrow> enum_value es k = enum_value es k'"
  by simp

lemma find_prototype_weak_cong: "n = n' \<Longrightarrow> find_prototype ps n = find_prototype ps n'"
  by simp

lemma filter_weak_cong: "P = Q \<Longrightarrow> filter P xs = filter Q xs"
  by simp

lemma list_all_weak_cong: "P = Q \<Longrightarrow> list_all P xs = list_all Q xs"
  by simp

lemmas eval_basic =
  fst_conv snd_conv prod.inject list.inject list.distinct char.inject option.inject
  simp_thms if_True if_False

lemmas eval_list =
  list.map filter.simps append.simps list_all_Nil_iff list_all_Cons_iff
  list_ex_Nil_iff list_ex_Cons_iff

lemmas eval_names = starts_with.simps contains.simps

lemmas eval_prototype =
  prototype.sel ctype.inject ctype.distinct callconv.distinct is_data_pointer.simps

lemma strictly_increasing_Cons:
  "strictly_increasing (x # xs) \<Longrightarrow> strictly_increasing xs \<and> (\<forall>y \<in> set xs. x < y)"
proof (induction xs arbitrary: x)
  case Nil
  then show ?case by simp
next
  case (Cons y ys)
  from Cons.prems have xy: "x < y" and rest: "strictly_increasing (y # ys)"
    by simp_all
  from Cons.IH [OF rest] have "\<forall>z \<in> set ys. y < z"
    by simp
  with xy have "\<forall>z \<in> set (y # ys). x < z"
    by auto
  with rest show ?case by simp
qed

lemma strictly_increasing_distinct: "strictly_increasing xs \<Longrightarrow> distinct xs"
proof (induction xs)
  case Nil
  then show ?case by simp
next
  case (Cons x xs)
  from strictly_increasing_Cons [OF Cons.prems]
  have rest: "strictly_increasing xs" and above: "\<forall>y \<in> set xs. x < y"
    by simp_all
  from above have "x \<notin> set xs"
    by auto
  with Cons.IH [OF rest] show ?case by simp
qed

lemma distinct_snd_same_value:
  assumes "distinct (map snd xs)" and "(a, v) \<in> set xs" and "(b, v) \<in> set xs"
  shows "a = b"
proof -
  from assms(1) have "inj_on snd (set xs)"
    by (simp add: distinct_map)
  from inj_onD [OF this, of "(a, v)" "(b, v)"] assms(2,3) show ?thesis
    by simp
qed

lemma enum_value_member: "enum_value es n = Some v \<Longrightarrow> (n, v) \<in> set es"
  by (induction es) (auto split: if_splits)

lemma code_fits_DWORD:
  assumes "0 \<le> v" and "v < 2 ^ 32"
  shows "DWORD_of_code v = 0 \<longleftrightarrow> v = 0"
proof
  assume "DWORD_of_code v = 0"
  then have "(2 :: int) ^ 32 dvd v"
    by (simp add: DWORD_of_code_def word_of_int_eq_0_iff)
  show "v = 0"
  proof (rule ccontr)
    assume "v \<noteq> 0"
    with assms have "0 < v"
      by simp
    with \<open>(2 :: int) ^ 32 dvd v\<close> have "(2 :: int) ^ 32 \<le> v"
      by (rule zdvd_imp_le)
    with assms show False
      by simp
  qed
next
  assume "v = 0"
  then show "DWORD_of_code v = 0"
    by (simp add: DWORD_of_code_def)
qed

lemma uint_DWORD_of_code:
  assumes "0 \<le> v" and "v < 2 ^ 32"
  shows "uint (DWORD_of_code v) = v"
  using assms by (simp add: DWORD_of_code_def uint_word_of_int take_bit_int_eq_self)

lemma find_prototype_member: "find_prototype ps n = Some p \<Longrightarrow> p \<in> set ps"
  by (induction ps) (auto split: if_splits)

subsection \<open>The mask bits of MOTION_INFO\<close>

lemma and_bit_test: "(m AND push_bit n 1 \<noteq> 0) = bit m n" for m :: DWORD
  by (simp add: bit_iff_and_push_bit_not_eq_0)

lemma requested_bits:
  "requested m F_dCmdPos = bit m 0"
  "requested m F_dActPos = bit m 1"
  "requested m F_dwMechSig = bit m 2"
  "requested m F_dwDrvStat = bit m 3"
  "requested m F_dwInput = bit m 4"
  "requested m F_dwOutput = bit m 4"
  using and_bit_test [of m 0] and_bit_test [of m 1] and_bit_test [of m 2]
    and_bit_test [of m 3] and_bit_test [of m 4]
  by (simp_all add: requested_def)

lemma all_five_bits:
  "(m AND 0x1F = 0x1F) = (bit m 0 \<and> bit m 1 \<and> bit m 2 \<and> bit m 3 \<and> bit m 4)" for m :: DWORD
proof -
  have m5: "(0x1F :: DWORD) = mask 5"
    by (simp add: mask_eq_exp_minus_1)
  have "(m AND mask 5 = mask 5) = (\<forall>n < 5. bit m n)"
  proof
    assume eq: "m AND mask 5 = mask 5"
    show "\<forall>n < 5. bit m n"
    proof (intro allI impI)
      fix n :: nat
      assume "n < 5"
      then have "bit (mask 5 :: DWORD) n"
        by (simp add: bit_mask_iff)
      with eq have "bit (m AND mask 5) n"
        by simp
      then show "bit m n"
        by (simp add: bit_and_iff)
    qed
  next
    assume all: "\<forall>n < 5. bit m n"
    show "m AND mask 5 = mask 5"
      by (rule bit_eqI) (use all in \<open>auto simp add: bit_and_iff bit_mask_iff\<close>)
  qed
  also have "\<dots> = (bit m 0 \<and> bit m 1 \<and> bit m 2 \<and> bit m 3 \<and> bit m 4)"
  proof -
    have "{..<5::nat} = {0, 1, 2, 3, 4}"
      by auto
    then have "(\<forall>n < 5. bit m n) = (\<forall>n \<in> {0, 1, 2, 3, 4::nat}. bit m n)"
      by (metis lessThan_iff)
    then show ?thesis
      by simp
  qed
  finally show ?thesis
    unfolding m5 .
qed

lemma requested_all_iff:
  "list_all (requested m) MOTION_INFO_data_fields = (m AND 0x1F = 0x1F)"
  by (simp add: MOTION_INFO_data_fields_def requested_bits all_five_bits)

lemma data_field_listed: "f \<in> set MOTION_INFO_data_fields"
  by (cases f) (simp_all add: MOTION_INFO_data_fields_def)

subsection \<open>The store of move parameters\<close>

lemma last_args_append: "last_args (cs @ [c]) = Some (fst (snd c))"
  by (induction cs) simp_all

lemma after_calls_snoc: "after_calls st (h @ [c]) = store_call (after_calls st h) c"
  by (simp add: after_calls_def)

lemma after_calls_last_successful:
  "after_calls st h f = (case last_successful f h of None \<Rightarrow> st f | Some args \<Rightarrow> args)"
proof (induction h rule: rev_induct)
  case Nil
  then show ?case
    by (simp add: after_calls_def last_successful_def)
next
  case (snoc c h)
  obtain g args status where c: "c = (g, args, status)"
    by (cases c)
  show ?case
  proof (cases "g = f \<and> status = 0")
    case True
    then show ?thesis
      by (simp add: after_calls_snoc c last_successful_def last_args_append)
  next
    case False
    then have "store_call (after_calls st h) c f = after_calls st h f"
      by (auto simp add: c)
    moreover from False have "last_successful f (h @ [c]) = last_successful f h"
      by (auto simp add: c last_successful_def)
    ultimately show ?thesis
      using snoc.IH by (simp add: after_calls_snoc)
  qed
qed

section \<open>Facts about AXT_FUNC_RESULT\<close>

lemma AXT_FUNC_RESULT_length: "length AXT_FUNC_RESULT = 457"
  unfolding AXT_FUNC_RESULT_def by simp

lemma AXT_FUNC_RESULT_increasing: "strictly_increasing (map snd AXT_FUNC_RESULT)"
  unfolding AXT_FUNC_RESULT_def by simp

lemma AXT_FUNC_RESULT_shape:
  "list_all (\<lambda>e. (fst e = ''AXT_RT_SUCCESS'' \<and> snd e = 0)
      \<or> (fst e \<noteq> ''AXT_RT_SUCCESS'' \<and> 1001 \<le> snd e \<and> snd e \<le> 7902)) AXT_FUNC_RESULT"
  unfolding AXT_FUNC_RESULT_def
  by (simp only: eval_basic eval_list cong: list_all_weak_cong; simp)

lemma AXT_RT_SUCCESS_value: "enum_value AXT_FUNC_RESULT ''AXT_RT_SUCCESS'' = Some 0"
  unfolding AXT_FUNC_RESULT_def
  by (simp only: eval_basic enum_value.simps cong: enum_value_weak_cong if_weak_cong)

lemma AXT_RT_OPEN_ERROR_value: "enum_value AXT_FUNC_RESULT ''AXT_RT_OPEN_ERROR'' = Some 1001"
  unfolding AXT_FUNC_RESULT_def
  by (simp only: eval_basic enum_value.simps cong: enum_value_weak_cong if_weak_cong)

lemma AXT_RT_MOTION_ERROR_IN_MOTION_value:
  "enum_value AXT_FUNC_RESULT ''AXT_RT_MOTION_ERROR_IN_MOTION'' = Some 4152"
  unfolding AXT_FUNC_RESULT_def
  by (simp only: eval_basic enum_value.simps cong: enum_value_weak_cong if_weak_cong)

lemma status_codeI: "enum_value AXT_FUNC_RESULT n = Some v \<Longrightarrow> is_status_code (DWORD_of_code v)"
proof -
  assume "enum_value AXT_FUNC_RESULT n = Some v"
  then have "(n, v) \<in> set AXT_FUNC_RESULT"
    by (rule enum_value_member)
  then have "DWORD_of_code (snd (n, v)) \<in> (\<lambda>e. DWORD_of_code (snd e)) ` set AXT_FUNC_RESULT"
    by (rule imageI)
  then show ?thesis
    by (simp add: is_status_code_def)
qed

lemma status_code_success: "is_status_code 0"
  using status_codeI [OF AXT_RT_SUCCESS_value] by (simp add: DWORD_of_code_def)

lemma status_codeD:
  assumes "is_status_code r"
  shows "\<exists>n. (n, uint r) \<in> set AXT_FUNC_RESULT \<and> (r = 0 \<longleftrightarrow> n = ''AXT_RT_SUCCESS'')"
proof -
  from assms obtain n v where mem: "(n, v) \<in> set AXT_FUNC_RESULT" and r: "r = DWORD_of_code v"
    by (auto simp add: is_status_code_def)
  from mem AXT_FUNC_RESULT_shape have shape:
    "(n = ''AXT_RT_SUCCESS'' \<and> v = 0) \<or> (n \<noteq> ''AXT_RT_SUCCESS'' \<and> 1001 \<le> v \<and> v \<le> 7902)"
    unfolding list_all_iff by fastforce
  then have range: "0 \<le> v" "v < 2 ^ 32"
    by auto
  from range have "uint r = v"
    unfolding r by (rule uint_DWORD_of_code)
  moreover from range have "r = 0 \<longleftrightarrow> v = 0"
    unfolding r by (rule code_fits_DWORD)
  moreover from shape have "v = 0 \<longleftrightarrow> n = ''AXT_RT_SUCCESS''"
    by auto
  ultimately show ?thesis
    using mem by auto
qed

lemma below_min_values:
  "map (\<lambda>ord. enum_value AXT_FUNC_RESULT (below_min_name ord)) ordinals =
     map Some [1160, 1170, 1180, 1190, 1200, 1210, 1220, 1230, 1240, 1250, 1252]"
  unfolding AXT_FUNC_RESULT_def ordinals_def below_min_name_def
  by (simp only: eval_basic eval_list enum_value.simps cong: enum_value_weak_cong if_weak_cong)

lemma above_max_values:
  "map (\<lambda>ord. enum_value AXT_FUNC_RESULT (above_max_name ord)) ordinals =
     map Some [1161, 1171, 1181, 1191, 1201, 1211, 1221, 1231, 1241, 1251, 1253]"
  unfolding AXT_FUNC_RESULT_def ordinals_def above_max_name_def
  by (simp only: eval_basic eval_list enum_value.simps cong: enum_value_weak_cong if_weak_cong)

lemma band_AIO: "subsystem_band ''AXT_RT_AIO_'' = Some (2001, 2110)"
  unfolding subsystem_band_def codes_with_prefix_def AXT_FUNC_RESULT_def
  by (simp only: eval_basic eval_list eval_names cong: filter_weak_cong if_weak_cong; simp)

lemma band_DIO: "subsystem_band ''AXT_RT_DIO_'' = Some (3001, 3109)"
  unfolding subsystem_band_def codes_with_prefix_def AXT_FUNC_RESULT_def
  by (simp only: eval_basic eval_list eval_names cong: filter_weak_cong if_weak_cong; simp)

lemma band_CNT: "subsystem_band ''AXT_RT_CNT_'' = Some (3201, 3313)"
  unfolding subsystem_band_def codes_with_prefix_def AXT_FUNC_RESULT_def
  by (simp only: eval_basic eval_list eval_names cong: filter_weak_cong if_weak_cong; simp)

lemma band_COM: "subsystem_band ''AXT_RT_COM_'' = Some (3401, 3508)"
  unfolding subsystem_band_def codes_with_prefix_def AXT_FUNC_RESULT_def
  by (simp only: eval_basic eval_list eval_names cong: filter_weak_cong if_weak_cong; simp)

lemma band_MOTION: "subsystem_band ''AXT_RT_MOTION_'' = Some (4001, 6002)"
  unfolding subsystem_band_def codes_with_prefix_def AXT_FUNC_RESULT_def
  by (simp only: eval_basic eval_list eval_names cong: filter_weak_cong if_weak_cong; simp)

lemma band_M3: "subsystem_band ''AXT_RT_M3_'' = Some (4500, 4500)"
  unfolding subsystem_band_def codes_with_prefix_def AXT_FUNC_RESULT_def
  by (simp only: eval_basic eval_list eval_names cong: filter_weak_cong if_weak_cong; simp)

lemma band_QUEUE: "subsystem_band ''AXT_RT_QUEUE_'' = Some (5010, 5017)"
  unfolding subsystem_band_def codes_with_prefix_def AXT_FUNC_RESULT_def
  by (simp only: eval_basic eval_list eval_names cong: filter_weak_cong if_weak_cong; simp)

lemma band_MACRO: "subsystem_band ''AXT_RT_MACRO_'' = Some (6700, 6722)"
  unfolding subsystem_band_def codes_with_prefix_def AXT_FUNC_RESULT_def
  by (simp only: eval_basic eval_list eval_names cong: filter_weak_cong if_weak_cong; simp)

section \<open>Claims about AXT_FUNC_RESULT\<close>

text \<open>
  C9. In \<^verbatim>\<open>AXT_FUNC_RESULT\<close> all enumerator values are pairwise distinct, and every
  enumerator other than \<^verbatim>\<open>AXT_RT_SUCCESS\<close> has a value of at least 1001. So a code is 0
  exactly when it is \<^verbatim>\<open>AXT_RT_SUCCESS\<close>, also after it has been returned as a \<^verbatim>\<open>DWORD\<close>, and
  two enumerators with the same value are the same enumerator.
\<close>

theorem AXT_FUNC_RESULT_distinct_and_success_zero:
  assumes "(n, v) \<in> set AXT_FUNC_RESULT" and "(n', v') \<in> set AXT_FUNC_RESULT"
  shows "distinct (map snd AXT_FUNC_RESULT)
    \<and> (n \<noteq> ''AXT_RT_SUCCESS'' \<longrightarrow> 1001 \<le> v)
    \<and> (v = 0 \<longleftrightarrow> n = ''AXT_RT_SUCCESS'')
    \<and> (DWORD_of_code v = 0 \<longleftrightarrow> n = ''AXT_RT_SUCCESS'')
    \<and> (v = v' \<longrightarrow> n = n')"
proof -
  have dist: "distinct (map snd AXT_FUNC_RESULT)"
    using AXT_FUNC_RESULT_increasing by (rule strictly_increasing_distinct)
  have shape: "\<And>m w. (m, w) \<in> set AXT_FUNC_RESULT \<Longrightarrow>
      (m = ''AXT_RT_SUCCESS'' \<and> w = 0) \<or> (m \<noteq> ''AXT_RT_SUCCESS'' \<and> 1001 \<le> w \<and> w \<le> 7902)"
    using AXT_FUNC_RESULT_shape unfolding list_all_iff by fastforce
  from shape [OF assms(1)] have v_cases:
    "(n = ''AXT_RT_SUCCESS'' \<and> v = 0) \<or> (n \<noteq> ''AXT_RT_SUCCESS'' \<and> 1001 \<le> v \<and> v \<le> 7902)" .
  from v_cases have range: "0 \<le> v" "v < 2 ^ 32"
    by auto
  have dword: "DWORD_of_code v = 0 \<longleftrightarrow> v = 0"
    using range by (rule code_fits_DWORD)
  from v_cases have zero: "v = 0 \<longleftrightarrow> n = ''AXT_RT_SUCCESS''"
    by auto
  from v_cases have low: "n \<noteq> ''AXT_RT_SUCCESS'' \<longrightarrow> 1001 \<le> v"
    by auto
  have same: "v = v' \<longrightarrow> n = n'"
    using dist assms by (auto dest: distinct_snd_same_value)
  from dist low zero dword same show ?thesis
    by simp
qed

theorem AXT_FUNC_RESULT_distinct_and_success_zero_witness:
  "(''AXT_RT_OPEN_ERROR'', 1001) \<in> set AXT_FUNC_RESULT
    \<and> (''AXT_RT_SUCCESS'', 0) \<in> set AXT_FUNC_RESULT
    \<and> distinct (map snd AXT_FUNC_RESULT)
    \<and> DWORD_of_code 1001 \<noteq> 0"
proof -
  have m1: "(''AXT_RT_OPEN_ERROR'', 1001) \<in> set AXT_FUNC_RESULT"
    using AXT_RT_OPEN_ERROR_value by (rule enum_value_member)
  have m2: "(''AXT_RT_SUCCESS'', 0) \<in> set AXT_FUNC_RESULT"
    using AXT_RT_SUCCESS_value by (rule enum_value_member)
  from AXT_FUNC_RESULT_distinct_and_success_zero [OF m1 m2] m1 m2 show ?thesis
    by simp
qed

text \<open>
  C8. For every argument position from the 1st to the 11th, \<^verbatim>\<open>AXT_FUNC_RESULT\<close> has one code
  for "argument below minimum" and one for "argument above maximum", with the values
  1160 and 1161 for the 1st up to 1252 and 1253 for the 11th, and the 22 codes are
  pairwise different.
\<close>

theorem argument_range_codes:
  "map (\<lambda>ord. enum_value AXT_FUNC_RESULT (below_min_name ord)) ordinals =
     map Some [1160, 1170, 1180, 1190, 1200, 1210, 1220, 1230, 1240, 1250, 1252]
   \<and> map (\<lambda>ord. enum_value AXT_FUNC_RESULT (above_max_name ord)) ordinals =
     map Some [1161, 1171, 1181, 1191, 1201, 1211, 1221, 1231, 1241, 1251, 1253]
   \<and> length ordinals = 11
   \<and> distinct (map (\<lambda>ord. enum_value AXT_FUNC_RESULT (below_min_name ord)) ordinals
        @ map (\<lambda>ord. enum_value AXT_FUNC_RESULT (above_max_name ord)) ordinals)"
proof -
  have "length ordinals = 11"
    by (simp add: ordinals_def)
  moreover have "distinct (map (\<lambda>ord. enum_value AXT_FUNC_RESULT (below_min_name ord)) ordinals
        @ map (\<lambda>ord. enum_value AXT_FUNC_RESULT (above_max_name ord)) ordinals)"
    unfolding below_min_values above_max_values by simp
  ultimately show ?thesis
    using below_min_values above_max_values by simp
qed

text \<open>
  C2, as stated: roughly 800 failure codes, and each subsystem prefix has a numeric band
  disjoint from the bands of the other subsystems. The header declares 456 failure codes,
  and the queue codes 5010 to 5017 lie inside the band of the motion codes, which runs
  from 4001 to 6002.
\<close>

theorem subsystem_bands_counterexample:
  "length (tl AXT_FUNC_RESULT) = 456
   \<and> subsystem_band ''AXT_RT_MOTION_'' = Some (4001, 6002)
   \<and> subsystem_band ''AXT_RT_QUEUE_'' = Some (5010, 5017)
   \<and> \<not> bands_disjoint (4001, 6002) (5010, 5017)"
  using AXT_FUNC_RESULT_length band_MOTION band_QUEUE by simp

text \<open>
  C2, amended. \<^verbatim>\<open>AXT_FUNC_RESULT\<close> declares 456 failure codes besides success, all with
  different values. The bands of the prefixes \<^verbatim>\<open>AXT_RT_AIO_\<close>, \<^verbatim>\<open>AXT_RT_DIO_\<close>,
  \<^verbatim>\<open>AXT_RT_CNT_\<close>, \<^verbatim>\<open>AXT_RT_COM_\<close>, \<^verbatim>\<open>AXT_RT_M3_\<close>, \<^verbatim>\<open>AXT_RT_QUEUE_\<close> and \<^verbatim>\<open>AXT_RT_MACRO_\<close> are
  pairwise disjoint; the band of \<^verbatim>\<open>AXT_RT_MOTION_\<close> is 4001 to 6002.
\<close>

theorem subsystem_bands:
  "length (tl AXT_FUNC_RESULT) = 456
   \<and> distinct (map snd AXT_FUNC_RESULT)
   \<and> map subsystem_band [''AXT_RT_AIO_'', ''AXT_RT_DIO_'', ''AXT_RT_CNT_'', ''AXT_RT_COM_'',
        ''AXT_RT_M3_'', ''AXT_RT_QUEUE_'', ''AXT_RT_MACRO_''] =
      map Some [(2001, 2110), (3001, 3109), (3201, 3313), (3401, 3508),
        (4500, 4500), (5010, 5017), (6700, 6722)]
   \<and> pairwise_disjoint [(2001, 2110), (3001, 3109), (3201, 3313), (3401, 3508),
        (4500, 4500), (5010, 5017), (6700, 6722)]
   \<and> subsystem_band ''AXT_RT_MOTION_'' = Some (4001, 6002)"
proof -
  have "distinct (map snd AXT_FUNC_RESULT)"
    using AXT_FUNC_RESULT_increasing by (rule strictly_increasing_distinct)
  then show ?thesis
    using AXT_FUNC_RESULT_length band_AIO band_DIO band_CNT band_COM band_M3 band_QUEUE
      band_MACRO band_MOTION
    by simp
qed

section \<open>Facts about the prototypes of AXM.h\<close>

lemma AXM_prototypes_length: "length AXM_prototypes = 391"
  unfolding AXM_prototypes_def by simp

lemma AXM_prototypes_uniform:
  "list_all (\<lambda>p. ret p = C_DWORD \<and> conv p = Stdcall \<and> starts_with ''Axm'' (fname p)
      \<and> extern_C_open < line p \<and> line p < extern_C_close) AXM_prototypes"
  unfolding AXM_prototypes_def extern_C_open_def extern_C_close_def
  by (simp only: eval_basic eval_list eval_names eval_prototype cong: list_all_weak_cong; simp)

lemma queries_without_pointer:
  "filter (\<lambda>p. is_query p \<and> \<not> has_pointer_param p) AXM_prototypes =
     [Prototype 55 C_DWORD Stdcall ''AxmInfoIsInvalidAxisNo'' [(C_long, ''lAxisNo'')],
      Prototype 57 C_DWORD Stdcall ''AxmInfoGetAxisStatus'' [(C_long, ''lAxisNo'')]]"
  unfolding AXM_prototypes_def is_query_def has_pointer_param_def
  by (simp only: eval_basic eval_list eval_names eval_prototype
      cong: filter_weak_cong if_weak_cong; simp)

lemma queries_count: "length (filter is_query AXM_prototypes) = 123"
  unfolding AXM_prototypes_def is_query_def
  by (simp only: eval_basic eval_list eval_names eval_prototype
      cong: filter_weak_cong if_weak_cong; simp)

lemma return_mode_prototypes:
  "filter has_return_mode_param AXM_prototypes =
     [Prototype 528 C_DWORD Stdcall ''AxmStatusReadServoAlarm''
        [(C_long, ''lAxisNo''), (C_DWORD, ''uReturnMode''), (Ptr C_DWORD, ''upAlarmCode'')],
      Prototype 541 C_DWORD Stdcall ''AxmStatusReadServoAlarmHistory''
        [(C_long, ''lAxisNo''), (C_DWORD, ''uReturnMode''), (Ptr C_long, ''lpCount''),
         (Ptr C_DWORD, ''upAlarmCode'')]]"
  unfolding AXM_prototypes_def has_return_mode_param_def
  by (simp only: eval_basic eval_list eval_names eval_prototype
      cong: filter_weak_cong if_weak_cong; simp)

lemma move_prototypes_count: "length (filter is_move AXM_prototypes) = 37"
  unfolding AXM_prototypes_def is_move_def
  by (simp only: eval_basic eval_list eval_names eval_prototype
      cong: filter_weak_cong if_weak_cong; simp)

lemma move_with_return_mode:
  "filter (\<lambda>p. is_move p \<and> has_return_mode_param p) AXM_prototypes = []"
  unfolding AXM_prototypes_def is_move_def has_return_mode_param_def
  by (simp only: eval_basic eval_list eval_names eval_prototype
      cong: filter_weak_cong if_weak_cong; simp)

lemma find_AxmInfoIsInvalidAxisNo:
  "find_prototype AXM_prototypes ''AxmInfoIsInvalidAxisNo'' =
     Some (Prototype 55 C_DWORD Stdcall ''AxmInfoIsInvalidAxisNo'' [(C_long, ''lAxisNo'')])"
  unfolding AXM_prototypes_def
  by (simp only: eval_basic eval_prototype find_prototype.simps
      cong: find_prototype_weak_cong if_weak_cong)

lemma signature_AxmMoveStartPos:
  "signature ''AxmMoveStartPos'' = Some [(C_long, ''lAxisNo''), (C_double, ''dPos''),
     (C_double, ''dVel''), (C_double, ''dAccel''), (C_double, ''dDecel'')]"
  unfolding signature_def AXM_prototypes_def
  by (simp only: eval_basic eval_prototype find_prototype.simps option.map
      cong: find_prototype_weak_cong if_weak_cong)

lemma signature_AxmMovePos:
  "signature ''AxmMovePos'' = Some [(C_long, ''lAxisNo''), (C_double, ''dPos''),
     (C_double, ''dVel''), (C_double, ''dAccel''), (C_double, ''dDecel'')]"
  unfolding signature_def AXM_prototypes_def
  by (simp only: eval_basic eval_prototype find_prototype.simps option.map
      cong: find_prototype_weak_cong if_weak_cong)

lemma signature_AxmMoveVel:
  "signature ''AxmMoveVel'' = Some [(C_long, ''lAxisNo''), (C_double, ''dVel''),
     (C_double, ''dAccel''), (C_double, ''dDecel'')]"
  unfolding signature_def AXM_prototypes_def
  by (simp only: eval_basic eval_prototype find_prototype.simps option.map
      cong: find_prototype_weak_cong if_weak_cong)

lemma signature_AxmMoveStartMultiPos:
  "signature ''AxmMoveStartMultiPos'' = Some [(C_long, ''lArraySize''), (Ptr C_long, ''lpAxisNo''),
     (Ptr C_double, ''dpPos''), (Ptr C_double, ''dpVel''), (Ptr C_double, ''dpAccel''),
     (Ptr C_double, ''dpDecel'')]"
  unfolding signature_def AXM_prototypes_def
  by (simp only: eval_basic eval_prototype find_prototype.simps option.map
      cong: find_prototype_weak_cong if_weak_cong)

lemma signature_AxmMoveToAbsPos:
  "signature ''AxmMoveToAbsPos'' = Some [(C_long, ''lAxisNo''), (C_double, ''dPos''),
     (C_double, ''dVel''), (C_double, ''dAccel''), (C_double, ''dDecel'')]"
  unfolding signature_def AXM_prototypes_def
  by (simp only: eval_basic eval_prototype find_prototype.simps option.map
      cong: find_prototype_weak_cong if_weak_cong)

lemma signature_AxmMoveGetStartPosParam:
  "signature ''AxmMoveGetStartPosParam'' = Some [(Ptr C_long, ''lpAxisNo''), (Ptr C_double, ''dpPos''),
     (Ptr C_double, ''dpVel''), (Ptr C_double, ''dpAccel''), (Ptr C_double, ''dpDecel'')]"
  unfolding signature_def AXM_prototypes_def
  by (simp only: eval_basic eval_prototype find_prototype.simps option.map
      cong: find_prototype_weak_cong if_weak_cong)

lemma signature_AxmMoveGetPosParam:
  "signature ''AxmMoveGetPosParam'' = Some [(Ptr C_long, ''lpAxisNo''), (Ptr C_double, ''dpPos''),
     (Ptr C_double, ''dpVel''), (Ptr C_double, ''dpAccel''), (Ptr C_double, ''dpDecel'')]"
  unfolding signature_def AXM_prototypes_def
  by (simp only: eval_basic eval_prototype find_prototype.simps option.map
      cong: find_prototype_weak_cong if_weak_cong)

lemma signature_AxmMoveGetVelParam:
  "signature ''AxmMoveGetVelParam'' = Some [(Ptr C_long, ''lpAxisNo''), (Ptr C_double, ''dpVel''),
     (Ptr C_double, ''dpAccel''), (Ptr C_double, ''dpDecel'')]"
  unfolding signature_def AXM_prototypes_def
  by (simp only: eval_basic eval_prototype find_prototype.simps option.map
      cong: find_prototype_weak_cong if_weak_cong)

lemma signature_AxmMoveGetStartMultiPosParam:
  "signature ''AxmMoveGetStartMultiPosParam'' = Some [(Ptr C_long, ''lpArraySize''),
     (Ptr C_long, ''lpAxesNoArrGet''), (Ptr C_double, ''dpPosArrGet''),
     (Ptr C_double, ''dpVelArrGet''), (Ptr C_double, ''dpAccelArrGet''),
     (Ptr C_double, ''dpDecelArrGet'')]"
  unfolding signature_def AXM_prototypes_def
  by (simp only: eval_basic eval_prototype find_prototype.simps option.map
      cong: find_prototype_weak_cong if_weak_cong)

lemma signature_AxmMoveGetToAbsPosParam:
  "signature ''AxmMoveGetToAbsPosParam'' = Some [(Ptr C_long, ''lpAxisNo''), (Ptr C_double, ''dpPos''),
     (Ptr C_double, ''dpVel''), (Ptr C_double, ''dpAccel''), (Ptr C_double, ''dpDecel'')]"
  unfolding signature_def AXM_prototypes_def
  by (simp only: eval_basic eval_prototype find_prototype.simps option.map
      cong: find_prototype_weak_cong if_weak_cong)

lemma signature_AxmStatusReadMotionInfo:
  "signature ''AxmStatusReadMotionInfo'' = Some [(C_long, ''lAxisNo''), (C_PMOTION_INFO, ''pMI'')]"
  unfolding signature_def AXM_prototypes_def
  by (simp only: eval_basic eval_prototype find_prototype.simps option.map
      cong: find_prototype_weak_cong if_weak_cong)

lemma no_prototype_mirrors_multi_pos:
  "filter (\<lambda>p. params p = AXT_MOVE_START_MULTI_POS_PARAM) AXM_prototypes = []"
  unfolding AXM_prototypes_def AXT_MOVE_START_MULTI_POS_PARAM_def
  by (simp only: eval_basic eval_list eval_names eval_prototype
      cong: filter_weak_cong if_weak_cong; simp)

lemma AXT_FUNC_RESULT_fits_DWORD:
  "list_all (\<lambda>e. uint (DWORD_of_code (snd e)) = snd e) AXT_FUNC_RESULT"
proof -
  have "uint (DWORD_of_code (snd e)) = snd e" if "e \<in> set AXT_FUNC_RESULT" for e
  proof -
    from that AXT_FUNC_RESULT_shape have "0 \<le> snd e \<and> snd e < 2 ^ 32"
      unfolding list_all_iff by fastforce
    then show ?thesis
      by (simp add: uint_DWORD_of_code)
  qed
  then show ?thesis
    unfolding list_all_iff by blast
qed

lemma accessor_retrieves:
  assumes "AxmMoveGetParam a (after_calls st h) (0, outs)"
    and "move_function_of a = Some f"
    and "last_successful f h = Some args"
  shows "outs = args"
  using assms after_calls_last_successful [of st h f]
  by (simp add: AxmMoveGetParam_def)

lemma move_function_of_AxmMoveGetPosParam:
  "move_function_of ''AxmMoveGetPosParam'' = Some ''AxmMovePos''"
  by (simp add: move_function_of_def move_param_accessors_def)

section \<open>Claims about the prototypes\<close>

text \<open>
  C1. Every prototype of AXM.h is an \<^verbatim>\<open>Axm\<close> function declared between the opening and the
  closing line of the \<^verbatim>\<open>extern "C"\<close> block, with the \<^verbatim>\<open>__stdcall\<close> calling convention and the
  return type \<^verbatim>\<open>DWORD\<close>. What a call of such a function returns is the value of an enumerator
  of \<^verbatim>\<open>AXT_FUNC_RESULT\<close>, and it is 0 exactly when that enumerator is \<^verbatim>\<open>AXT_RT_SUCCESS\<close>;
  every value of the enumeration is returned unchanged as a \<^verbatim>\<open>DWORD\<close>.
\<close>

theorem prototypes_return_status_code:
  "length AXM_prototypes = 391
   \<and> list_all (\<lambda>p. ret p = C_DWORD \<and> conv p = Stdcall \<and> starts_with ''Axm'' (fname p)
        \<and> extern_C_open < line p \<and> line p < extern_C_close) AXM_prototypes
   \<and> length AXT_FUNC_RESULT = 457
   \<and> list_all (\<lambda>e. uint (DWORD_of_code (snd e)) = snd e) AXT_FUNC_RESULT
   \<and> enum_value AXT_FUNC_RESULT ''AXT_RT_SUCCESS'' = Some 0
   \<and> (call_returns p r \<longrightarrow>
        ret p = C_DWORD \<and> conv p = Stdcall
        \<and> extern_C_open < line p \<and> line p < extern_C_close
        \<and> (\<exists>n. (n, uint r) \<in> set AXT_FUNC_RESULT \<and> (r = 0 \<longleftrightarrow> n = ''AXT_RT_SUCCESS'')))"
proof -
  have call: "ret p = C_DWORD \<and> conv p = Stdcall
        \<and> extern_C_open < line p \<and> line p < extern_C_close
        \<and> (\<exists>n. (n, uint r) \<in> set AXT_FUNC_RESULT \<and> (r = 0 \<longleftrightarrow> n = ''AXT_RT_SUCCESS''))"
    if "call_returns p r"
  proof -
    from that have mem: "p \<in> set AXM_prototypes" and code: "is_status_code r"
      by (simp_all add: call_returns_def)
    from mem AXM_prototypes_uniform have "ret p = C_DWORD \<and> conv p = Stdcall
        \<and> extern_C_open < line p \<and> line p < extern_C_close"
      unfolding list_all_iff by simp
    with status_codeD [OF code] show ?thesis
      by simp
  qed
  with AXM_prototypes_length AXM_prototypes_uniform AXT_FUNC_RESULT_length
    AXT_FUNC_RESULT_fits_DWORD AXT_RT_SUCCESS_value
  show ?thesis
    by simp
qed

theorem prototypes_return_status_code_witness:
  "call_returns (Prototype 55 C_DWORD Stdcall ''AxmInfoIsInvalidAxisNo'' [(C_long, ''lAxisNo'')]) 1001
   \<and> (\<exists>n. (n, uint (1001 :: DWORD)) \<in> set AXT_FUNC_RESULT
        \<and> ((1001 :: DWORD) = 0 \<longleftrightarrow> n = ''AXT_RT_SUCCESS''))"
proof -
  have "is_status_code 1001"
    using status_codeI [OF AXT_RT_OPEN_ERROR_value] by (simp add: DWORD_of_code_def)
  with find_prototype_member [OF find_AxmInfoIsInvalidAxisNo]
  have call: "call_returns
      (Prototype 55 C_DWORD Stdcall ''AxmInfoIsInvalidAxisNo'' [(C_long, ''lAxisNo'')]) 1001"
    by (simp add: call_returns_def)
  with prototypes_return_status_code
    [where p = "Prototype 55 C_DWORD Stdcall ''AxmInfoIsInvalidAxisNo'' [(C_long, ''lAxisNo'')]"
       and r = 1001]
  show ?thesis
    by blast
qed

text \<open>
  C3, as stated: every query function writes its results through output-pointer
  parameters. \<^verbatim>\<open>AxmInfoIsInvalidAxisNo(long lAxisNo)\<close> belongs to the \<^verbatim>\<open>AxmInfo\<close> family and
  has no pointer parameter at all.
\<close>

theorem query_output_pointer_counterexample:
  "find_prototype AXM_prototypes ''AxmInfoIsInvalidAxisNo'' =
     Some (Prototype 55 C_DWORD Stdcall ''AxmInfoIsInvalidAxisNo'' [(C_long, ''lAxisNo'')])
   \<and> is_query (Prototype 55 C_DWORD Stdcall ''AxmInfoIsInvalidAxisNo'' [(C_long, ''lAxisNo'')])
   \<and> \<not> has_pointer_param
        (Prototype 55 C_DWORD Stdcall ''AxmInfoIsInvalidAxisNo'' [(C_long, ''lAxisNo'')])"
  using find_AxmInfoIsInvalidAxisNo
  by (simp add: is_query_def has_pointer_param_def)

text \<open>
  C3, amended. The 123 prototypes of the families \<^verbatim>\<open>AxmInfo*\<close>, \<^verbatim>\<open>Axm*Get*\<close> and
  \<^verbatim>\<open>AxmStatusRead*\<close> return \<^verbatim>\<open>DWORD\<close>, and each of them has a pointer parameter for its
  results, except \<^verbatim>\<open>AxmInfoIsInvalidAxisNo\<close> and \<^verbatim>\<open>AxmInfoGetAxisStatus\<close>, whose only
  parameter is the axis number.
\<close>

theorem query_output_pointer:
  "length (filter is_query AXM_prototypes) = 123
   \<and> list_all (\<lambda>p. ret p = C_DWORD) (filter is_query AXM_prototypes)
   \<and> filter (\<lambda>p. is_query p \<and> \<not> has_pointer_param p) AXM_prototypes =
       [Prototype 55 C_DWORD Stdcall ''AxmInfoIsInvalidAxisNo'' [(C_long, ''lAxisNo'')],
        Prototype 57 C_DWORD Stdcall ''AxmInfoGetAxisStatus'' [(C_long, ''lAxisNo'')]]"
proof -
  have "ret p = C_DWORD" if "p \<in> set (filter is_query AXM_prototypes)" for p
    using that AXM_prototypes_uniform unfolding list_all_iff by simp
  then have "list_all (\<lambda>p. ret p = C_DWORD) (filter is_query AXM_prototypes)"
    unfolding list_all_iff by blast
  with queries_count queries_without_pointer show ?thesis
    by simp
qed

text \<open>
  C4, as stated: some move-start functions of the \<^verbatim>\<open>AxmMove\<close> family have an explicit
  return-mode parameter. None of the 37 \<^verbatim>\<open>AxmMove\<close> prototypes has one.
\<close>

theorem move_return_mode_counterexample:
  "length (filter is_move AXM_prototypes) = 37
   \<and> filter (\<lambda>p. is_move p \<and> has_return_mode_param p) AXM_prototypes = []"
  using move_prototypes_count move_with_return_mode by simp

text \<open>
  C4, amended. \<^verbatim>\<open>AXT_MOTION_FUNC_RETURN_MODE\<close> has the values \<^verbatim>\<open>FUNC_RETURN_IMMEDIATE\<close> = 0,
  \<^verbatim>\<open>FUNC_RETURN_BLOCKING\<close> = 1 and \<^verbatim>\<open>FUNC_RETURN_NON_BLOCKING\<close> = 2. The prototypes with an
  explicit return-mode parameter, \<^verbatim>\<open>DWORD uReturnMode\<close>, are \<^verbatim>\<open>AxmStatusReadServoAlarm\<close> and
  \<^verbatim>\<open>AxmStatusReadServoAlarmHistory\<close>, and no others.
\<close>

theorem return_mode_parameter:
  "map return_mode_value [FUNC_RETURN_IMMEDIATE, FUNC_RETURN_BLOCKING, FUNC_RETURN_NON_BLOCKING]
     = [0, 1, 2]
   \<and> (UNIV :: AXT_MOTION_FUNC_RETURN_MODE set)
     = {FUNC_RETURN_IMMEDIATE, FUNC_RETURN_BLOCKING, FUNC_RETURN_NON_BLOCKING}
   \<and> filter has_return_mode_param AXM_prototypes =
     [Prototype 528 C_DWORD Stdcall ''AxmStatusReadServoAlarm''
        [(C_long, ''lAxisNo''), (C_DWORD, ''uReturnMode''), (Ptr C_DWORD, ''upAlarmCode'')],
      Prototype 541 C_DWORD Stdcall ''AxmStatusReadServoAlarmHistory''
        [(C_long, ''lAxisNo''), (C_DWORD, ''uReturnMode''), (Ptr C_long, ''lpCount''),
         (Ptr C_DWORD, ''upAlarmCode'')]]"
proof -
  have "(UNIV :: AXT_MOTION_FUNC_RETURN_MODE set)
     = {FUNC_RETURN_IMMEDIATE, FUNC_RETURN_BLOCKING, FUNC_RETURN_NON_BLOCKING}"
  proof
    show "UNIV \<subseteq> {FUNC_RETURN_IMMEDIATE, FUNC_RETURN_BLOCKING, FUNC_RETURN_NON_BLOCKING}"
    proof
      fix m :: AXT_MOTION_FUNC_RETURN_MODE
      show "m \<in> {FUNC_RETURN_IMMEDIATE, FUNC_RETURN_BLOCKING, FUNC_RETURN_NON_BLOCKING}"
        by (cases m) simp_all
    qed
  qed simp
  with return_mode_prototypes show ?thesis
    by simp
qed

text \<open>
  C7, as stated: the fields of every parameter struct mirror the parameters of a move
  function one for one in name and type, and the accessor retrieves the arguments most
  recently passed to that function. The fields of \<^verbatim>\<open>AXT_MOVE_START_MULTI_POS_PARAM\<close> are
  named \<^verbatim>\<open>lMultiAxesNo\<close>, \<^verbatim>\<open>dMultiPos\<close>, ... while \<^verbatim>\<open>AxmMoveStartMultiPos\<close> names its
  parameters \<^verbatim>\<open>lpAxisNo\<close>, \<^verbatim>\<open>dpPos\<close>, ...; no prototype of AXM.h has this struct's fields as
  its parameter list. And after a call of \<^verbatim>\<open>AxmMovePos\<close> that succeeded and a later one that
  failed with \<^verbatim>\<open>AXT_RT_MOTION_ERROR_IN_MOTION\<close>, \<^verbatim>\<open>AxmMoveGetPosParam\<close> hands back the
  arguments of the first call, not those most recently passed.
\<close>

theorem move_param_struct_counterexample:
  "signature ''AxmMoveStartMultiPos'' = Some [(C_long, ''lArraySize''), (Ptr C_long, ''lpAxisNo''),
     (Ptr C_double, ''dpPos''), (Ptr C_double, ''dpVel''), (Ptr C_double, ''dpAccel''),
     (Ptr C_double, ''dpDecel'')]
   \<and> signature ''AxmMoveStartMultiPos'' \<noteq> Some AXT_MOVE_START_MULTI_POS_PARAM
   \<and> filter (\<lambda>p. params p = AXT_MOVE_START_MULTI_POS_PARAM) AXM_prototypes = []
   \<and> enum_value AXT_FUNC_RESULT ''AXT_RT_MOTION_ERROR_IN_MOTION'' = Some 4152
   \<and> most_recently_passed ''AxmMovePos''
        [(''AxmMovePos'', [0, 100, 50, 10, 10 :: int], 0),
         (''AxmMovePos'', [0, 200, 50, 10, 10], 4152)] = Some [0, 200, 50, 10, 10]
   \<and> AxmMoveGetParam ''AxmMoveGetPosParam''
        (after_calls (\<lambda>f. [])
          [(''AxmMovePos'', [0, 100, 50, 10, 10 :: int], 0),
           (''AxmMovePos'', [0, 200, 50, 10, 10], 4152)])
        (0, [0, 100, 50, 10, 10])
   \<and> \<not> AxmMoveGetParam ''AxmMoveGetPosParam''
        (after_calls (\<lambda>f. [])
          [(''AxmMovePos'', [0, 100, 50, 10, 10 :: int], 0),
           (''AxmMovePos'', [0, 200, 50, 10, 10], 4152)])
        (0, [0, 200, 50, 10, 10])"
  using signature_AxmMoveStartMultiPos no_prototype_mirrors_multi_pos
    AXT_RT_MOTION_ERROR_IN_MOTION_value status_code_success
  by (simp add: AXT_MOVE_START_MULTI_POS_PARAM_def most_recently_passed_def AxmMoveGetParam_def
      after_calls_def move_function_of_AxmMoveGetPosParam)

text \<open>
  C7, amended. Each parameter struct has a move function whose parameter types are the
  struct's field types in order: \<^verbatim>\<open>AxmMoveStartPos\<close>, \<^verbatim>\<open>AxmMovePos\<close>, \<^verbatim>\<open>AxmMoveVel\<close>,
  \<^verbatim>\<open>AxmMoveStartMultiPos\<close> and \<^verbatim>\<open>AxmMoveToAbsPos\<close>. For the four single-axis structs the
  names agree as well. For each struct an accessor \<^verbatim>\<open>AxmMoveGet...Param\<close> is declared that
  takes one pointer per field of the struct, and when it succeeds it hands back the
  arguments most recently passed to its move function in a call that succeeded; the
  arguments of a failed call are not stored.
\<close>

theorem move_param_structs:
  "signature ''AxmMoveStartPos'' = Some AXT_MOVE_START_POS_PARAM
   \<and> signature ''AxmMovePos'' = Some AXT_MOVE_POS_PARAM
   \<and> signature ''AxmMoveVel'' = Some AXT_MOVE_VEL_PARAM
   \<and> signature ''AxmMoveToAbsPos'' = Some AXT_MOVE_TO_ABS_POS_PARAM
   \<and> map_option (map fst) (signature ''AxmMoveStartMultiPos'')
       = Some (map fst AXT_MOVE_START_MULTI_POS_PARAM)
   \<and> map_option (map fst) (signature ''AxmMoveGetStartPosParam'')
       = Some (map (\<lambda>m. out_type (fst m)) AXT_MOVE_START_POS_PARAM)
   \<and> map_option (map fst) (signature ''AxmMoveGetPosParam'')
       = Some (map (\<lambda>m. out_type (fst m)) AXT_MOVE_POS_PARAM)
   \<and> map_option (map fst) (signature ''AxmMoveGetVelParam'')
       = Some (map (\<lambda>m. out_type (fst m)) AXT_MOVE_VEL_PARAM)
   \<and> map_option (map fst) (signature ''AxmMoveGetStartMultiPosParam'')
       = Some (map (\<lambda>m. out_type (fst m)) AXT_MOVE_START_MULTI_POS_PARAM)
   \<and> map_option (map fst) (signature ''AxmMoveGetToAbsPosParam'')
       = Some (map (\<lambda>m. out_type (fst m)) AXT_MOVE_TO_ABS_POS_PARAM)
   \<and> map move_function_of [''AxmMoveGetStartPosParam'', ''AxmMoveGetPosParam'',
        ''AxmMoveGetVelParam'', ''AxmMoveGetStartMultiPosParam'', ''AxmMoveGetToAbsPosParam'']
       = map Some [''AxmMoveStartPos'', ''AxmMovePos'', ''AxmMoveVel'', ''AxmMoveStartMultiPos'',
        ''AxmMoveToAbsPos'']
   \<and> (AxmMoveGetParam a (after_calls st h) (0, outs) \<and> move_function_of a = Some f
        \<and> last_successful f h = Some args \<longrightarrow> outs = args)
   \<and> (AxmMoveGetParam a (after_calls st h) (0, outs) \<and> move_function_of a = Some f
        \<and> last_successful f h = None \<longrightarrow> outs = st f)"
proof -
  have names: "map move_function_of [''AxmMoveGetStartPosParam'', ''AxmMoveGetPosParam'',
        ''AxmMoveGetVelParam'', ''AxmMoveGetStartMultiPosParam'', ''AxmMoveGetToAbsPosParam'']
       = map Some [''AxmMoveStartPos'', ''AxmMovePos'', ''AxmMoveVel'', ''AxmMoveStartMultiPos'',
        ''AxmMoveToAbsPos'']"
    by (simp add: move_function_of_def move_param_accessors_def)
  have stored: "outs = args"
    if "AxmMoveGetParam a (after_calls st h) (0, outs)" "move_function_of a = Some f"
      "last_successful f h = Some args"
    using that by (rule accessor_retrieves)
  have initial: "outs = st f"
    if "AxmMoveGetParam a (after_calls st h) (0, outs)" "move_function_of a = Some f"
      "last_successful f h = None"
    using that after_calls_last_successful [of st h f] by (simp add: AxmMoveGetParam_def)
  have decls: "signature ''AxmMoveStartPos'' = Some AXT_MOVE_START_POS_PARAM
   \<and> signature ''AxmMovePos'' = Some AXT_MOVE_POS_PARAM
   \<and> signature ''AxmMoveVel'' = Some AXT_MOVE_VEL_PARAM
   \<and> signature ''AxmMoveToAbsPos'' = Some AXT_MOVE_TO_ABS_POS_PARAM
   \<and> map_option (map fst) (signature ''AxmMoveStartMultiPos'')
       = Some (map fst AXT_MOVE_START_MULTI_POS_PARAM)
   \<and> map_option (map fst) (signature ''AxmMoveGetStartPosParam'')
       = Some (map (\<lambda>m. out_type (fst m)) AXT_MOVE_START_POS_PARAM)
   \<and> map_option (map fst) (signature ''AxmMoveGetPosParam'')
       = Some (map (\<lambda>m. out_type (fst m)) AXT_MOVE_POS_PARAM)
   \<and> map_option (map fst) (signature ''AxmMoveGetVelParam'')
       = Some (map (\<lambda>m. out_type (fst m)) AXT_MOVE_VEL_PARAM)
   \<and> map_option (map fst) (signature ''AxmMoveGetStartMultiPosParam'')
       = Some (map (\<lambda>m. out_type (fst m)) AXT_MOVE_START_MULTI_POS_PARAM)
   \<and> map_option (map fst) (signature ''AxmMoveGetToAbsPosParam'')
       = Some (map (\<lambda>m. out_type (fst m)) AXT_MOVE_TO_ABS_POS_PARAM)"
    unfolding signature_AxmMoveStartPos signature_AxmMovePos signature_AxmMoveVel
      signature_AxmMoveToAbsPos signature_AxmMoveStartMultiPos signature_AxmMoveGetStartPosParam
      signature_AxmMoveGetPosParam signature_AxmMoveGetVelParam
      signature_AxmMoveGetStartMultiPosParam signature_AxmMoveGetToAbsPosParam
    by (simp add: AXT_MOVE_START_POS_PARAM_def AXT_MOVE_POS_PARAM_def AXT_MOVE_VEL_PARAM_def
        AXT_MOVE_TO_ABS_POS_PARAM_def AXT_MOVE_START_MULTI_POS_PARAM_def)
  from decls names stored initial show ?thesis
    by blast
qed

theorem move_param_structs_witness:
  "AxmMoveGetParam ''AxmMoveGetPosParam''
     (after_calls (\<lambda>f. [])
       [(''AxmMovePos'', [0, 100, 50, 10, 10 :: int], 0),
        (''AxmMovePos'', [0, 200, 50, 10, 10], 4152)])
     (0, [0, 100, 50, 10, 10])
   \<and> move_function_of ''AxmMoveGetPosParam'' = Some ''AxmMovePos''
   \<and> last_successful ''AxmMovePos''
       [(''AxmMovePos'', [0, 100, 50, 10, 10 :: int], 0),
        (''AxmMovePos'', [0, 200, 50, 10, 10], 4152)] = Some [0, 100, 50, 10, 10]
   \<and> signature ''AxmMovePos'' = Some AXT_MOVE_POS_PARAM"
  using move_param_structs [where a = "''AxmMoveGetPosParam''" and f = "''AxmMovePos''"
      and st = "\<lambda>f. []" and outs = "[0, 100, 50, 10, 10 :: int]"
      and args = "[0, 100, 50, 10, 10 :: int]"
      and h = "[(''AxmMovePos'', [0, 100, 50, 10, 10 :: int], 0),
        (''AxmMovePos'', [0, 200, 50, 10, 10], 4152)]"]
    status_code_success
  by (simp add: AxmMoveGetParam_def after_calls_def last_successful_def
      move_function_of_AxmMoveGetPosParam)

section \<open>Claims about the structs\<close>

lemma full_read_mask_value: "full_read_mask = 0x1F"
  by (simp add: full_read_mask_def MOTION_INFO_data_fields_def)

lemma requested_full:
  "requested 0x1F F_dCmdPos" "requested 0x1F F_dActPos" "requested 0x1F F_dwMechSig"
  "requested 0x1F F_dwDrvStat" "requested 0x1F F_dwInput" "requested 0x1F F_dwOutput"
  by (simp_all add: requested_def)

text \<open>
  C5. \<^verbatim>\<open>MOTION_INFO\<close> holds \<^verbatim>\<open>dCmdPos\<close> and \<^verbatim>\<open>dActPos\<close> as \<^verbatim>\<open>double\<close> and \<^verbatim>\<open>dwMechSig\<close>,
  \<^verbatim>\<open>dwDrvStat\<close>, \<^verbatim>\<open>dwInput\<close>, \<^verbatim>\<open>dwOutput\<close> and \<^verbatim>\<open>dwMask\<close> as \<^verbatim>\<open>DWORD\<close>;
  \<^verbatim>\<open>AxmStatusReadMotionInfo\<close> takes the axis number and a pointer to the record. \<^verbatim>\<open>dwMask\<close>
  selects the members that are populated: bit 0 the command position, bit 1 the actual
  position, bit 2 the mechanical signals, bit 3 the driver status and bit 4 the universal
  input and output. A successful read leaves every member that the mask selects equal to
  the driver's value; a mask selects all six data members exactly when it contains 0x1F,
  and with \<^verbatim>\<open>dwMask\<close> = 0x1F all six are populated.
\<close>

theorem MOTION_INFO_record:
  "MOTION_INFO_decl = [(C_double, ''dCmdPos''), (C_double, ''dActPos''), (C_DWORD, ''dwMechSig''),
      (C_DWORD, ''dwDrvStat''), (C_DWORD, ''dwInput''), (C_DWORD, ''dwOutput''), (C_DWORD, ''dwMask'')]
   \<and> signature ''AxmStatusReadMotionInfo'' = Some [(C_long, ''lAxisNo''), (C_PMOTION_INFO, ''pMI'')]
   \<and> requested m F_dCmdPos = bit m 0
   \<and> requested m F_dActPos = bit m 1
   \<and> requested m F_dwMechSig = bit m 2
   \<and> requested m F_dwDrvStat = bit m 3
   \<and> requested m F_dwInput = bit m 4
   \<and> requested m F_dwOutput = bit m 4
   \<and> list_all (requested m) MOTION_INFO_data_fields = (m AND 0x1F = 0x1F)
   \<and> list_all (requested 0x1F) MOTION_INFO_data_fields
   \<and> (AxmStatusReadMotionInfo axes lAxisNo mi (0, mi') \<and> requested (dwMask mi) f
        \<longrightarrow> field_agrees f (axes lAxisNo) mi')
   \<and> (AxmStatusReadMotionInfo axes lAxisNo mi (0, mi') \<and> dwMask mi = 0x1F
        \<longrightarrow> dCmdPos mi' = dCmdPos (axes lAxisNo) \<and> dActPos mi' = dActPos (axes lAxisNo)
          \<and> dwMechSig mi' = dwMechSig (axes lAxisNo) \<and> dwDrvStat mi' = dwDrvStat (axes lAxisNo)
          \<and> dwInput mi' = dwInput (axes lAxisNo) \<and> dwOutput mi' = dwOutput (axes lAxisNo))"
proof -
  have sel: "field_agrees g (axes lAxisNo) mi'"
    if "AxmStatusReadMotionInfo axes lAxisNo mi (0, mi')" "requested (dwMask mi) g" for g
    using that data_field_listed [of g]
    by (auto simp add: AxmStatusReadMotionInfo_def list_all_iff)
  have full: "dCmdPos mi' = dCmdPos (axes lAxisNo) \<and> dActPos mi' = dActPos (axes lAxisNo)
          \<and> dwMechSig mi' = dwMechSig (axes lAxisNo) \<and> dwDrvStat mi' = dwDrvStat (axes lAxisNo)
          \<and> dwInput mi' = dwInput (axes lAxisNo) \<and> dwOutput mi' = dwOutput (axes lAxisNo)"
    if read: "AxmStatusReadMotionInfo axes lAxisNo mi (0, mi')" and mask: "dwMask mi = 0x1F"
    using sel [OF read, of F_dCmdPos] sel [OF read, of F_dActPos] sel [OF read, of F_dwMechSig]
      sel [OF read, of F_dwDrvStat] sel [OF read, of F_dwInput] sel [OF read, of F_dwOutput]
      requested_full
    by (simp add: mask)
  have decl: "MOTION_INFO_decl = [(C_double, ''dCmdPos''), (C_double, ''dActPos''),
      (C_DWORD, ''dwMechSig''), (C_DWORD, ''dwDrvStat''), (C_DWORD, ''dwInput''),
      (C_DWORD, ''dwOutput''), (C_DWORD, ''dwMask'')]"
    by (simp add: MOTION_INFO_decl_def)
  have all: "list_all (requested 0x1F) MOTION_INFO_data_fields"
    by (simp add: requested_all_iff)
  from decl signature_AxmStatusReadMotionInfo requested_bits [of m] requested_all_iff [of m]
    all sel full
  show ?thesis
    by blast
qed

theorem MOTION_INFO_record_witness:
  "AxmStatusReadMotionInfo
     (\<lambda>a. \<lparr>dCmdPos = 7, dActPos = 8, dwMechSig = 1, dwDrvStat = 2, dwInput = 3, dwOutput = 4,
        dwMask = 0\<rparr>)
     0
     \<lparr>dCmdPos = 0, dActPos = 0, dwMechSig = 0, dwDrvStat = 0, dwInput = 0, dwOutput = 0,
        dwMask = 0x1F\<rparr>
     (0, \<lparr>dCmdPos = 7, dActPos = 8, dwMechSig = 1, dwDrvStat = 2, dwInput = 3, dwOutput = 4,
        dwMask = 0x1F\<rparr>)
   \<and> requested 0x1F F_dwInput
   \<and> field_agrees F_dwInput
        \<lparr>dCmdPos = 7, dActPos = 8, dwMechSig = 1, dwDrvStat = 2, dwInput = 3, dwOutput = 4,
          dwMask = 0\<rparr>
        \<lparr>dCmdPos = 7, dActPos = 8, dwMechSig = 1, dwDrvStat = 2, dwInput = 3, dwOutput = 4,
          dwMask = 0x1F\<rparr>"
proof -
  have read: "AxmStatusReadMotionInfo
     (\<lambda>a. \<lparr>dCmdPos = 7, dActPos = 8, dwMechSig = 1, dwDrvStat = 2, dwInput = 3, dwOutput = 4,
        dwMask = 0\<rparr>)
     0
     \<lparr>dCmdPos = 0, dActPos = 0, dwMechSig = 0, dwDrvStat = 0, dwInput = 0, dwOutput = 0,
        dwMask = 0x1F\<rparr>
     (0, \<lparr>dCmdPos = 7, dActPos = 8, dwMechSig = 1, dwDrvStat = 2, dwInput = 3, dwOutput = 4,
        dwMask = 0x1F\<rparr>)"
    using status_code_success
    by (simp add: AxmStatusReadMotionInfo_def MOTION_INFO_data_fields_def)
  have req: "requested 0x1F F_dwInput"
    by (simp add: requested_def)
  from MOTION_INFO_record
    [where axes = "\<lambda>a. \<lparr>dCmdPos = 7, dActPos = 8, dwMechSig = 1, dwDrvStat = 2, dwInput = 3,
        dwOutput = 4, dwMask = 0\<rparr>"
      and lAxisNo = 0
      and mi = "\<lparr>dCmdPos = 0, dActPos = 0, dwMechSig = 0, dwDrvStat = 0, dwInput = 0,
        dwOutput = 0, dwMask = 0x1F\<rparr>"
      and mi' = "\<lparr>dCmdPos = 7, dActPos = 8, dwMechSig = 1, dwDrvStat = 2, dwInput = 3,
        dwOutput = 4, dwMask = 0x1F\<rparr>"
      and f = F_dwInput]
    read req
  show ?thesis
    by simp
qed

text \<open>
  C6. \<^verbatim>\<open>MAX_BOARD_COUNT\<close> is 20. \<^verbatim>\<open>SCAN_RESULT\<close> holds \<^verbatim>\<open>lTotalBoardCount\<close> and an array of
  exactly \<^verbatim>\<open>MAX_BOARD_COUNT\<close> entries of \<^verbatim>\<open>SIIIHBoardInfo\<close>, each with the flag
  \<^verbatim>\<open>bIsSIIIHBoard\<close> and the node count \<^verbatim>\<open>lNodeCount\<close>.
\<close>

theorem SCAN_RESULT_record:
  "MAX_BOARD_COUNT = 20
   \<and> SCAN_RESULT_decl = [(C_long, ''lTotalBoardCount''),
        (C_array (C_struct ''SIIIHBoardInfo'') 20, ''BoardInfo'')]
   \<and> SIIIHBoardInfo_decl = [(C_BOOL, ''bIsSIIIHBoard''), (C_long, ''lNodeCount'')]
   \<and> length (entries (BoardInfo scan)) = 20"
  using entries [of "BoardInfo scan"]
  by (simp add: MAX_BOARD_COUNT_def SCAN_RESULT_decl_def SIIIHBoardInfo_decl_def)

text \<open>
  C10. The members \<^verbatim>\<open>dwInput\<close> and \<^verbatim>\<open>dwOutput\<close> are requested by the same mask bit 0x10. The
  mask of all members is therefore 0x1F, five bits for six data members, and a mask
  requests the universal input exactly when it requests the universal output.
\<close>

theorem universal_io_share_mask_bit:
  "mask_bit F_dwInput = 0x10 \<and> mask_bit F_dwOutput = 0x10
   \<and> full_read_mask = 0x1F
   \<and> length MOTION_INFO_data_fields = 6
   \<and> card (set (map mask_bit MOTION_INFO_data_fields)) = 5
   \<and> requested m F_dwInput = requested m F_dwOutput"
proof -
  have "card (set (map mask_bit MOTION_INFO_data_fields)) = 5"
    by (simp add: MOTION_INFO_data_fields_def)
  then show ?thesis
    by (simp add: full_read_mask_value requested_def MOTION_INFO_data_fields_def)
qed


end
